theory Spec2Isabelle
  imports Complex_Main
begin

section \<open>Conventions of the embedding\<close>

text \<open>
  The Go packages \<^verbatim>\<open>collector\<close>, \<^verbatim>\<open>predictor\<close>, \<^verbatim>\<open>actions\<close> and \<^verbatim>\<open>diagnostics\<close> of the
  healer are embedded function by function.  Structs are records with the field names of
  the source (qualified by the record where two structs share a field name), Go strings
  are HOL strings, \<^verbatim>\<open>float64\<close> values are real numbers (rounding is not modelled; the
  thresholds of the source are compared exactly), \<^verbatim>\<open>int32\<close> sums wrap around explicitly,
  and a \<^verbatim>\<open>time.Duration\<close> is its number of nanoseconds.  A loop of the source is a
  recursive function named after what it iterates over, and a block of a long function is a
  definition of its own.  The functions that only print (\<^verbatim>\<open>PrintStatus\<close>,
  \<^verbatim>\<open>PrintPredictions\<close> and their like), the node metrics and the HTTP server have no image
  here.
\<close>

definition Sprintf_key :: "string \<Rightarrow> string \<Rightarrow> string" where
  \<comment> \<open>\<^verbatim>\<open>fmt.Sprintf("%s/%s", ns, name)\<close>\<close>
  "Sprintf_key ns name = ns @ ''/'' @ name"

definition int32 :: "int \<Rightarrow> int" where
  \<comment> \<open>the value an \<^verbatim>\<open>int32\<close> holds after an arithmetic result \<open>x\<close> wraps around\<close>
  "int32 x = (x + 2147483648) mod 4294967296 - 2147483648"

definition float_to_int :: "real \<Rightarrow> int" where
  \<comment> \<open>the Go conversion \<^verbatim>\<open>int(x)\<close> of a float: truncation towards zero\<close>
  "float_to_int x = (if 0 \<le> x then \<lfloor>x\<rfloor> else \<lceil>x\<rceil>)"

section \<open>collector: pod observations\<close>

record PodMetrics =
  Name :: string
  Namespace :: string
  CPUUsage :: string
  MemUsage :: string
  CPUPercent :: real
  MemPercent :: real
  Status :: string
  Restarts :: int
  Age :: int
  NodeName :: string

section \<open>predictor\<close>

text \<open>
  The entries of \<^verbatim>\<open>Issues\<close> and the field \<^verbatim>\<open>TimeToFailure\<close> are strings that the source
  builds with \<^verbatim>\<open>fmt.Sprintf\<close> from floats.  They are kept as the format together with its
  arguments: \<open>NA\<close> is the string \<^verbatim>\<open>"N/A"\<close>, and \<open>HoursUntil h c\<close> is
  \<^verbatim>\<open>"%.1f hours (c)"\<close>, which never equals \<^verbatim>\<open>"N/A"\<close>.
\<close>

datatype issue =
    CriticalCPU real
  | HighCPU real
  | CriticalMemory real
  | HighMemory real
  | CPUPrediction real real
  | MemoryLeakDetected real real
  | ImmediateActionRequired
  | PerformanceDegradation
  | HighRestartCount int
  | PodNotRunning string

datatype time_to_failure = NA | HoursUntil real string

record PredictionResult =
  PodName :: string
  PodNamespace :: string
  Risk :: string
  Issues :: "issue list"
  Action :: string
  Confidence :: int
  Score :: real
  TimeToFailure :: time_to_failure
  Trend :: string
  MemoryLeakRate :: real
  CPUGrowthRate :: real
  PredictionHours :: int

record TrendAnalysis =
  CPUTrend :: string
  MemTrend :: string
  CPUSlope :: real
  MemSlope :: real
  IsMemoryLeak :: bool
  IsCPUGrowing :: bool
  HoursToFailure :: real

record Predictor =
  podHistory :: "string \<rightharpoonup> PodMetrics list"

definition New_Predictor :: Predictor where
  "New_Predictor = \<lparr>podHistory = Map.empty\<rparr>"

definition history_of :: "Predictor \<Rightarrow> string \<Rightarrow> PodMetrics list" where
  \<comment> \<open>\<^verbatim>\<open>p.podHistory[key]\<close>: a missing key reads as the nil slice\<close>
  "history_of p key = (case podHistory p key of None \<Rightarrow> [] | Some h \<Rightarrow> h)"

fun UpdateHistory :: "Predictor \<Rightarrow> PodMetrics list \<Rightarrow> Predictor" where
  "UpdateHistory p [] = p"
| "UpdateHistory p (metric # metrics) =
     (let key = Sprintf_key (PodMetrics.Namespace metric) (PodMetrics.Name metric);
          h = history_of p key @ [metric];
          h' = (if length h > 20 then tl h else h)
      in UpdateHistory (p\<lparr>podHistory := (podHistory p)(key \<mapsto> h')\<rparr>) metrics)"

definition calculateSlope :: "PodMetrics list \<Rightarrow> PodMetrics \<Rightarrow> string \<Rightarrow> real" where
  "calculateSlope history current resourceType =
     (if length history < 2 then 0
      else
        let n = real (length history + 1);
            timeSpan = n * 0.5 / 60.0;
            values = (if resourceType = ''cpu'' then map CPUPercent history
                      else map MemPercent history)
                     @ [if resourceType = ''cpu'' then CPUPercent current
                        else MemPercent current]
        in if length values \<ge> 2 then (last values - hd values) / timeSpan else 0)"

definition emptyTrend :: TrendAnalysis where
  \<comment> \<open>the zero value of the struct\<close>
  "emptyTrend = \<lparr>CPUTrend = [], MemTrend = [], CPUSlope = 0, MemSlope = 0,
     IsMemoryLeak = False, IsCPUGrowing = False, HoursToFailure = 0\<rparr>"

definition calculateAdvancedTrend :: "PodMetrics list \<Rightarrow> PodMetrics \<Rightarrow> TrendAnalysis" where
  \<comment> \<open>the local \<^verbatim>\<open>timeSpan\<close> of this function (\<^verbatim>\<open>len(history) * 0.5 / 60\<close>) is computed
      by the source and never read afterwards; it has no image here\<close>
  "calculateAdvancedTrend history current =
     (if length history < 3 then emptyTrend\<lparr>CPUTrend := ''UNKNOWN'', MemTrend := ''UNKNOWN''\<rparr>
      else
        let cpuSlope = calculateSlope history current ''cpu'';
            memSlope = calculateSlope history current ''memory''
        in emptyTrend\<lparr>
             CPUSlope := cpuSlope,
             MemSlope := memSlope,
             IsMemoryLeak := (memSlope > 1),
             IsCPUGrowing := (cpuSlope > 2),
             CPUTrend := (if cpuSlope > 5 then ''RISING_FAST''
                          else if cpuSlope > 2 then ''RISING''
                          else if cpuSlope < -5 then ''FALLING_FAST''
                          else if cpuSlope < -2 then ''FALLING''
                          else ''STABLE''),
             MemTrend := (if memSlope > 3 then ''RISING_FAST''
                          else if memSlope > 1 then ''RISING''
                          else if memSlope < -3 then ''FALLING_FAST''
                          else if memSlope < -1 then ''FALLING''
                          else ''STABLE'')\<rparr>)"

fun count_increases :: "real list \<Rightarrow> nat" where
  \<comment> \<open>the loop \<^verbatim>\<open>for i := 1; i < len(history); i++\<close> counting \<^verbatim>\<open>history[i] > history[i-1]\<close>\<close>
  "count_increases (x # y # zs) = (if y > x then 1 else 0) + count_increases (y # zs)"
| "count_increases _ = 0"

definition detectPerformanceDegradation :: "PodMetrics list \<Rightarrow> PodMetrics \<Rightarrow> bool" where
  "detectPerformanceDegradation history current =
     (if length history < 5 then False
      else
        let cpuIncreases = count_increases (map CPUPercent history);
            memIncreases = count_increases (map MemPercent history);
            degradationThreshold = real (length history) * 0.7
        in real cpuIncreases > degradationThreshold \<or> real memIncreases > degradationThreshold)"

text \<open>
  \<^verbatim>\<open>analyzePodAdvanced\<close> mutates the local \<^verbatim>\<open>result\<close> and \<^verbatim>\<open>score\<close> block after block.  Each
  block of the source is one state transformer on the pair \<open>(result, score)\<close>; the function
  runs them in the order of the source and then finalises.
\<close>

type_synonym analysis = "PredictionResult \<times> real"

definition initialResult :: "PodMetrics \<Rightarrow> PredictionResult" where
  "initialResult current = \<lparr>
     PredictionResult.PodName = PodMetrics.Name current,
     PodNamespace = PodMetrics.Namespace current,
     Risk = ''LOW'',
     Issues = [],
     Action = ''MONITOR'',
     Confidence = 100,
     Score = 0,
     TimeToFailure = NA,
     Trend = ''STABLE'',
     MemoryLeakRate = 0,
     CPUGrowthRate = 0,
     PredictionHours = 0\<rparr>"

definition cpuThreshold :: "PodMetrics \<Rightarrow> analysis \<Rightarrow> analysis" where
  "cpuThreshold current = (\<lambda>(result, score).
     if CPUPercent current > 15 then
       (result\<lparr>Issues := Issues result @ [CriticalCPU (CPUPercent current)],
               Risk := ''CRITICAL'', Action := ''SCALE_UP_URGENT''\<rparr>, score + 40)
     else if CPUPercent current > 10 then
       (result\<lparr>Issues := Issues result @ [HighCPU (CPUPercent current)],
               Risk := ''HIGH'', Action := ''SCALE_UP''\<rparr>, score + 25)
     else (result, score))"

definition memThreshold :: "PodMetrics \<Rightarrow> analysis \<Rightarrow> analysis" where
  "memThreshold current = (\<lambda>(result, score).
     if MemPercent current > 15 then
       (result\<lparr>Issues := Issues result @ [CriticalMemory (MemPercent current)],
               Risk := ''CRITICAL'', Action := ''RESTART_POD_URGENT''\<rparr>, score + 40)
     else if MemPercent current > 10 then
       (result\<lparr>Issues := Issues result @ [HighMemory (MemPercent current)],
               Risk := ''HIGH'', Action := ''RESTART_POD''\<rparr>, score + 25)
     else (result, score))"

definition cpuForecast :: "PodMetrics \<Rightarrow> TrendAnalysis \<Rightarrow> analysis \<Rightarrow> analysis" where
  "cpuForecast current trend = (\<lambda>(result, score).
     if CPUSlope trend > 2 then
       let hoursToFailure = (100 - CPUPercent current) / CPUSlope trend in
       if hoursToFailure > 0 \<and> hoursToFailure \<le> 72 then
         let result = result\<lparr>
               Issues := Issues result @ [CPUPrediction (CPUSlope trend) hoursToFailure],
               TimeToFailure := HoursUntil hoursToFailure ''CPU overload'',
               PredictionHours := float_to_int hoursToFailure\<rparr>;
             score = score + 30
         in if hoursToFailure < 24 then
              (result\<lparr>Risk := ''CRITICAL'', Action := ''SCALE_UP_URGENT''\<rparr>, score + 20)
            else
              (result\<lparr>Risk := ''HIGH'', Action := ''SCALE_UP_PLANNED''\<rparr>, score)
       else (result, score)
     else (result, score))"

definition memForecast :: "PodMetrics \<Rightarrow> TrendAnalysis \<Rightarrow> analysis \<Rightarrow> analysis" where
  "memForecast current trend = (\<lambda>(result, score).
     if MemSlope trend > 1 then
       let hoursToFailure = (100 - MemPercent current) / MemSlope trend in
       if hoursToFailure > 0 \<and> hoursToFailure \<le> 72 then
         let result = result\<lparr>
               Issues := Issues result @ [MemoryLeakDetected (MemSlope trend) hoursToFailure],
               TimeToFailure := HoursUntil hoursToFailure ''Memory leak'',
               PredictionHours := float_to_int hoursToFailure\<rparr>;
             score = score + 35
         in if hoursToFailure < 12 then
              (result\<lparr>Risk := ''CRITICAL'', Action := ''RESTART_POD_URGENT'',
                      Issues := Issues result @ [ImmediateActionRequired]\<rparr>, score + 25)
            else if hoursToFailure < 24 then
              (result\<lparr>Risk := ''HIGH'', Action := ''RESTART_POD_PLANNED''\<rparr>, score)
            else
              (result\<lparr>Risk := ''MEDIUM'', Action := ''MONITOR_MEMORY_LEAK''\<rparr>, score)
       else (result, score)
     else (result, score))"

definition degradation :: "PodMetrics list \<Rightarrow> PodMetrics \<Rightarrow> analysis \<Rightarrow> analysis" where
  "degradation history current = (\<lambda>(result, score).
     if detectPerformanceDegradation history current then
       let result = result\<lparr>Issues := Issues result @ [PerformanceDegradation]\<rparr>;
           score = score + 20
       in if Risk result = ''LOW'' then
            (result\<lparr>Risk := ''MEDIUM'', Action := ''INVESTIGATE_PERFORMANCE''\<rparr>, score)
          else (result, score)
     else (result, score))"

definition trendLabel :: "TrendAnalysis \<Rightarrow> analysis \<Rightarrow> analysis" where
  "trendLabel trend = (\<lambda>(result, score).
     (result\<lparr>Trend :=
        (if CPUSlope trend > 2 \<and> MemSlope trend > 1 then ''CRITICAL_GROWTH''
         else if CPUSlope trend > 1 \<or> MemSlope trend > 0.5 then ''GROWING''
         else if CPUSlope trend < -1 \<or> MemSlope trend < -0.5 then ''DECLINING''
         else ''STABLE'')\<rparr>, score))"

definition trendAnalysis :: "PodMetrics list \<Rightarrow> PodMetrics \<Rightarrow> analysis \<Rightarrow> analysis" where
  \<comment> \<open>block 2 of the source, guarded by \<^verbatim>\<open>len(history) >= 5\<close>\<close>
  "trendAnalysis history current = (\<lambda>(result, score).
     if length history \<ge> 5 then
       let trend = calculateAdvancedTrend history current;
           result = result\<lparr>MemoryLeakRate := MemSlope trend, CPUGrowthRate := CPUSlope trend\<rparr>
       in trendLabel trend
            (degradation history current
              (memForecast current trend
                (cpuForecast current trend (result, score))))
     else (result, score))"

definition restartRule :: "PodMetrics \<Rightarrow> analysis \<Rightarrow> analysis" where
  "restartRule current = (\<lambda>(result, score).
     if Restarts current \<ge> 3 then
       (result\<lparr>Issues := Issues result @ [HighRestartCount (Restarts current)],
               Action := ''INVESTIGATE_RESTARTS''\<rparr>, score + 30)
     else (result, score))"

definition phaseRule :: "PodMetrics \<Rightarrow> analysis \<Rightarrow> analysis" where
  "phaseRule current = (\<lambda>(result, score).
     if PodMetrics.Status current \<noteq> ''Running'' then
       (result\<lparr>Issues := Issues result @ [PodNotRunning (PodMetrics.Status current)],
               Risk := ''CRITICAL'', Action := ''RESTART_POD''\<rparr>, score + 50)
     else (result, score))"

definition finalize :: "analysis \<Rightarrow> PredictionResult" where
  \<comment> \<open>block 4: the risk and the confidence are assigned again from the capped score\<close>
  "finalize = (\<lambda>(result, score).
     let result = result\<lparr>Score := min score 100\<rparr> in
     if Score result \<ge> 80 then result\<lparr>Risk := ''CRITICAL'', Confidence := 95\<rparr>
     else if Score result \<ge> 60 then result\<lparr>Risk := ''HIGH'', Confidence := 90\<rparr>
     else if Score result \<ge> 40 then result\<lparr>Risk := ''MEDIUM'', Confidence := 85\<rparr>
     else if Score result \<ge> 20 then result\<lparr>Risk := ''LOW-MEDIUM'', Confidence := 80\<rparr>
     else result\<lparr>Risk := ''LOW'', Confidence := 100\<rparr>)"

definition beforeFinalize :: "PodMetrics \<Rightarrow> PodMetrics list \<Rightarrow> analysis" where
  "beforeFinalize current history =
     phaseRule current
       (restartRule current
         (trendAnalysis history current
           (memThreshold current
             (cpuThreshold current (initialResult current, 0)))))"

definition analyzePodAdvanced :: "PodMetrics \<Rightarrow> PodMetrics list \<Rightarrow> PredictionResult" where
  "analyzePodAdvanced current history = finalize (beforeFinalize current history)"

fun PredictIssues :: "Predictor \<Rightarrow> PodMetrics list \<Rightarrow> PredictionResult list" where
  "PredictIssues p [] = []"
| "PredictIssues p (metric # currentMetrics) =
     (let key = Sprintf_key (PodMetrics.Namespace metric) (PodMetrics.Name metric);
          history = history_of p key;
          result = analyzePodAdvanced metric history
      in (if Score result > 30 \<or> TimeToFailure result \<noteq> NA then [result] else [])
         @ PredictIssues p currentMetrics)"

section \<open>The cluster and the console\<close>

text \<open>
  The objects of the Kubernetes API that the healer reads, with the fields it reads.  Nested
  fields keep their path: \<^verbatim>\<open>pod.Spec.NodeName\<close> is \<open>Spec_NodeName\<close>.  A pointer that may be nil
  is an option.
\<close>

record ContainerStateTerminated =
  ExitCode :: int
  Reason :: string

record ContainerStatus =
  RestartCount :: int
  LastTerminationState_Terminated :: "ContainerStateTerminated option"

record Pod =
  Name :: string
  Namespace :: string
  CreationTimestamp :: int
  Spec_NodeName :: string
  Spec_Containers :: "string list"
  Status_Phase :: string
  Status_ContainerStatuses :: "ContainerStatus list"

record Deployment =
  Name :: string
  Spec_Replicas :: "int option"

record Event =
  Reason :: string
  Message :: string

record Quantity =
  \<comment> \<open>a \<^verbatim>\<open>resource.Quantity\<close>, by the three readings the collector takes of it\<close>
  MilliValue :: int
  Value :: int
  String :: string

record PodMetricsItem =
  \<comment> \<open>an item of the metrics API; per container the entries \<^verbatim>\<open>Usage["cpu"]\<close> and
      \<^verbatim>\<open>Usage["memory"]\<close>, each present or not\<close>
  Name :: string
  Namespace :: string
  Containers :: "(Quantity option \<times> Quantity option) list"

text \<open>
  Everything the healer does to the outside is an event of one chronological trace: a call
  of the cluster API or of the clock, a line written to the console, and the entry of the
  action engine into its dispatch \<^verbatim>\<open>switch\<close> for a pod key.
\<close>

datatype call =
    PodsList string
  | PodMetricsesList string
  | DeploymentsList string
  | DeploymentsUpdate string string "int option"
  | PodsDelete string string
  | EventsList string string
  | ExecStream string string string string
  | TimeNow

datatype line =
    ExecutingBanner
  | ClosingRule
  | SkipMaxActions string
  | DryRunScaleUp string string
  | FailedListDeployments string
  | FailedScale string
  | AutoScaled string int int
  | DryRunRestart string string
  | LogFailedRestart string string string
  | AutoRestarted string string
  | Investigating string string
  | RecentEvents
  | EventLine string string
  | MonitoringClosely string string
  | Monitoring string string
  | AIAction int string string string string
  | MetricsWarning string

datatype event = Call call | Print line | Dispatch string string

type_synonym trace = "event list"

text \<open>
  The cluster is a parameter: each of its answers is an arbitrary function of everything
  that happened before (the trace) and of the arguments of the call.  An error is its
  message; \<open>Inl\<close> carries the error of a call that returns a value.
\<close>

record env =
  Pods_List :: "trace \<Rightarrow> string \<Rightarrow> string + Pod list"
  PodMetricses_List :: "trace \<Rightarrow> string \<Rightarrow> string + PodMetricsItem list"
  Deployments_List :: "trace \<Rightarrow> string \<Rightarrow> string + Deployment list"
  Deployments_Update :: "trace \<Rightarrow> string \<Rightarrow> Deployment \<Rightarrow> string option"
  Pods_Delete :: "trace \<Rightarrow> string \<Rightarrow> string \<Rightarrow> string option"
  Events_List :: "trace \<Rightarrow> string \<Rightarrow> string \<Rightarrow> string + Event list"
  Exec_Stream :: "trace \<Rightarrow> string \<Rightarrow> string \<Rightarrow> string \<Rightarrow> string \<Rightarrow> string + string"
  Time_Now :: "trace \<Rightarrow> int"

definition time_Now :: "env \<Rightarrow> trace \<Rightarrow> int \<times> trace" where
  "time_Now e tr = (Time_Now e tr, tr @ [Call TimeNow])"

definition Duration :: "int \<Rightarrow> int" where
  \<comment> \<open>\<^verbatim>\<open>time.Time.Sub\<close> saturates at the bounds of the 64-bit \<^verbatim>\<open>Duration\<close>\<close>
  "Duration d = max (- 9223372036854775808) (min 9223372036854775807 d)"

definition time_Since :: "env \<Rightarrow> trace \<Rightarrow> int \<Rightarrow> int \<times> trace" where
  "time_Since e tr t = (case time_Now e tr of (now, tr') \<Rightarrow> (Duration (now - t), tr'))"

definition Hour :: int where
  "Hour = 3600000000000"

definition Minute :: int where
  "Minute = 60000000000"

definition Hours :: "int \<Rightarrow> real" where
  \<comment> \<open>\<^verbatim>\<open>Duration.Hours()\<close>\<close>
  "Hours d = real_of_int d / real_of_int Hour"

text \<open>
  Where the source divides floats by a value that can be zero, the quotient is kept with
  the infinities and the not-a-number of IEEE 754: a Go float division never panics.
\<close>

datatype float64 = Finite real | PosInf | NegInf | NaN

definition float_div :: "real \<Rightarrow> real \<Rightarrow> float64" where
  "float_div x y =
     (if y \<noteq> 0 then Finite (x / y)
      else if x > 0 then PosInf else if x < 0 then NegInf else NaN)"

fun float_gt :: "float64 \<Rightarrow> real \<Rightarrow> bool" where
  "float_gt (Finite x) c = (x > c)"
| "float_gt PosInf c = True"
| "float_gt NegInf c = False"
| "float_gt NaN c = False"

fun Contains :: "string \<Rightarrow> string \<Rightarrow> bool" where
  \<comment> \<open>\<^verbatim>\<open>strings.Contains(s, substr)\<close>\<close>
  "Contains [] substr = (substr = [])"
| "Contains (c # s) substr = (take (length substr) (c # s) = substr \<or> Contains s substr)"

definition Join :: "string list \<Rightarrow> string \<Rightarrow> string" where
  \<comment> \<open>\<^verbatim>\<open>strings.Join(elems, sep)\<close>\<close>
  "Join elems sep = concat (case elems of [] \<Rightarrow> [] | x # xs \<Rightarrow> x # map (\<lambda>y. sep @ y) xs)"

definition isSystemNamespace :: "string \<Rightarrow> bool" where
  \<comment> \<open>the guard that the four listing loops share:
      \<^verbatim>\<open>strings.Contains(ns, "kube-") || strings.Contains(ns, "healer-")\<close>\<close>
  "isSystemNamespace ns \<longleftrightarrow> Contains ns ''kube-'' \<or> Contains ns ''healer-''"

section \<open>diagnostics: the restart analyzer\<close>

record RestartPattern =
  PodName :: string
  Namespace :: string
  RestartCount :: int
  Pattern :: string
  Frequency :: string
  Severity :: string
  RootCause :: string
  Actions :: "string list"

definition totalRestarts_of :: "ContainerStatus list \<Rightarrow> int" where
  \<comment> \<open>the loop \<^verbatim>\<open>totalRestarts += containerStatus.RestartCount\<close> on an \<^verbatim>\<open>int32\<close>\<close>
  "totalRestarts_of css = fold (\<lambda>cs total. int32 (total + ContainerStatus.RestartCount cs)) css 0"

definition restartsPerHour_of :: "int \<Rightarrow> int \<Rightarrow> float64" where
  \<comment> \<open>\<^verbatim>\<open>float64(totalRestarts) / podAge.Hours()\<close>\<close>
  "restartsPerHour_of totalRestarts podAge = float_div (real_of_int totalRestarts) (Hours podAge)"

definition frequencyOf :: "float64 \<Rightarrow> RestartPattern \<Rightarrow> RestartPattern" where
  "frequencyOf restartsPerHour pattern =
     (if float_gt restartsPerHour 2 then
        pattern\<lparr>Frequency := ''VERY_HIGH'', Severity := ''CRITICAL''\<rparr>
      else if float_gt restartsPerHour 1 then
        pattern\<lparr>Frequency := ''HIGH'', Severity := ''HIGH''\<rparr>
      else if float_gt restartsPerHour 0.5 then
        pattern\<lparr>Frequency := ''MEDIUM'', Severity := ''MEDIUM''\<rparr>
      else
        pattern\<lparr>Frequency := ''LOW'', Severity := ''LOW''\<rparr>)"

definition patternOf :: "int \<Rightarrow> int \<Rightarrow> float64 \<Rightarrow> RestartPattern \<Rightarrow> RestartPattern" where
  "patternOf totalRestarts podAge restartsPerHour pattern =
     (if totalRestarts \<ge> 10 then
        pattern\<lparr>Pattern := ''CRASH_LOOP'', RootCause := ''Persistent application crashes'',
                Actions := [''CHECK_LOGS'', ''ROLLBACK_DEPLOYMENT'', ''CHECK_RESOURCES'']\<rparr>
      else if totalRestarts \<ge> 5 \<and> podAge < 1 * Hour then
        pattern\<lparr>Pattern := ''RAPID_RESTART'',
                RootCause := ''Fast restart cycle - likely config issue'',
                Actions := [''CHECK_CONFIG'', ''CHECK_LOGS'', ''RESTART_POD'']\<rparr>
      else if totalRestarts \<ge> 3 \<and> podAge < 30 * Minute then
        pattern\<lparr>Pattern := ''STARTUP_FAILURE'',
                RootCause := ''Application failing to start properly'',
                Actions := [''CHECK_STARTUP_PROBE'', ''CHECK_DEPENDENCIES'', ''CHECK_LOGS'']\<rparr>
      else if float_gt restartsPerHour 0.1 then
        pattern\<lparr>Pattern := ''PERIODIC_RESTART'',
                RootCause := ''Regular restart pattern - possible memory leak'',
                Actions := [''CHECK_MEMORY_LEAK'', ''MONITOR_RESOURCES'', ''CHECK_LOGS'']\<rparr>
      else pattern)"

definition exitReason :: "ContainerStatus \<Rightarrow> RestartPattern \<Rightarrow> RestartPattern" where
  \<comment> \<open>the body of the loop over the container statuses that reads the exit reasons\<close>
  "exitReason containerStatus pattern =
     (case LastTerminationState_Terminated containerStatus of
        None \<Rightarrow> pattern
      | Some terminated \<Rightarrow>
          let exitCode = ExitCode terminated;
              reason = ContainerStateTerminated.Reason terminated;
              pattern =
                (if exitCode = 137 then
                   pattern\<lparr>RootCause := ''Container killed by OOM or system'',
                           Actions := Actions pattern @ [''INCREASE_MEMORY'', ''CHECK_OOM'']\<rparr>
                 else if exitCode = 143 then
                   pattern\<lparr>RootCause := ''Container gracefully terminated'',
                           Actions := Actions pattern @ [''CHECK_SHUTDOWN_HOOKS'']\<rparr>
                 else if exitCode = 1 then
                   pattern\<lparr>RootCause := ''Application error exit'',
                           Actions := Actions pattern
                             @ [''CHECK_APPLICATION_LOGS'', ''DEBUG_APPLICATION'']\<rparr>
                 else pattern)
          in if reason = ''OOMKilled'' then
               pattern\<lparr>RootCause := ''Out of Memory killed'', Severity := ''CRITICAL'',
                       Actions := [''INCREASE_MEMORY_LIMITS'', ''CHECK_MEMORY_LEAK'',
                                   ''OPTIMIZE_MEMORY'']\<rparr>
             else pattern)"

definition exitReasons :: "ContainerStatus list \<Rightarrow> RestartPattern \<Rightarrow> RestartPattern" where
  "exitReasons css pattern = fold exitReason css pattern"

definition analyzeRestartPattern :: "env \<Rightarrow> trace \<Rightarrow> Pod \<Rightarrow> RestartPattern \<times> trace" where
  "analyzeRestartPattern e tr pod =
     (let pattern = \<lparr>
            RestartPattern.PodName = Pod.Name pod,
            RestartPattern.Namespace = Pod.Namespace pod,
            RestartPattern.RestartCount = 0,
            Pattern = ''STABLE'',
            Frequency = ''NONE'',
            Severity = ''OK'',
            RootCause = ''No restarts detected'',
            Actions = []\<rparr>;
          totalRestarts = totalRestarts_of (Status_ContainerStatuses pod);
          pattern = pattern\<lparr>RestartPattern.RestartCount := totalRestarts\<rparr>
      in if totalRestarts = 0 then (pattern, tr)
         else
           case time_Since e tr (CreationTimestamp pod) of (podAge, tr') \<Rightarrow>
             let restartsPerHour = restartsPerHour_of totalRestarts podAge
             in (exitReasons (Status_ContainerStatuses pod)
                   (patternOf totalRestarts podAge restartsPerHour
                     (frequencyOf restartsPerHour pattern)), tr'))"

fun analyzePods :: "env \<Rightarrow> trace \<Rightarrow> Pod list \<Rightarrow> RestartPattern list \<times> trace" where
  \<comment> \<open>the loop of \<^verbatim>\<open>AnalyzeRestartPatterns\<close> over \<^verbatim>\<open>pods.Items\<close>\<close>
  "analyzePods e tr [] = ([], tr)"
| "analyzePods e tr (pod # pods) =
     (if isSystemNamespace (Pod.Namespace pod) then analyzePods e tr pods
      else
        case analyzeRestartPattern e tr pod of (pattern, tr') \<Rightarrow>
          case analyzePods e tr' pods of (patterns, tr'') \<Rightarrow>
            (if RestartPattern.RestartCount pattern > 0 then pattern # patterns else patterns,
             tr''))"

definition AnalyzeRestartPatterns ::
  "env \<Rightarrow> trace \<Rightarrow> string \<Rightarrow> (string + RestartPattern list) \<times> trace" where
  \<comment> \<open>\<^verbatim>\<open>metav1.NamespaceAll\<close> is the empty string, so the test of \<^verbatim>\<open>namespace == ""\<close> changes
      nothing\<close>
  "AnalyzeRestartPatterns e tr namespace =
     (case Pods_List e tr namespace of
        Inl err \<Rightarrow> (Inl (''failed to list pods: '' @ err), tr @ [Call (PodsList namespace)])
      | Inr items \<Rightarrow>
          case analyzePods e (tr @ [Call (PodsList namespace)]) items of
            (patterns, tr') \<Rightarrow> (Inr patterns, tr'))"

section \<open>collector: pod metrics\<close>

definition containerUsage ::
  "(Quantity option \<times> Quantity option) list \<Rightarrow> Quantity option \<times> Quantity option" where
  \<comment> \<open>the map \<^verbatim>\<open>containerMetrics\<close> of one item: each container overwrites the entries it has\<close>
  "containerUsage containers =
     fold (\<lambda>(cpu, memory) (c, m).
            (case cpu of Some q \<Rightarrow> Some q | None \<Rightarrow> c,
             case memory of Some q \<Rightarrow> Some q | None \<Rightarrow> m))
       containers (None, None)"

definition metricsMap_of ::
  "PodMetricsItem list \<Rightarrow> string \<rightharpoonup> Quantity option \<times> Quantity option" where
  "metricsMap_of items =
     fold (\<lambda>podMetric metricsMap.
            metricsMap(Sprintf_key (PodMetricsItem.Namespace podMetric)
                         (PodMetricsItem.Name podMetric)
                       \<mapsto> containerUsage (Containers podMetric)))
       items Map.empty"

definition podMetric_of ::
  "(string \<rightharpoonup> Quantity option \<times> Quantity option) \<Rightarrow> Pod \<Rightarrow> int \<Rightarrow> PodMetrics" where
  \<comment> \<open>the body of the loop of \<^verbatim>\<open>GetAllPodMetrics\<close> for a pod that is not skipped\<close>
  "podMetric_of metricsMap pod age =
     (let restarts = fold (\<lambda>cs r. int32 (r + ContainerStatus.RestartCount cs))
                       (Status_ContainerStatuses pod) 0;
          podKey = Sprintf_key (Pod.Namespace pod) (Pod.Name pod);
          podMetric = \<lparr>
            PodMetrics.Name = Pod.Name pod,
            PodMetrics.Namespace = Pod.Namespace pod,
            CPUUsage = ''0m'',
            MemUsage = ''0Mi'',
            CPUPercent = 0.0,
            MemPercent = 0.0,
            PodMetrics.Status = Status_Phase pod,
            Restarts = restarts,
            Age = age,
            NodeName = Spec_NodeName pod\<rparr>
      in case metricsMap podKey of
           None \<Rightarrow> podMetric
         | Some (cpu, memory) \<Rightarrow>
             let podMetric =
                   (case cpu of
                      None \<Rightarrow> podMetric
                    | Some q \<Rightarrow> podMetric\<lparr>CPUUsage := String q,
                                          CPUPercent := real_of_int (MilliValue q) / 10.0\<rparr>)
             in case memory of
                  None \<Rightarrow> podMetric
                | Some q \<Rightarrow>
                    podMetric\<lparr>MemUsage := String q,
                              MemPercent :=
                                (real_of_int (Value q) / (1024 * 1024 * 1024)) * 100\<rparr>)"

fun collectPods ::
  "env \<Rightarrow> trace \<Rightarrow> (string \<rightharpoonup> Quantity option \<times> Quantity option) \<Rightarrow> Pod list
     \<Rightarrow> PodMetrics list \<times> trace" where
  \<comment> \<open>the loop of \<^verbatim>\<open>GetAllPodMetrics\<close> over \<^verbatim>\<open>pods.Items\<close>\<close>
  "collectPods e tr metricsMap [] = ([], tr)"
| "collectPods e tr metricsMap (pod # pods) =
     (if isSystemNamespace (Pod.Namespace pod) then collectPods e tr metricsMap pods
      else
        case time_Since e tr (CreationTimestamp pod) of (age, tr') \<Rightarrow>
          case collectPods e tr' metricsMap pods of
            (metrics, tr'') \<Rightarrow> (podMetric_of metricsMap pod age # metrics, tr''))"

definition GetAllPodMetrics :: "env \<Rightarrow> trace \<Rightarrow> (string + PodMetrics list) \<times> trace" where
  "GetAllPodMetrics e tr =
     (case Pods_List e tr [] of
        Inl err \<Rightarrow> (Inl (''failed to get pods: '' @ err), tr @ [Call (PodsList [])])
      | Inr pods \<Rightarrow>
          let tr1 = tr @ [Call (PodsList [])];
              tr2 = tr1 @ [Call (PodMetricsesList [])]
          in case PodMetricses_List e tr1 [] of
               Inl err \<Rightarrow>
                 (case collectPods e (tr2 @ [Print (MetricsWarning err)]) Map.empty pods of
                    (metrics, tr') \<Rightarrow> (Inr metrics, tr'))
             | Inr items \<Rightarrow>
                 (case collectPods e tr2 (metricsMap_of items) pods of
                    (metrics, tr') \<Rightarrow> (Inr metrics, tr')))"

section \<open>actions: the action engine\<close>

text \<open>
  The engine holds the dry-run flag and the counters; its client is the cluster parameter.
  A function that can panic returns \<open>Inl\<close> of the trace at the panic: the process ends
  there.  The only panic of the package is the dereference of a nil \<^verbatim>\<open>dep.Spec.Replicas\<close>.
\<close>

record ActionEngine =
  dryRun :: bool
  actionCounts :: "string \<rightharpoonup> int"

definition New_ActionEngine :: "bool \<Rightarrow> ActionEngine" where
  "New_ActionEngine dry = \<lparr>dryRun = dry, actionCounts = Map.empty\<rparr>"

definition count_of :: "ActionEngine \<Rightarrow> string \<Rightarrow> int" where
  \<comment> \<open>\<^verbatim>\<open>a.actionCounts[key]\<close>: a missing key reads as 0\<close>
  "count_of a key = (case actionCounts a key of None \<Rightarrow> 0 | Some n \<Rightarrow> n)"

definition logAction :: "env \<Rightarrow> trace \<Rightarrow> string \<Rightarrow> PredictionResult \<Rightarrow> trace" where
  "logAction e tr action pred =
     (case time_Now e tr of (timestamp, tr') \<Rightarrow>
        tr' @ [Print (AIAction timestamp action (PodNamespace pred)
                        (PredictionResult.PodName pred) (Risk pred))])"

fun scaleLoop :: "env \<Rightarrow> trace \<Rightarrow> PredictionResult \<Rightarrow> Deployment list \<Rightarrow> trace + trace" where
  \<comment> \<open>the loop of \<^verbatim>\<open>scaleUpDeployment\<close> over \<^verbatim>\<open>deployments.Items\<close>; it ends at the first
      deployment whose name is a proper prefix of the pod name\<close>
  "scaleLoop e tr pred [] = Inr tr"
| "scaleLoop e tr pred (dep # deps) =
     (if length (PredictionResult.PodName pred) > length (Deployment.Name dep)
         \<and> take (length (Deployment.Name dep)) (PredictionResult.PodName pred)
             = Deployment.Name dep
      then
        case Spec_Replicas dep of
          None \<Rightarrow> Inl tr
        | Some currentReplicas \<Rightarrow>
            let newReplicas = int32 (currentReplicas + 1);
                dep' = dep\<lparr>Spec_Replicas := Some newReplicas\<rparr>;
                tr' = tr @ [Call (DeploymentsUpdate (PodNamespace pred) (Deployment.Name dep)
                                   (Some newReplicas))]
            in case Deployments_Update e tr (PodNamespace pred) dep' of
                 Some err \<Rightarrow> Inr (tr' @ [Print (FailedScale err)])
               | None \<Rightarrow>
                   Inr (logAction e
                          (tr' @ [Print (AutoScaled (Deployment.Name dep) currentReplicas
                                           newReplicas)])
                          ''AUTO_SCALE_UP'' pred)
      else scaleLoop e tr pred deps)"

definition scaleUpDeployment ::
  "env \<Rightarrow> ActionEngine \<Rightarrow> trace \<Rightarrow> PredictionResult \<Rightarrow> trace + trace" where
  "scaleUpDeployment e a tr pred =
     (if dryRun a then
        Inr (tr @ [Print (DryRunScaleUp (PodNamespace pred) (PredictionResult.PodName pred))])
      else
        case Deployments_List e tr (PodNamespace pred) of
          Inl err \<Rightarrow>
            Inr (tr @ [Call (DeploymentsList (PodNamespace pred)),
                       Print (FailedListDeployments err)])
        | Inr items \<Rightarrow>
            scaleLoop e (tr @ [Call (DeploymentsList (PodNamespace pred))]) pred items)"

definition restartPod :: "env \<Rightarrow> ActionEngine \<Rightarrow> trace \<Rightarrow> PredictionResult \<Rightarrow> trace" where
  \<comment> \<open>the failure is written with \<^verbatim>\<open>log.Printf\<close>, everything else with \<^verbatim>\<open>fmt.Printf\<close>\<close>
  "restartPod e a tr pred =
     (if dryRun a then
        tr @ [Print (DryRunRestart (PodNamespace pred) (PredictionResult.PodName pred))]
      else
        let tr' = tr @ [Call (PodsDelete (PodNamespace pred) (PredictionResult.PodName pred))]
        in case Pods_Delete e tr (PodNamespace pred) (PredictionResult.PodName pred) of
             Some err \<Rightarrow>
               tr' @ [Print (LogFailedRestart (PodNamespace pred)
                              (PredictionResult.PodName pred) err)]
           | None \<Rightarrow>
               logAction e
                 (tr' @ [Print (AutoRestarted (PodNamespace pred)
                                 (PredictionResult.PodName pred))])
                 ''AUTO_RESTART'' pred)"

definition investigatePod :: "env \<Rightarrow> ActionEngine \<Rightarrow> trace \<Rightarrow> PredictionResult \<Rightarrow> trace" where
  "investigatePod e a tr pred =
     (let tr1 = tr @ [Print (Investigating (PodNamespace pred) (PredictionResult.PodName pred))];
          tr2 = tr1 @ [Call (EventsList (PodNamespace pred) (PredictionResult.PodName pred))];
          tr3 = (case Events_List e tr1 (PodNamespace pred) (PredictionResult.PodName pred) of
                   Inl err \<Rightarrow> tr2
                 | Inr items \<Rightarrow>
                     if length items > 0 then
                       tr2 @ [Print RecentEvents]
                           @ map (\<lambda>event. Print (EventLine (Event.Reason event) (Message event)))
                               (take 3 items)
                     else tr2)
      in logAction e tr3 ''INVESTIGATE'' pred)"

definition monitorPod :: "env \<Rightarrow> ActionEngine \<Rightarrow> trace \<Rightarrow> PredictionResult \<Rightarrow> trace" where
  "monitorPod e a tr pred =
     logAction e
       (tr @ [Print (MonitoringClosely (PodNamespace pred) (PredictionResult.PodName pred))])
       ''MONITOR'' pred"

definition dispatch :: "env \<Rightarrow> ActionEngine \<Rightarrow> trace \<Rightarrow> PredictionResult \<Rightarrow> trace + trace" where
  \<comment> \<open>the \<^verbatim>\<open>switch pred.Action\<close> of \<^verbatim>\<open>ExecuteActions\<close>\<close>
  "dispatch e a tr pred =
     (if Action pred = ''SCALE_UP_URGENT'' then scaleUpDeployment e a tr pred
      else if Action pred = ''SCALE_UP'' then scaleUpDeployment e a tr pred
      else if Action pred = ''RESTART_POD_URGENT'' then Inr (restartPod e a tr pred)
      else if Action pred = ''RESTART_POD'' then Inr (restartPod e a tr pred)
      else if Action pred = ''INVESTIGATE_RESTARTS'' then Inr (investigatePod e a tr pred)
      else if Action pred = ''MONITOR_CLOSELY'' then Inr (monitorPod e a tr pred)
      else Inr (tr @ [Print (Monitoring (PodNamespace pred) (PredictionResult.PodName pred))]))"

fun executeLoop ::
  "env \<Rightarrow> ActionEngine \<Rightarrow> trace \<Rightarrow> PredictionResult list \<Rightarrow> trace + ActionEngine \<times> trace" where
  \<comment> \<open>the loop of \<^verbatim>\<open>ExecuteActions\<close>; the event \<open>Dispatch\<close> marks the entry into the switch\<close>
  "executeLoop e a tr [] = Inr (a, tr)"
| "executeLoop e a tr (pred # predictions) =
     (let key = Sprintf_key (PodNamespace pred) (PredictionResult.PodName pred) in
      if count_of a key \<ge> 3 then
        executeLoop e a (tr @ [Print (SkipMaxActions key)]) predictions
      else
        case dispatch e a (tr @ [Dispatch key (Action pred)]) pred of
          Inl panic \<Rightarrow> Inl panic
        | Inr tr' \<Rightarrow>
            executeLoop e (a\<lparr>actionCounts := (actionCounts a)(key \<mapsto> count_of a key + 1)\<rparr>)
              tr' predictions)"

definition ExecuteActions ::
  "env \<Rightarrow> ActionEngine \<Rightarrow> trace \<Rightarrow> PredictionResult list \<Rightarrow> trace + ActionEngine \<times> trace" where
  "ExecuteActions e a tr predictions =
     (if length predictions = 0 then Inr (a, tr)
      else
        case executeLoop e a (tr @ [Print ExecutingBanner]) predictions of
          Inl panic \<Rightarrow> Inl panic
        | Inr (a', tr') \<Rightarrow> Inr (a', tr' @ [Print ClosingRule]))"

definition GetActionCounts :: "ActionEngine \<Rightarrow> string \<rightharpoonup> int" where
  "GetActionCounts a = actionCounts a"

fun lifetime ::
  "env \<Rightarrow> ActionEngine \<Rightarrow> trace \<Rightarrow> PredictionResult list list \<Rightarrow> trace + ActionEngine \<times> trace"
  where
  \<comment> \<open>the successive calls of \<^verbatim>\<open>ExecuteActions\<close> that one process makes on its engine\<close>
  "lifetime e a tr [] = Inr (a, tr)"
| "lifetime e a tr (predictions # rest) =
     (case ExecuteActions e a tr predictions of
        Inl panic \<Rightarrow> Inl panic
      | Inr (a', tr') \<Rightarrow> lifetime e a' tr' rest)"

section \<open>diagnostics: stuck containers and container checks\<close>

text \<open>
  The functions of the Go standard library that parse and format are parameters, as is the
  order in which \<^verbatim>\<open>range\<close> visits the entries of a map (Go leaves it unspecified).
\<close>

record golib =
  TrimSpace :: "string \<Rightarrow> string"
  Atoi :: "string \<Rightarrow> int option"
  Fields :: "string \<Rightarrow> string list"
  ParseFloat :: "string \<Rightarrow> real option"
  Itoa :: "int \<Rightarrow> string"
  RangeOrder :: "trace \<Rightarrow> (string \<times> string) list \<Rightarrow> (string \<times> string) list"

record ContainerStats =
  Timestamp :: int
  CPUIOwait :: real
  DiskReadMB :: real
  DiskWriteMB :: real
  NetworkRxMB :: real
  NetworkTxMB :: real
  ProcessCount :: int
  IsStuck :: bool

record DiagnosticResult =
  PodName :: string
  Namespace :: string
  ContainerName :: string
  IsStuck :: bool
  StuckReason :: string
  LastActivity :: int
  Severity :: string
  Actions :: "string list"

record DiagnosticsEngine =
  history :: "string \<rightharpoonup> ContainerStats list"

definition New_DiagnosticsEngine :: DiagnosticsEngine where
  "New_DiagnosticsEngine = \<lparr>history = Map.empty\<rparr>"

definition execInContainer ::
  "env \<Rightarrow> trace \<Rightarrow> string \<Rightarrow> string \<Rightarrow> string \<Rightarrow> string \<Rightarrow> (string + string) \<times> trace" where
  \<comment> \<open>\<open>Inl\<close> is the error of the executor or of the stream, \<open>Inr\<close> the captured stdout\<close>
  "execInContainer e tr namespace podName containerName command =
     (Exec_Stream e tr namespace podName containerName command,
      tr @ [Call (ExecStream namespace podName containerName command)])"

definition stats_commands :: "(string \<times> string) list" where
  "stats_commands =
     [(''proc_count'', ''ps aux 2>/dev/null | wc -l || echo 0''),
      (''uptime'', ''uptime 2>/dev/null || echo '' @ [CHR 0x27] @ ''0.0 0.0 0.0'' @ [CHR 0x27]),
      (''disk_usage'', ''df / 2>/dev/null | tail -1 | awk '' @ [CHR 0x27] @ ''{print $5}''
         @ [CHR 0x27] @ '' || echo '' @ [CHR 0x27] @ ''0%'' @ [CHR 0x27])]"

fun statsLoop ::
  "golib \<Rightarrow> env \<Rightarrow> trace \<Rightarrow> string \<Rightarrow> string \<Rightarrow> string \<Rightarrow> (string \<times> string) list
     \<Rightarrow> ContainerStats \<Rightarrow> ContainerStats \<times> trace" where
  "statsLoop lib e tr namespace podName containerName [] stats = (stats, tr)"
| "statsLoop lib e tr namespace podName containerName ((metric, cmd) # commands) stats =
     (case execInContainer e tr namespace podName containerName cmd of
        (Inl err, tr') \<Rightarrow>
          statsLoop lib e tr' namespace podName containerName commands
            (if metric = ''proc_count'' then stats\<lparr>ContainerStats.IsStuck := True\<rparr> else stats)
      | (Inr output, tr') \<Rightarrow>
          statsLoop lib e tr' namespace podName containerName commands
            (if metric = ''proc_count'' then
               (case Atoi lib (TrimSpace lib output) of
                  Some v \<Rightarrow> stats\<lparr>ProcessCount := v\<rparr>
                | None \<Rightarrow> stats)
             else if metric = ''uptime'' then
               (let parts = Fields lib output in
                if length parts \<ge> 3 then
                  (case ParseFloat lib (parts ! (length parts - 3)) of
                     Some load \<Rightarrow> stats\<lparr>CPUIOwait := load * 100\<rparr>
                   | None \<Rightarrow> stats)
                else stats)
             else stats))"

definition getContainerStats ::
  "golib \<Rightarrow> env \<Rightarrow> trace \<Rightarrow> string \<Rightarrow> string \<Rightarrow> string \<Rightarrow> (string + ContainerStats) \<times> trace"
  where
  \<comment> \<open>the error result of the source is always nil\<close>
  "getContainerStats lib e tr namespace podName containerName =
     (case time_Now e tr of (now, tr1) \<Rightarrow>
        let stats = \<lparr>Timestamp = now, CPUIOwait = 0, DiskReadMB = 0, DiskWriteMB = 0,
                     NetworkRxMB = 0, NetworkTxMB = 0, ProcessCount = 0,
                     ContainerStats.IsStuck = False\<rparr>
        in case statsLoop lib e tr1 namespace podName containerName
                  (RangeOrder lib tr1 stats_commands) stats of
             (stats', tr2) \<Rightarrow> (Inr stats', tr2))"

definition detectStuckContainer :: "ContainerStats list \<Rightarrow> bool \<times> string" where
  "detectStuckContainer hist =
     (if length hist < 3 then (False, [])
      else
        let recent = drop (length hist - 3) hist in
        if list_ex ContainerStats.IsStuck recent then
          (True, ''Container exec commands failing - container may be unresponsive'')
        else if \<not> list_ex (\<lambda>stat. CPUIOwait stat < 80) recent then
          (True, ''Consistently high system load - container may be stuck'')
        else if \<not> list_ex (\<lambda>stat. ProcessCount stat > 3) recent then
          (True, ''Very low process count - container may be in minimal state'')
        else if length recent \<ge> 2
                \<and> ProcessCount (hd recent) > 0
                \<and> ProcessCount (last recent) < ProcessCount (hd recent) - 3 then
          (True, ''Process count decreasing rapidly - application may be failing'')
        else (False, []))"

definition generateActions :: "string \<Rightarrow> string list" where
  "generateActions reason =
     (if Contains reason ''unresponsive'' \<or> Contains reason ''failing''
        then [''RESTART_POD'', ''CHECK_LOGS''] else [])
     @ (if Contains reason ''high load'' \<or> Contains reason ''stuck''
        then [''RESTART_POD'', ''CHECK_RESOURCES''] else [])
     @ (if Contains reason ''process count''
        then [''RESTART_POD'', ''INVESTIGATE_APP''] else [])
     @ (if Contains reason ''minimal state''
        then [''CHECK_HEALTH'', ''MONITOR_CLOSELY''] else [])"

definition analyzeContainer ::
  "golib \<Rightarrow> env \<Rightarrow> DiagnosticsEngine \<Rightarrow> trace \<Rightarrow> string \<Rightarrow> string \<Rightarrow> string
     \<Rightarrow> DiagnosticResult \<times> DiagnosticsEngine \<times> trace" where
  "analyzeContainer lib e d tr namespace podName containerName =
     (let result = \<lparr>
            DiagnosticResult.PodName = podName,
            DiagnosticResult.Namespace = namespace,
            DiagnosticResult.ContainerName = containerName,
            DiagnosticResult.IsStuck = False,
            StuckReason = [],
            LastActivity = 0,
            DiagnosticResult.Severity = ''OK'',
            DiagnosticResult.Actions = []\<rparr>
      in case getContainerStats lib e tr namespace podName containerName of
           (Inl err, tr') \<Rightarrow>
             (result\<lparr>StuckReason := ''Failed to get stats: '' @ err\<rparr>, d, tr')
         | (Inr stats, tr') \<Rightarrow>
             let key = namespace @ ''/'' @ podName @ ''/'' @ containerName;
                 h = (case history d key of None \<Rightarrow> [] | Some h \<Rightarrow> h) @ [stats];
                 h = (if length h > 10 then tl h else h);
                 d = d\<lparr>history := (history d)(key \<mapsto> h)\<rparr>
             in if length h \<ge> 3 then
                  (case detectStuckContainer h of
                     (isStuck, reason) \<Rightarrow>
                       if isStuck then
                         (result\<lparr>DiagnosticResult.IsStuck := True,
                                 StuckReason := reason,
                                 DiagnosticResult.Severity := ''CRITICAL'',
                                 DiagnosticResult.Actions := generateActions reason\<rparr>, d, tr')
                       else (result, d, tr'))
                else (result, d, tr'))"

fun diagnoseContainers ::
  "golib \<Rightarrow> env \<Rightarrow> DiagnosticsEngine \<Rightarrow> trace \<Rightarrow> Pod \<Rightarrow> string list
     \<Rightarrow> DiagnosticResult list \<times> DiagnosticsEngine \<times> trace" where
  \<comment> \<open>the inner loop of \<^verbatim>\<open>DiagnoseStuckContainers\<close> over \<^verbatim>\<open>pod.Spec.Containers\<close>\<close>
  "diagnoseContainers lib e d tr pod [] = ([], d, tr)"
| "diagnoseContainers lib e d tr pod (container # containers) =
     (case analyzeContainer lib e d tr (Pod.Namespace pod) (Pod.Name pod) container of
        (result, d', tr') \<Rightarrow>
          case diagnoseContainers lib e d' tr' pod containers of
            (results, d'', tr'') \<Rightarrow>
              (if DiagnosticResult.IsStuck result then result # results else results, d'', tr''))"

fun diagnosePods ::
  "golib \<Rightarrow> env \<Rightarrow> DiagnosticsEngine \<Rightarrow> trace \<Rightarrow> Pod list
     \<Rightarrow> DiagnosticResult list \<times> DiagnosticsEngine \<times> trace" where
  \<comment> \<open>the outer loop of \<^verbatim>\<open>DiagnoseStuckContainers\<close> over \<^verbatim>\<open>pods.Items\<close>\<close>
  "diagnosePods lib e d tr [] = ([], d, tr)"
| "diagnosePods lib e d tr (pod # pods) =
     (if Status_Phase pod \<noteq> ''Running'' then diagnosePods lib e d tr pods
      else if isSystemNamespace (Pod.Namespace pod) then diagnosePods lib e d tr pods
      else
        case diagnoseContainers lib e d tr pod (Spec_Containers pod) of
          (results, d', tr') \<Rightarrow>
            case diagnosePods lib e d' tr' pods of
              (others, d'', tr'') \<Rightarrow> (results @ others, d'', tr''))"

definition DiagnoseStuckContainers ::
  "golib \<Rightarrow> env \<Rightarrow> DiagnosticsEngine \<Rightarrow> trace \<Rightarrow> string
     \<Rightarrow> (string + DiagnosticResult list) \<times> DiagnosticsEngine \<times> trace" where
  "DiagnoseStuckContainers lib e d tr namespace =
     (case Pods_List e tr namespace of
        Inl err \<Rightarrow> (Inl (''failed to list pods: '' @ err), d, tr @ [Call (PodsList namespace)])
      | Inr items \<Rightarrow>
          case diagnosePods lib e d (tr @ [Call (PodsList namespace)]) items of
            (results, d', tr') \<Rightarrow> (Inr results, d', tr'))"

subsection \<open>Container checks\<close>

record ContainerCheck =
  CheckName :: string
  Status :: string
  Details :: string
  Severity :: string
  FixActions :: "string list"

record ContainerCheckResult =
  PodName :: string
  Namespace :: string
  ContainerName :: string
  Checks :: "ContainerCheck list"
  OverallStatus :: string
  NeedsAction :: bool

definition okCheck :: "string \<Rightarrow> string \<Rightarrow> ContainerCheck" where
  \<comment> \<open>the initial value that each of the four checks starts from\<close>
  "okCheck name details = \<lparr>CheckName = name, ContainerCheck.Status = ''OK'', Details = details,
     ContainerCheck.Severity = ''LOW'', FixActions = []\<rparr>"

definition checkDNS ::
  "env \<Rightarrow> trace \<Rightarrow> string \<Rightarrow> string \<Rightarrow> string \<Rightarrow> ContainerCheck \<times> trace" where
  "checkDNS e tr namespace podName containerName =
     (let check = okCheck ''DNS Resolution'' ''DNS working normally'';
          cmd0 = ''nslookup kubernetes.default.svc.cluster.local 2>/dev/null | grep ''
                 @ [CHR 0x27] @ ''Name:'' @ [CHR 0x27] @ '' || echo '' @ [CHR 0x27]
                 @ ''DNS_FAIL'' @ [CHR 0x27];
          cmd1 = ''nslookup google.com 2>/dev/null | grep '' @ [CHR 0x27] @ ''Name:''
                 @ [CHR 0x27] @ '' || echo '' @ [CHR 0x27] @ ''EXTERNAL_DNS_FAIL'' @ [CHR 0x27];
          failed = (\<lambda>r. case r of Inl err \<Rightarrow> True | Inr output \<Rightarrow> Contains output ''DNS_FAIL'')
      in case execInContainer e tr namespace podName containerName cmd0 of
           (r0, tr0) \<Rightarrow>
             if failed r0 then
               (check\<lparr>ContainerCheck.Status := ''CRITICAL'',
                      Details := ''Internal Kubernetes DNS resolution failed'',
                      ContainerCheck.Severity := ''HIGH'',
                      FixActions := [''RESTART_POD'', ''CHECK_DNS_CONFIG'', ''RESTART_DNS'']\<rparr>, tr0)
             else
               case execInContainer e tr0 namespace podName containerName cmd1 of
                 (r1, tr1) \<Rightarrow>
                   if failed r1 then
                     (check\<lparr>ContainerCheck.Status := ''WARNING'',
                            Details := ''External DNS resolution failed'',
                            ContainerCheck.Severity := ''MEDIUM'',
                            FixActions := [''CHECK_NETWORK'', ''CHECK_DNS_SERVERS'']\<rparr>, tr1)
                   else (check, tr1))"

definition checkDiskSpace ::
  "golib \<Rightarrow> env \<Rightarrow> trace \<Rightarrow> string \<Rightarrow> string \<Rightarrow> string \<Rightarrow> ContainerCheck \<times> trace" where
  "checkDiskSpace lib e tr namespace podName containerName =
     (let check = okCheck ''Disk Space'' ''Disk space normal'';
          cmd = ''df / 2>/dev/null | tail -1 | awk '' @ [CHR 0x27] @ ''{print $5}'' @ [CHR 0x27]
                @ '' | sed '' @ [CHR 0x27] @ ''s/%//'' @ [CHR 0x27]
      in case execInContainer e tr namespace podName containerName cmd of
           (Inl err, tr') \<Rightarrow>
             (check\<lparr>ContainerCheck.Status := ''WARNING'',
                    Details := ''Could not check disk space''\<rparr>, tr')
         | (Inr output, tr') \<Rightarrow>
             (case Atoi lib (TrimSpace lib output) of
                None \<Rightarrow>
                  (check\<lparr>ContainerCheck.Status := ''WARNING'',
                         Details := ''Invalid disk usage data''\<rparr>, tr')
              | Some usage \<Rightarrow>
                  if usage > 90 then
                    (check\<lparr>ContainerCheck.Status := ''CRITICAL'',
                           Details := ''Root filesystem '' @ Itoa lib usage @ ''% full'',
                           ContainerCheck.Severity := ''HIGH'',
                           FixActions := [''CLEANUP_DISK'', ''RESTART_POD'', ''SCALE_STORAGE'']\<rparr>,
                     tr')
                  else if usage > 80 then
                    (check\<lparr>ContainerCheck.Status := ''WARNING'',
                           Details := ''Root filesystem '' @ Itoa lib usage @ ''% full'',
                           ContainerCheck.Severity := ''MEDIUM'',
                           FixActions := [''CLEANUP_DISK'', ''MONITOR_DISK'']\<rparr>, tr')
                  else
                    (check\<lparr>Details := ''Root filesystem '' @ Itoa lib usage @ ''% used''\<rparr>,
                     tr')))"

definition checkTmpDirectory ::
  "golib \<Rightarrow> env \<Rightarrow> trace \<Rightarrow> string \<Rightarrow> string \<Rightarrow> string \<Rightarrow> ContainerCheck \<times> trace" where
  "checkTmpDirectory lib e tr namespace podName containerName =
     (let check = okCheck ''/tmp Directory'' ''/tmp directory normal'';
          cmd = ''df /tmp 2>/dev/null | tail -1 | awk '' @ [CHR 0x27] @ ''{print $5}''
                @ [CHR 0x27] @ '' | sed '' @ [CHR 0x27] @ ''s/%//'' @ [CHR 0x27]
                @ '' || echo '' @ [CHR 0x27] @ ''0'' @ [CHR 0x27];
          cmd2 = ''find /tmp -type f -size +10M 2>/dev/null | wc -l''
      in case execInContainer e tr namespace podName containerName cmd of
           (Inl err, tr') \<Rightarrow> (check, tr')
         | (Inr output, tr') \<Rightarrow>
             (case Atoi lib (TrimSpace lib output) of
                None \<Rightarrow> (check, tr')
              | Some usage \<Rightarrow>
                  let check =
                        (if usage > 95 then
                           check\<lparr>ContainerCheck.Status := ''CRITICAL'',
                                 Details := ''/tmp directory '' @ Itoa lib usage @ ''% full'',
                                 ContainerCheck.Severity := ''HIGH'',
                                 FixActions := [''CLEANUP_TMP'', ''RESTART_POD'']\<rparr>
                         else if usage > 85 then
                           check\<lparr>ContainerCheck.Status := ''WARNING'',
                                 Details := ''/tmp directory '' @ Itoa lib usage @ ''% full'',
                                 ContainerCheck.Severity := ''MEDIUM'',
                                 FixActions := [''CLEANUP_TMP'']\<rparr>
                         else check)
                  in case execInContainer e tr' namespace podName containerName cmd2 of
                       (Inl err2, tr'') \<Rightarrow> (check, tr'')
                     | (Inr output2, tr'') \<Rightarrow>
                         (case Atoi lib (TrimSpace lib output2) of
                            None \<Rightarrow> (check, tr'')
                          | Some largeFiles \<Rightarrow>
                              if largeFiles > 0 then
                                let check = check\<lparr>Details := Details check @ '', ''
                                              @ Itoa lib largeFiles @ '' large files found''\<rparr>
                                in if ContainerCheck.Status check = ''OK'' then
                                     (check\<lparr>ContainerCheck.Status := ''WARNING'',
                                            FixActions := [''CLEANUP_TMP'']\<rparr>, tr'')
                                   else (check, tr'')
                              else (check, tr''))))"

definition checkNetworkConnectivity ::
  "env \<Rightarrow> trace \<Rightarrow> string \<Rightarrow> string \<Rightarrow> string \<Rightarrow> ContainerCheck \<times> trace" where
  "checkNetworkConnectivity e tr namespace podName containerName =
     (let check = okCheck ''Network Connectivity'' ''Network connectivity normal'';
          tail = '' 2>/dev/null && echo '' @ [CHR 0x27] @ ''OK'' @ [CHR 0x27] @ '' || echo ''
                 @ [CHR 0x27] @ ''FAIL'' @ [CHR 0x27];
          cmd = ''wget -q --timeout=5 --tries=1 -O /dev/null ''
                @ ''http://kubernetes.default.svc.cluster.local:443'' @ tail;
          cmd2 = ''wget -q --timeout=5 --tries=1 -O /dev/null http://google.com'' @ tail;
          failed = (\<lambda>r. case r of Inl err \<Rightarrow> True | Inr output \<Rightarrow> Contains output ''FAIL'')
      in case execInContainer e tr namespace podName containerName cmd of
           (r, tr') \<Rightarrow>
             let check =
                   (if failed r then
                      check\<lparr>ContainerCheck.Status := ''WARNING'',
                            Details := ''Internal cluster connectivity issues'',
                            ContainerCheck.Severity := ''MEDIUM'',
                            FixActions := [''CHECK_NETWORK'', ''RESTART_POD'']\<rparr>
                    else check)
             in case execInContainer e tr' namespace podName containerName cmd2 of
                  (r2, tr'') \<Rightarrow>
                    if failed r2 \<and> ContainerCheck.Status check = ''OK'' then
                      (check\<lparr>ContainerCheck.Status := ''WARNING'',
                             Details := ''External connectivity issues'',
                             ContainerCheck.Severity := ''LOW'',
                             FixActions := [''CHECK_EXTERNAL_NETWORK'']\<rparr>, tr'')
                    else (check, tr''))"

definition overallStatus :: "ContainerCheck \<Rightarrow> ContainerCheckResult \<Rightarrow> ContainerCheckResult" where
  \<comment> \<open>the body of the loop of \<^verbatim>\<open>checkContainer\<close> that determines the overall status\<close>
  "overallStatus check result =
     (if ContainerCheck.Status check = ''CRITICAL'' then
        result\<lparr>OverallStatus := ''CRITICAL'', NeedsAction := True\<rparr>
      else if ContainerCheck.Status check = ''WARNING'' \<and> OverallStatus result \<noteq> ''CRITICAL'' then
        result\<lparr>OverallStatus := ''WARNING'', NeedsAction := True\<rparr>
      else result)"

definition checkContainer ::
  "golib \<Rightarrow> env \<Rightarrow> trace \<Rightarrow> string \<Rightarrow> string \<Rightarrow> string \<Rightarrow> ContainerCheckResult \<times> trace"
  where
  "checkContainer lib e tr namespace podName containerName =
     (case checkDNS e tr namespace podName containerName of (dnsCheck, tr1) \<Rightarrow>
      case checkDiskSpace lib e tr1 namespace podName containerName of (diskCheck, tr2) \<Rightarrow>
      case checkTmpDirectory lib e tr2 namespace podName containerName of (tmpCheck, tr3) \<Rightarrow>
      case checkNetworkConnectivity e tr3 namespace podName containerName of
        (networkCheck, tr4) \<Rightarrow>
          let result = \<lparr>
                ContainerCheckResult.PodName = podName,
                ContainerCheckResult.Namespace = namespace,
                ContainerCheckResult.ContainerName = containerName,
                Checks = [dnsCheck, diskCheck, tmpCheck, networkCheck],
                OverallStatus = ''OK'',
                NeedsAction = False\<rparr>
          in (fold overallStatus (Checks result) result, tr4))"

fun checkContainers ::
  "golib \<Rightarrow> env \<Rightarrow> trace \<Rightarrow> Pod \<Rightarrow> string list \<Rightarrow> ContainerCheckResult list \<times> trace" where
  \<comment> \<open>the inner loop of \<^verbatim>\<open>RunContainerChecks\<close> over \<^verbatim>\<open>pod.Spec.Containers\<close>\<close>
  "checkContainers lib e tr pod [] = ([], tr)"
| "checkContainers lib e tr pod (container # containers) =
     (case checkContainer lib e tr (Pod.Namespace pod) (Pod.Name pod) container of
        (result, tr') \<Rightarrow>
          case checkContainers lib e tr' pod containers of
            (results, tr'') \<Rightarrow>
              (if NeedsAction result then result # results else results, tr''))"

fun checkPods ::
  "golib \<Rightarrow> env \<Rightarrow> trace \<Rightarrow> Pod list \<Rightarrow> ContainerCheckResult list \<times> trace" where
  \<comment> \<open>the outer loop of \<^verbatim>\<open>RunContainerChecks\<close> over \<^verbatim>\<open>pods.Items\<close>\<close>
  "checkPods lib e tr [] = ([], tr)"
| "checkPods lib e tr (pod # pods) =
     (if Status_Phase pod \<noteq> ''Running'' then checkPods lib e tr pods
      else if isSystemNamespace (Pod.Namespace pod) then checkPods lib e tr pods
      else
        case checkContainers lib e tr pod (Spec_Containers pod) of
          (results, tr') \<Rightarrow>
            case checkPods lib e tr' pods of
              (others, tr'') \<Rightarrow> (results @ others, tr''))"

definition RunContainerChecks ::
  "golib \<Rightarrow> env \<Rightarrow> trace \<Rightarrow> string \<Rightarrow> (string + ContainerCheckResult list) \<times> trace" where
  "RunContainerChecks lib e tr namespace =
     (case Pods_List e tr namespace of
        Inl err \<Rightarrow> (Inl (''failed to list pods: '' @ err), tr @ [Call (PodsList namespace)])
      | Inr items \<Rightarrow>
          case checkPods lib e (tr @ [Call (PodsList namespace)]) items of
            (results, tr') \<Rightarrow> (Inr results, tr'))"

section \<open>diagnostics: the auto healer\<close>

record HealingAction =
  ActionType :: string
  PodName :: string
  Namespace :: string
  ContainerName :: string
  Description :: string
  Status :: string
  Timestamp :: int
  Result :: string

record AutoHealer =
  history :: "HealingAction list"
  dryRun :: bool

definition NewAutoHealer :: "bool \<Rightarrow> AutoHealer" where
  "NewAutoHealer dry = \<lparr>AutoHealer.history = [], AutoHealer.dryRun = dry\<rparr>"

fun contains :: "string list \<Rightarrow> string \<Rightarrow> bool" where
  "contains [] item = False"
| "contains (s # slice) item = (if s = item then True else contains slice item)"

definition newAction ::
  "env \<Rightarrow> trace \<Rightarrow> string \<Rightarrow> string \<Rightarrow> ContainerCheckResult \<Rightarrow> HealingAction \<times> trace" where
  \<comment> \<open>the struct literal that each of the four fixes starts from; \<^verbatim>\<open>Result\<close> is empty\<close>
  "newAction e tr actionType description checkResult =
     (case time_Now e tr of (now, tr') \<Rightarrow>
        (\<lparr>ActionType = actionType,
          HealingAction.PodName = ContainerCheckResult.PodName checkResult,
          HealingAction.Namespace = ContainerCheckResult.Namespace checkResult,
          HealingAction.ContainerName = ContainerCheckResult.ContainerName checkResult,
          Description = description,
          HealingAction.Status = ''EXECUTING'',
          HealingAction.Timestamp = now,
          Result = []\<rparr>, tr'))"

fun runCommands ::
  "env \<Rightarrow> trace \<Rightarrow> ContainerCheckResult \<Rightarrow> (string \<Rightarrow> string + string \<Rightarrow> string) \<Rightarrow> string list
     \<Rightarrow> string list \<times> trace" where
  \<comment> \<open>the loops that run a list of commands in the container and collect one result string
      per command; \<open>report cmd r\<close> is the string for the outcome \<open>r\<close> of \<open>cmd\<close>\<close>
  "runCommands e tr checkResult report [] = ([], tr)"
| "runCommands e tr checkResult report (cmd # cmds) =
     (case execInContainer e tr (ContainerCheckResult.Namespace checkResult)
             (ContainerCheckResult.PodName checkResult)
             (ContainerCheckResult.ContainerName checkResult) cmd of
        (r, tr') \<Rightarrow>
          case runCommands e tr' checkResult report cmds of
            (results, tr'') \<Rightarrow> (report cmd r # results, tr''))"

definition tmpCleanupCommands :: "string list" where
  "tmpCleanupCommands =
     [''find /tmp -type f -atime +1 -delete 2>/dev/null || true'',
      ''find /tmp -type f -size +10M -delete 2>/dev/null || true'',
      ''find /tmp -name '*.log' -mtime +1 -delete 2>/dev/null || true'',
      ''find /tmp -name 'core.*' -delete 2>/dev/null || true'',
      ''find /tmp -name '*.tmp' -mtime +1 -delete 2>/dev/null || true'']"

definition cleanupTmpDirectory ::
  "env \<Rightarrow> AutoHealer \<Rightarrow> trace \<Rightarrow> ContainerCheckResult \<Rightarrow> ContainerCheck
     \<Rightarrow> HealingAction \<times> trace" where
  "cleanupTmpDirectory e h tr checkResult check =
     (case newAction e tr ''CLEANUP_TMP'' ''Cleaning up /tmp directory'' checkResult of
        (action, tr1) \<Rightarrow>
          if AutoHealer.dryRun h then
            (action\<lparr>HealingAction.Status := ''DRY_RUN'',
                    Result := ''Would cleanup /tmp directory''\<rparr>, tr1)
          else
            case runCommands e tr1 checkResult
                   (\<lambda>cmd r. case r of Inl err \<Rightarrow> ''Failed: '' @ cmd
                                     | Inr output \<Rightarrow> ''Cleanup executed'')
                   tmpCleanupCommands of
              (results, tr2) \<Rightarrow>
                (action\<lparr>HealingAction.Status := ''COMPLETED'',
                        Result := Join results ''; ''\<rparr>, tr2))"

definition diskCleanupCommands :: "string list" where
  "diskCleanupCommands =
     [''find /var/log -name '*.log' -size +50M -exec truncate -s 10M {} + 2>/dev/null || true'',
      ''find /var/log -name '*.log.*' -mtime +7 -delete 2>/dev/null || true'',
      ''find / -name '*.core' -delete 2>/dev/null || true'',
      ''find /var/tmp -type f -mtime +3 -delete 2>/dev/null || true'']"

definition cleanupDiskSpace ::
  "env \<Rightarrow> AutoHealer \<Rightarrow> trace \<Rightarrow> ContainerCheckResult \<Rightarrow> ContainerCheck
     \<Rightarrow> HealingAction \<times> trace" where
  "cleanupDiskSpace e h tr checkResult check =
     (case newAction e tr ''CLEANUP_DISK'' ''Cleaning up disk space'' checkResult of
        (action, tr1) \<Rightarrow>
          if AutoHealer.dryRun h then
            (action\<lparr>HealingAction.Status := ''DRY_RUN'',
                    Result := ''Would cleanup disk space''\<rparr>, tr1)
          else
            case runCommands e tr1 checkResult
                   (\<lambda>cmd r. case r of Inl err \<Rightarrow> ''Failed: '' @ err
                                     | Inr output \<Rightarrow> ''Cleanup executed'')
                   diskCleanupCommands of
              (results, tr2) \<Rightarrow>
                (action\<lparr>HealingAction.Status := ''COMPLETED'',
                        Result := Join results ''; ''\<rparr>, tr2))"

definition networkCommands :: "string list" where
  "networkCommands =
     [''ip route flush cache 2>/dev/null || true'',
      ''ping -c 1 kubernetes.default.svc.cluster.local 2>/dev/null && echo 'Network OK' ''
        @ ''|| echo 'Network FAIL'' @ [CHR 0x27]]"

fun networkLoop ::
  "golib \<Rightarrow> env \<Rightarrow> trace \<Rightarrow> ContainerCheckResult \<Rightarrow> string list \<Rightarrow> string list \<Rightarrow> bool
     \<Rightarrow> string list \<times> bool \<times> trace" where
  \<comment> \<open>the loop of \<^verbatim>\<open>fixNetworkConnectivity\<close> over its commands, with the accumulators
      \<^verbatim>\<open>results\<close> and \<^verbatim>\<open>networkFailed\<close>\<close>
  "networkLoop lib e tr checkResult [] results networkFailed = (results, networkFailed, tr)"
| "networkLoop lib e tr checkResult (cmd # cmds) results networkFailed =
     (case execInContainer e tr (ContainerCheckResult.Namespace checkResult)
             (ContainerCheckResult.PodName checkResult)
             (ContainerCheckResult.ContainerName checkResult) cmd of
        (Inl err, tr') \<Rightarrow>
          networkLoop lib e tr' checkResult cmds (results @ [''Command failed: '' @ err]) True
      | (Inr output, tr') \<Rightarrow>
          networkLoop lib e tr' checkResult cmds (results @ [TrimSpace lib output])
            (if Contains output ''Network FAIL'' then True else networkFailed))"

definition fixNetworkConnectivity ::
  "golib \<Rightarrow> env \<Rightarrow> AutoHealer \<Rightarrow> trace \<Rightarrow> ContainerCheckResult \<Rightarrow> ContainerCheck
     \<Rightarrow> HealingAction \<times> trace" where
  "fixNetworkConnectivity lib e h tr checkResult check =
     (case newAction e tr ''FIX_NETWORK'' ''Fixing network connectivity'' checkResult of
        (action, tr1) \<Rightarrow>
          if AutoHealer.dryRun h then
            (action\<lparr>HealingAction.Status := ''DRY_RUN'',
                    Result := ''Would restart network services and pod if needed''\<rparr>, tr1)
          else
            case networkLoop lib e tr1 checkResult networkCommands [] False of
              (results, networkFailed, tr2) \<Rightarrow>
                let (action, results, tr3) =
                      (if networkFailed then
                         let results = results
                               @ [''Network still failing - attempting pod restart''];
                             tr3 = tr2 @ [Call (PodsDelete
                                     (ContainerCheckResult.Namespace checkResult)
                                     (ContainerCheckResult.PodName checkResult))]
                         in case Pods_Delete e tr2 (ContainerCheckResult.Namespace checkResult)
                                   (ContainerCheckResult.PodName checkResult) of
                              Some err \<Rightarrow>
                                (action\<lparr>HealingAction.Status := ''FAILED''\<rparr>,
                                 results @ [''Pod restart failed: '' @ err], tr3)
                            | None \<Rightarrow>
                                (action\<lparr>ActionType := ''RESTART_POD_NETWORK'',
                                        Description := ''Restarted pod due to network failure''\<rparr>,
                                 results @ [''Pod restarted successfully''], tr3)
                       else (action, results, tr2))
                in (action\<lparr>HealingAction.Status := ''COMPLETED'',
                           Result := Join results ''; ''\<rparr>, tr3))"

definition dnsCommands :: "string list" where
  "dnsCommands =
     [''nslookup kubernetes.default.svc.cluster.local 2>/dev/null && echo 'DNS OK' ''
        @ ''|| echo 'DNS FAIL'' @ [CHR 0x27]]"

definition fixDNSResolution ::
  "golib \<Rightarrow> env \<Rightarrow> AutoHealer \<Rightarrow> trace \<Rightarrow> ContainerCheckResult \<Rightarrow> ContainerCheck
     \<Rightarrow> HealingAction \<times> trace" where
  "fixDNSResolution lib e h tr checkResult check =
     (case newAction e tr ''FIX_DNS'' ''Fixing DNS resolution'' checkResult of
        (action, tr1) \<Rightarrow>
          if AutoHealer.dryRun h then
            (action\<lparr>HealingAction.Status := ''DRY_RUN'',
                    Result := ''Would flush DNS cache and restart DNS''\<rparr>, tr1)
          else
            case runCommands e tr1 checkResult
                   (\<lambda>cmd r. case r of Inl err \<Rightarrow> ''DNS command failed: '' @ err
                                     | Inr output \<Rightarrow> TrimSpace lib output)
                   dnsCommands of
              (results, tr2) \<Rightarrow>
                (action\<lparr>HealingAction.Status := ''COMPLETED'',
                        Result := Join results ''; ''\<rparr>, tr2))"

definition healCheck ::
  "golib \<Rightarrow> env \<Rightarrow> AutoHealer \<Rightarrow> trace \<Rightarrow> ContainerCheckResult \<Rightarrow> ContainerCheck
     \<Rightarrow> HealingAction list \<times> trace" where
  \<comment> \<open>the body of the inner loop of \<^verbatim>\<open>HealContainerIssues\<close>: the actions it appends\<close>
  "healCheck lib e h tr checkResult check =
     (if ContainerCheck.Status check = ''OK'' then ([], tr)
      else if CheckName check = ''/tmp Directory'' then
        (if contains (FixActions check) ''CLEANUP_TMP'' then
           (case cleanupTmpDirectory e h tr checkResult check of (action, tr') \<Rightarrow> ([action], tr'))
         else ([], tr))
      else if CheckName check = ''Disk Space'' then
        (if contains (FixActions check) ''CLEANUP_DISK'' then
           (case cleanupDiskSpace e h tr checkResult check of (action, tr') \<Rightarrow> ([action], tr'))
         else ([], tr))
      else if CheckName check = ''Network Connectivity'' then
        (if contains (FixActions check) ''CHECK_NETWORK'' then
           (case fixNetworkConnectivity lib e h tr checkResult check of
              (action, tr') \<Rightarrow> ([action], tr'))
         else ([], tr))
      else if CheckName check = ''DNS Resolution'' then
        (if contains (FixActions check) ''RESTART_DNS'' then
           (case fixDNSResolution lib e h tr checkResult check of
              (action, tr') \<Rightarrow> ([action], tr'))
         else ([], tr))
      else ([], tr))"

fun healChecks ::
  "golib \<Rightarrow> env \<Rightarrow> AutoHealer \<Rightarrow> trace \<Rightarrow> ContainerCheckResult \<Rightarrow> ContainerCheck list
     \<Rightarrow> HealingAction list \<times> trace" where
  "healChecks lib e h tr checkResult [] = ([], tr)"
| "healChecks lib e h tr checkResult (check # checks) =
     (case healCheck lib e h tr checkResult check of
        (actions, tr') \<Rightarrow>
          case healChecks lib e h tr' checkResult checks of
            (others, tr'') \<Rightarrow> (actions @ others, tr''))"

fun healResults ::
  "golib \<Rightarrow> env \<Rightarrow> AutoHealer \<Rightarrow> trace \<Rightarrow> ContainerCheckResult list
     \<Rightarrow> HealingAction list \<times> trace" where
  \<comment> \<open>the outer loop of \<^verbatim>\<open>HealContainerIssues\<close>\<close>
  "healResults lib e h tr [] = ([], tr)"
| "healResults lib e h tr (checkResult # containerChecks) =
     (if \<not> NeedsAction checkResult then healResults lib e h tr containerChecks
      else
        case healChecks lib e h tr checkResult (Checks checkResult) of
          (actions, tr') \<Rightarrow>
            case healResults lib e h tr' containerChecks of
              (others, tr'') \<Rightarrow> (actions @ others, tr''))"

definition HealContainerIssues ::
  "golib \<Rightarrow> env \<Rightarrow> AutoHealer \<Rightarrow> trace \<Rightarrow> ContainerCheckResult list
     \<Rightarrow> HealingAction list \<times> AutoHealer \<times> trace" where
  "HealContainerIssues lib e h tr containerChecks =
     (case healResults lib e h tr containerChecks of
        (actions, tr') \<Rightarrow>
          let hist = AutoHealer.history h @ actions;
              hist = (if length hist > 100 then drop (length hist - 100) hist else hist)
          in (actions, h\<lparr>AutoHealer.history := hist\<rparr>, tr'))"

definition GetHealingHistory :: "AutoHealer \<Rightarrow> HealingAction list" where
  "GetHealingHistory h = AutoHealer.history h"

section \<open>main: the two engines that act\<close>

text \<open>
  \<^verbatim>\<open>main\<close> creates one action engine and one auto healer and, in every round of its loop,
  calls \<^verbatim>\<open>autoHealer.HealContainerIssues\<close> on the container checks and
  \<^verbatim>\<open>actionEngine.ExecuteActions\<close> on the predictions.  The two objects share nothing: the
  counters belong to the engine, and the history of healing actions, which the API serves
  under \<^verbatim>\<open>/actions\<close>, belongs to the healer.
\<close>

record process =
  actionEngine :: ActionEngine
  autoHealer :: AutoHealer

definition newProcess :: "bool \<Rightarrow> process" where
  \<comment> \<open>both objects are created with the same dry-run flag\<close>
  "newProcess dry = \<lparr>actionEngine = New_ActionEngine dry, autoHealer = NewAutoHealer dry\<rparr>"

definition run_ExecuteActions ::
  "env \<Rightarrow> process \<Rightarrow> trace \<Rightarrow> PredictionResult list \<Rightarrow> trace + process \<times> trace" where
  "run_ExecuteActions e s tr predictions =
     (case ExecuteActions e (actionEngine s) tr predictions of
        Inl panic \<Rightarrow> Inl panic
      | Inr (a, tr') \<Rightarrow> Inr (s\<lparr>actionEngine := a\<rparr>, tr'))"

definition run_HealContainerIssues ::
  "golib \<Rightarrow> env \<Rightarrow> process \<Rightarrow> trace \<Rightarrow> ContainerCheckResult list
     \<Rightarrow> HealingAction list \<times> process \<times> trace" where
  "run_HealContainerIssues lib e s tr containerChecks =
     (case HealContainerIssues lib e (autoHealer s) tr containerChecks of
        (actions, h, tr') \<Rightarrow> (actions, s\<lparr>autoHealer := h\<rparr>, tr'))"

definition auditLog :: "process \<Rightarrow> HealingAction list" where
  \<comment> \<open>what \<^verbatim>\<open>handleActions\<close> serves\<close>
  "auditLog s = GetHealingHistory (autoHealer s)"

section \<open>Guards, readings of the specification and sample inputs\<close>

subsection \<open>predictor\<close>

text \<open>
  The guards of the two forecast blocks, named so that the properties can refer to them:
  the forecast fires when the slope exceeds its threshold and the projected hours are in
  \<open>(0, 72]\<close>.
\<close>

definition cpuHours :: "PodMetrics \<Rightarrow> TrendAnalysis \<Rightarrow> real" where
  "cpuHours c t = (100 - CPUPercent c) / CPUSlope t"

definition cpuFires :: "PodMetrics \<Rightarrow> TrendAnalysis \<Rightarrow> bool" where
  "cpuFires c t \<longleftrightarrow> CPUSlope t > 2 \<and> cpuHours c t > 0 \<and> cpuHours c t \<le> 72"

definition memHours :: "PodMetrics \<Rightarrow> TrendAnalysis \<Rightarrow> real" where
  "memHours c t = (100 - MemPercent c) / MemSlope t"

definition memFires :: "PodMetrics \<Rightarrow> TrendAnalysis \<Rightarrow> bool" where
  "memFires c t \<longleftrightarrow> MemSlope t > 1 \<and> memHours c t > 0 \<and> memHours c t \<le> 72"

text \<open>The order of the five risk values, \<open>LOW < LOW-MEDIUM < MEDIUM < HIGH < CRITICAL\<close>.\<close>

definition riskLevel :: "string \<Rightarrow> nat" where
  "riskLevel r = (if r = ''CRITICAL'' then 4 else if r = ''HIGH'' then 3
     else if r = ''MEDIUM'' then 2 else if r = ''LOW-MEDIUM'' then 1 else 0)"

text \<open>
  The slope as the specification words it: \<open>(latest - oldest) / elapsed_hours\<close> with
  \<open>elapsed_hours = history_len * 30 / 3600\<close>.
\<close>

definition spec_slope :: "real \<Rightarrow> real \<Rightarrow> nat \<Rightarrow> real" where
  "spec_slope oldest latest history_len = (latest - oldest) / (real history_len * 30 / 3600)"

text \<open>
  The choice of the action tag as the specification words it: among the triggered rules the
  one of highest priority wins, and among equals the one listed first in the order CPU,
  memory, phase, restarts, trend.  The priority of a rule is read as the risk it assigns
  (4 for CRITICAL down to 2 for MEDIUM; the restart rule assigns none and has priority 0).
  A rule is a triple of its trigger, its priority and its tag.
\<close>

definition spec_rules :: "PodMetrics \<Rightarrow> PodMetrics list \<Rightarrow> (bool \<times> nat \<times> string) list" where
  "spec_rules c h =
     (let t = calculateAdvancedTrend h c; long = (length h \<ge> 5) in
      [(CPUPercent c > 15, 4, ''SCALE_UP_URGENT''),
       (CPUPercent c > 10 \<and> CPUPercent c \<le> 15, 3, ''SCALE_UP''),
       (MemPercent c > 15, 4, ''RESTART_POD_URGENT''),
       (MemPercent c > 10 \<and> MemPercent c \<le> 15, 3, ''RESTART_POD''),
       (PodMetrics.Status c \<noteq> ''Running'', 4, ''RESTART_POD''),
       (Restarts c \<ge> 3, 0, ''INVESTIGATE_RESTARTS''),
       (long \<and> cpuFires c t \<and> cpuHours c t < 24, 4, ''SCALE_UP_URGENT''),
       (long \<and> cpuFires c t \<and> cpuHours c t \<ge> 24, 3, ''SCALE_UP_PLANNED''),
       (long \<and> memFires c t \<and> memHours c t < 12, 4, ''RESTART_POD_URGENT''),
       (long \<and> memFires c t \<and> memHours c t \<ge> 12 \<and> memHours c t < 24, 3,
          ''RESTART_POD_PLANNED''),
       (long \<and> memFires c t \<and> memHours c t \<ge> 24, 2, ''MONITOR_MEMORY_LEAK''),
       (long \<and> detectPerformanceDegradation h c, 2, ''INVESTIGATE_PERFORMANCE'')])"

fun spec_pick ::
  "(nat \<times> string) option \<Rightarrow> (bool \<times> nat \<times> string) list \<Rightarrow> (nat \<times> string) option" where
  "spec_pick best [] = best"
| "spec_pick best ((triggered, prio, tag) # rules) =
     spec_pick (if triggered then
                  (case best of None \<Rightarrow> Some (prio, tag)
                   | Some (p, t) \<Rightarrow> if prio > p then Some (prio, tag) else Some (p, t))
                else best) rules"

definition spec_action :: "PodMetrics \<Rightarrow> PodMetrics list \<Rightarrow> string" where
  "spec_action c h =
     (case spec_pick None (spec_rules c h) of None \<Rightarrow> ''MONITOR'' | Some (p, t) \<Rightarrow> t)"

text \<open>Sample observations.\<close>

definition pendingPod :: PodMetrics where
  "pendingPod = \<lparr>PodMetrics.Name = ''web'', PodMetrics.Namespace = ''default'', CPUUsage = ''0m'', MemUsage = ''0Mi'',
     CPUPercent = 0, MemPercent = 0, PodMetrics.Status = ''Pending'', Restarts = 0, Age = 0,
     NodeName = ''n1''\<rparr>"

definition idlePod :: PodMetrics where
  "idlePod = pendingPod\<lparr>PodMetrics.Status := ''Running''\<rparr>"

definition leakPod :: PodMetrics where
  \<comment> \<open>memory at 5 after four samples at 0: slope 100 per hour, 0.95 hours to 100\<close>
  "leakPod = idlePod\<lparr>MemPercent := 5\<rparr>"

definition leakHistory :: "PodMetrics list" where
  \<comment> \<open>the history holds the current sample already, since \<^verbatim>\<open>main\<close> updates it before it
      predicts\<close>
  "leakHistory = [idlePod, idlePod, idlePod, idlePod, leakPod]"

definition rounds :: "PodMetrics list \<Rightarrow> Predictor" where
  \<comment> \<open>the predictor after one \<^verbatim>\<open>UpdateHistory\<close> per sample, from a new one\<close>
  "rounds samples = foldl (\<lambda>p m. UpdateHistory p [m]) New_Predictor samples"

definition hotPod :: PodMetrics where
  "hotPod = idlePod\<lparr>CPUPercent := 20, MemPercent := 20\<rparr>"

subsection \<open>restart analyzer\<close>

text \<open>
  The termination record that the loop over the container statuses reads last: the one of
  the last status in the list that has one.
\<close>

definition lastTermination :: "ContainerStatus list \<Rightarrow> ContainerStateTerminated option" where
  "lastTermination css =
     fold (\<lambda>cs acc. case LastTerminationState_Terminated cs of None \<Rightarrow> acc | Some t \<Rightarrow> Some t)
       css None"


text \<open>A cluster that holds nothing and never fails, with its clock at 0, and sample pods.\<close>

definition quietEnv :: env where
  "quietEnv = \<lparr>
     Pods_List = (\<lambda>tr ns. Inr []),
     PodMetricses_List = (\<lambda>tr ns. Inr []),
     Deployments_List = (\<lambda>tr ns. Inr []),
     Deployments_Update = (\<lambda>tr ns d. None),
     Pods_Delete = (\<lambda>tr ns name. None),
     Events_List = (\<lambda>tr ns name. Inr []),
     Exec_Stream = (\<lambda>tr ns pod container cmd. Inr []),
     Time_Now = (\<lambda>tr. 0)\<rparr>"

definition restartedOnce :: ContainerStatus where
  "restartedOnce = \<lparr>ContainerStatus.RestartCount = 1, LastTerminationState_Terminated = None\<rparr>"

definition newbornPod :: Pod where
  \<comment> \<open>created at the instant of the analysis, one restart\<close>
  "newbornPod = \<lparr>Pod.Name = ''web'', Pod.Namespace = ''default'', CreationTimestamp = 0,
     Spec_NodeName = ''n1'', Spec_Containers = [''app''], Status_Phase = ''Running'',
     Status_ContainerStatuses = [restartedOnce]\<rparr>"

definition killedPod :: Pod where
  \<comment> \<open>ten hours old, one restart, last termination by signal 9 with reason Error\<close>
  "killedPod = newbornPod\<lparr>CreationTimestamp := - 10 * Hour,
     Status_ContainerStatuses :=
       [restartedOnce\<lparr>LastTerminationState_Terminated :=
          Some \<lparr>ExitCode = 137, ContainerStateTerminated.Reason = ''Error''\<rparr>\<rparr>]\<rparr>"

definition oomPod :: Pod where
  "oomPod = newbornPod\<lparr>CreationTimestamp := - 10 * Hour,
     Status_ContainerStatuses :=
       [restartedOnce\<lparr>LastTerminationState_Terminated :=
          Some \<lparr>ExitCode = 137, ContainerStateTerminated.Reason = ''OOMKilled''\<rparr>\<rparr>]\<rparr>"


definition oomEnv :: env where
  \<comment> \<open>the quiet cluster, listing the one pod \<open>oomPod\<close>\<close>
  "oomEnv = quietEnv\<lparr>Pods_List := (\<lambda>tr ns. Inr [oomPod])\<rparr>"

subsection \<open>action engine\<close>

text \<open>How often the trace enters the dispatch switch for a key.\<close>

definition isDispatch :: "string \<Rightarrow> event \<Rightarrow> bool" where
  "isDispatch key ev = (case ev of Dispatch k tag \<Rightarrow> k = key | _ \<Rightarrow> False)"

definition dispatched :: "trace \<Rightarrow> string \<Rightarrow> nat" where
  "dispatched tr key = length (filter (isDispatch key) tr)"

definition trace_of :: "trace + ActionEngine \<times> trace \<Rightarrow> trace" where
  \<comment> \<open>the trace of a run, whether it ended in a panic or returned\<close>
  "trace_of r = (case r of Inl tr \<Rightarrow> tr | Inr (a, tr) \<Rightarrow> tr)"

definition prediction :: "string \<Rightarrow> string \<Rightarrow> string \<Rightarrow> PredictionResult" where
  \<comment> \<open>a prediction for a pod with the given action tag\<close>
  "prediction ns name tag =
     (initialResult (idlePod\<lparr>PodMetrics.Namespace := ns, PodMetrics.Name := name\<rparr>))
       \<lparr>Action := tag, Risk := ''CRITICAL'', Score := 100\<rparr>"

definition failingEnv :: env where
  \<comment> \<open>a cluster that refuses every delete and every update\<close>
  "failingEnv = quietEnv\<lparr>
     Pods_Delete := (\<lambda>tr ns name. Some ''forbidden''),
     Deployments_Update := (\<lambda>tr ns d. Some ''forbidden'')\<rparr>"

text \<open>
  The invariant of the engine: every counter is the number of dispatches of its key, and no
  counter exceeds the cap.  A run that ended is capped when its trace, or its final state,
  respects that.
\<close>

definition counted :: "ActionEngine \<Rightarrow> trace \<Rightarrow> bool" where
  "counted a tr \<longleftrightarrow> (\<forall>key. int (dispatched tr key) = count_of a key \<and> count_of a key \<le> 3)"

definition capped :: "trace + ActionEngine \<times> trace \<Rightarrow> bool" where
  "capped r = (case r of Inl tr \<Rightarrow> \<forall>key. dispatched tr key \<le> 3 | Inr (a, tr) \<Rightarrow> counted a tr)"

text \<open>A prediction that asks for a restart, and an engine whose counter for it is at the cap.\<close>

definition restartWeb :: PredictionResult where
  "restartWeb = prediction ''default'' ''web'' ''RESTART_POD''"

definition exhausted :: ActionEngine where
  "exhausted = \<lparr>ActionEngine.dryRun = False, actionCounts = [''default/web'' \<mapsto> 3]\<rparr>"

subsection \<open>dry run and failures\<close>

text \<open>The events that change the cluster or run a command in a container.\<close>

fun mutating :: "event \<Rightarrow> bool" where
  "mutating (Call (PodsDelete ns name)) = True"
| "mutating (Call (DeploymentsUpdate ns name replicas)) = True"
| "mutating (Call (ExecStream ns pod container cmd)) = True"
| "mutating ev = False"

definition quiet :: "event list \<Rightarrow> bool" where
  "quiet evs = list_all (\<lambda>ev. \<not> mutating ev) evs"

text \<open>
  The fix that the healer selects for a check, by the \<^verbatim>\<open>switch\<close> of \<^verbatim>\<open>HealContainerIssues\<close>:
  its action type, if there is one.  \<open>fixes_of\<close> lists the fixes of a round in the order of
  the loops, each with the namespace, pod and container it is for.
\<close>

definition fixOf :: "ContainerCheck \<Rightarrow> string option" where
  "fixOf check =
     (if ContainerCheck.Status check = ''OK'' then None
      else if CheckName check = ''/tmp Directory'' \<and> contains (FixActions check) ''CLEANUP_TMP''
        then Some ''CLEANUP_TMP''
      else if CheckName check = ''Disk Space'' \<and> contains (FixActions check) ''CLEANUP_DISK''
        then Some ''CLEANUP_DISK''
      else if CheckName check = ''Network Connectivity''
              \<and> contains (FixActions check) ''CHECK_NETWORK''
        then Some ''FIX_NETWORK''
      else if CheckName check = ''DNS Resolution'' \<and> contains (FixActions check) ''RESTART_DNS''
        then Some ''FIX_DNS''
      else None)"

definition fixes_of :: "ContainerCheckResult list \<Rightarrow> (string \<times> string \<times> string \<times> string) list" where
  "fixes_of containerChecks =
     concat (map (\<lambda>checkResult.
        map (\<lambda>ty. (ty, ContainerCheckResult.Namespace checkResult,
                    ContainerCheckResult.PodName checkResult,
                    ContainerCheckResult.ContainerName checkResult))
          (List.map_filter fixOf (Checks checkResult)))
       (filter NeedsAction containerChecks))"

definition fixesOfCheck ::
  "ContainerCheckResult \<Rightarrow> ContainerCheck \<Rightarrow> (string \<times> string \<times> string \<times> string) list" where
  \<comment> \<open>the fixes of one check of a container\<close>
  "fixesOfCheck cr check =
     map (\<lambda>ty. (ty, ContainerCheckResult.Namespace cr, ContainerCheckResult.PodName cr,
                 ContainerCheckResult.ContainerName cr))
       (case fixOf check of None \<Rightarrow> [] | Some ty \<Rightarrow> [ty])"

definition target :: "HealingAction \<Rightarrow> string \<times> string \<times> string \<times> string" where
  "target action = (ActionType action, HealingAction.Namespace action,
     HealingAction.PodName action, HealingAction.ContainerName action)"

definition intendedChange :: "string \<Rightarrow> string" where
  \<comment> \<open>the result text of a dry run, by action type\<close>
  "intendedChange ty =
     (if ty = ''CLEANUP_TMP'' then ''Would cleanup /tmp directory''
      else if ty = ''CLEANUP_DISK'' then ''Would cleanup disk space''
      else if ty = ''FIX_NETWORK'' then ''Would restart network services and pod if needed''
      else ''Would flush DNS cache and restart DNS'')"

definition lastHundred :: "HealingAction list \<Rightarrow> HealingAction list" where
  "lastHundred hist = (if length hist > 100 then drop (length hist - 100) hist else hist)"

definition isProperPrefix :: "PredictionResult \<Rightarrow> Deployment \<Rightarrow> bool" where
  \<comment> \<open>the test by which \<^verbatim>\<open>scaleUpDeployment\<close> picks the deployment of a pod\<close>
  "isProperPrefix pred dep \<longleftrightarrow>
     length (PredictionResult.PodName pred) > length (Deployment.Name dep)
     \<and> take (length (Deployment.Name dep)) (PredictionResult.PodName pred) = Deployment.Name dep"

text \<open>Sample checks: a full /tmp directory and a failed connectivity probe of one container.\<close>

definition tmpFull :: ContainerCheck where
  "tmpFull = \<lparr>CheckName = ''/tmp Directory'', ContainerCheck.Status = ''CRITICAL'',
     Details = ''/tmp directory 96% full'', ContainerCheck.Severity = ''HIGH'',
     FixActions = [''CLEANUP_TMP'', ''RESTART_POD'']\<rparr>"

definition netDown :: ContainerCheck where
  "netDown = \<lparr>CheckName = ''Network Connectivity'', ContainerCheck.Status = ''WARNING'',
     Details = ''Internal cluster connectivity issues'', ContainerCheck.Severity = ''MEDIUM'',
     FixActions = [''CHECK_NETWORK'', ''RESTART_POD'']\<rparr>"

definition webChecks :: ContainerCheckResult where
  "webChecks = \<lparr>ContainerCheckResult.PodName = ''web'',
     ContainerCheckResult.Namespace = ''default'',
     ContainerCheckResult.ContainerName = ''app'',
     Checks = [tmpFull, netDown], OverallStatus = ''CRITICAL'', NeedsAction = True\<rparr>"

definition plainLib :: golib where
  \<comment> \<open>library functions that leave their input as it is; enough for the sample runs\<close>
  "plainLib = \<lparr>TrimSpace = (\<lambda>s. s), Atoi = (\<lambda>s. None), Fields = (\<lambda>s. [s]),
     ParseFloat = (\<lambda>s. None), Itoa = (\<lambda>n. []), RangeOrder = (\<lambda>tr entries. entries)\<rparr>"

definition unreachableEnv :: env where
  \<comment> \<open>every command in a container fails, and so does every delete and update\<close>
  "unreachableEnv = failingEnv\<lparr>Exec_Stream := (\<lambda>tr ns pod container cmd. Inl ''timeout'')\<rparr>"

definition dryRecord :: "HealingAction \<Rightarrow> bool" where
  \<comment> \<open>an audit record of a dry run: status DRY_RUN and the intended change as the result\<close>
  "dryRecord action \<longleftrightarrow>
     HealingAction.Status action = ''DRY_RUN'' \<and> Result action = intendedChange (ActionType action)"

text \<open>A scale-up prediction for a pod of the deployment \<open>web\<close>, in a cluster that lists it.\<close>

definition scaleWeb :: PredictionResult where
  "scaleWeb = prediction ''default'' ''web-1'' ''SCALE_UP''"

definition webDeployment :: Deployment where
  "webDeployment = \<lparr>Deployment.Name = ''web'', Spec_Replicas = Some 1\<rparr>"

definition scaleEnv :: env where
  "scaleEnv = failingEnv\<lparr>Deployments_List := (\<lambda>tr ns. Inr [webDeployment])\<rparr>"

subsection \<open>system namespaces\<close>

text \<open>
  A cluster with two running pods that were killed for lack of memory, one of them in a
  namespace that has \<open>kube-\<close> in its middle; every command in a container fails.
\<close>

definition hiddenPod :: Pod where
  "hiddenPod = oomPod\<lparr>Pod.Name := ''tool'', Pod.Namespace := ''team-kube-tools''\<rparr>"

definition mixedEnv :: env where
  "mixedEnv = unreachableEnv\<lparr>Pods_List := (\<lambda>tr ns. Inr [hiddenPod, oomPod])\<rparr>"

section \<open>Properties of the predictor\<close>

subsection \<open>The effect of each block on the fields of the result\<close>

lemma finalize_Score: "Score (finalize (r, s)) = min s 100"
  by (simp add: finalize_def Let_def)

lemma finalize_Risk:
  "Risk (finalize (r, s)) =
     (if min s 100 \<ge> 80 then ''CRITICAL'' else if min s 100 \<ge> 60 then ''HIGH''
      else if min s 100 \<ge> 40 then ''MEDIUM'' else if min s 100 \<ge> 20 then ''LOW-MEDIUM''
      else ''LOW'')"
  by (simp add: finalize_def Let_def)

lemma finalize_Action: "Action (finalize (r, s)) = Action r"
  by (simp add: finalize_def Let_def)

lemma finalize_TimeToFailure: "TimeToFailure (finalize (r, s)) = TimeToFailure r"
  by (simp add: finalize_def Let_def)

lemma cpuThreshold_Action:
  "Action (fst (cpuThreshold c a)) =
     (if CPUPercent c > 15 then ''SCALE_UP_URGENT'' else if CPUPercent c > 10 then ''SCALE_UP'' else Action (fst a))"
  by (cases a) (simp add: cpuThreshold_def)

lemma cpuThreshold_Risk:
  "Risk (fst (cpuThreshold c a)) =
     (if CPUPercent c > 15 then ''CRITICAL'' else if CPUPercent c > 10 then ''HIGH'' else Risk (fst a))"
  by (cases a) (simp add: cpuThreshold_def)

lemma cpuThreshold_TimeToFailure: "TimeToFailure (fst (cpuThreshold c a)) = TimeToFailure (fst a)"
  by (cases a) (simp add: cpuThreshold_def)

lemma memThreshold_Action:
  "Action (fst (memThreshold c a)) =
     (if MemPercent c > 15 then ''RESTART_POD_URGENT'' else if MemPercent c > 10 then ''RESTART_POD'' else Action (fst a))"
  by (cases a) (simp add: memThreshold_def)

lemma memThreshold_Risk:
  "Risk (fst (memThreshold c a)) =
     (if MemPercent c > 15 then ''CRITICAL'' else if MemPercent c > 10 then ''HIGH'' else Risk (fst a))"
  by (cases a) (simp add: memThreshold_def)

lemma memThreshold_TimeToFailure: "TimeToFailure (fst (memThreshold c a)) = TimeToFailure (fst a)"
  by (cases a) (simp add: memThreshold_def)

lemma cpuForecast_Action:
  "Action (fst (cpuForecast c t a)) =
     (if cpuFires c t then (if cpuHours c t < 24 then ''SCALE_UP_URGENT'' else ''SCALE_UP_PLANNED'')
      else Action (fst a))"
  by (cases a) (simp add: cpuForecast_def cpuFires_def cpuHours_def Let_def)

lemma cpuForecast_Risk:
  "Risk (fst (cpuForecast c t a)) =
     (if cpuFires c t then (if cpuHours c t < 24 then ''CRITICAL'' else ''HIGH'') else Risk (fst a))"
  by (cases a) (simp add: cpuForecast_def cpuFires_def cpuHours_def Let_def)

lemma cpuForecast_TimeToFailure:
  "TimeToFailure (fst (cpuForecast c t a)) =
     (if cpuFires c t then HoursUntil (cpuHours c t) ''CPU overload'' else TimeToFailure (fst a))"
  by (cases a) (simp add: cpuForecast_def cpuFires_def cpuHours_def Let_def)

lemma memForecast_Action:
  "Action (fst (memForecast c t a)) =
     (if memFires c t then
        (if memHours c t < 12 then ''RESTART_POD_URGENT''
         else if memHours c t < 24 then ''RESTART_POD_PLANNED'' else ''MONITOR_MEMORY_LEAK'')
      else Action (fst a))"
  by (cases a) (simp add: memForecast_def memFires_def memHours_def Let_def)

lemma memForecast_Risk:
  "Risk (fst (memForecast c t a)) =
     (if memFires c t then
        (if memHours c t < 12 then ''CRITICAL''
         else if memHours c t < 24 then ''HIGH'' else ''MEDIUM'')
      else Risk (fst a))"
  by (cases a) (simp add: memForecast_def memFires_def memHours_def Let_def)

lemma memForecast_TimeToFailure:
  "TimeToFailure (fst (memForecast c t a)) =
     (if memFires c t then HoursUntil (memHours c t) ''Memory leak'' else TimeToFailure (fst a))"
  by (cases a) (simp add: memForecast_def memFires_def memHours_def Let_def)

lemma memForecast_snd:
  "snd (memForecast c t a) =
     (if memFires c t then (if memHours c t < 12 then snd a + 60 else snd a + 35) else snd a)"
  by (cases a) (simp add: memForecast_def memFires_def memHours_def Let_def)

lemma degradation_Action:
  "Action (fst (degradation h c a)) =
     (if detectPerformanceDegradation h c \<and> Risk (fst a) = ''LOW'' then ''INVESTIGATE_PERFORMANCE''
      else Action (fst a))"
  by (cases a) (simp add: degradation_def Let_def)

lemma degradation_TimeToFailure: "TimeToFailure (fst (degradation h c a)) = TimeToFailure (fst a)"
  by (cases a) (simp add: degradation_def Let_def)

lemma trendLabel_Action: "Action (fst (trendLabel t a)) = Action (fst a)"
  by (cases a) (simp add: trendLabel_def)

lemma trendLabel_TimeToFailure: "TimeToFailure (fst (trendLabel t a)) = TimeToFailure (fst a)"
  by (cases a) (simp add: trendLabel_def)

lemma restartRule_Action:
  "Action (fst (restartRule c a)) = (if Restarts c \<ge> 3 then ''INVESTIGATE_RESTARTS'' else Action (fst a))"
  by (cases a) (simp add: restartRule_def)

lemma restartRule_TimeToFailure: "TimeToFailure (fst (restartRule c a)) = TimeToFailure (fst a)"
  by (cases a) (simp add: restartRule_def)

lemma phaseRule_Action:
  "Action (fst (phaseRule c a)) = (if PodMetrics.Status c \<noteq> ''Running'' then ''RESTART_POD'' else Action (fst a))"
  by (cases a) (simp add: phaseRule_def)

lemma phaseRule_TimeToFailure: "TimeToFailure (fst (phaseRule c a)) = TimeToFailure (fst a)"
  by (cases a) (simp add: phaseRule_def)

lemma trendAnalysis_short: "length h < 5 \<Longrightarrow> trendAnalysis h c a = a"
  by (cases a) (simp add: trendAnalysis_def)

lemma trendAnalysis_long:
  "length h \<ge> 5 \<Longrightarrow> trendAnalysis h c a =
     trendLabel (calculateAdvancedTrend h c)
       (degradation h c
         (memForecast c (calculateAdvancedTrend h c)
           (cpuForecast c (calculateAdvancedTrend h c)
             ((fst a)\<lparr>MemoryLeakRate := MemSlope (calculateAdvancedTrend h c),
                      CPUGrowthRate := CPUSlope (calculateAdvancedTrend h c)\<rparr>, snd a))))"
  by (cases a) (simp add: trendAnalysis_def Let_def)

lemma trendAnalysis_Action:
  "length h \<ge> 5 \<Longrightarrow> Action (fst (trendAnalysis h c a)) =
     (let t = calculateAdvancedTrend h c in
      if memFires c t then
        (if memHours c t < 12 then ''RESTART_POD_URGENT''
         else if memHours c t < 24 then ''RESTART_POD_PLANNED'' else ''MONITOR_MEMORY_LEAK'')
      else if cpuFires c t then
        (if cpuHours c t < 24 then ''SCALE_UP_URGENT'' else ''SCALE_UP_PLANNED'')
      else if detectPerformanceDegradation h c \<and> Risk (fst a) = ''LOW'' then ''INVESTIGATE_PERFORMANCE''
      else Action (fst a))"
  by (simp add: trendAnalysis_long trendLabel_Action degradation_Action memForecast_Action
        memForecast_Risk cpuForecast_Action cpuForecast_Risk Let_def)

lemma trendAnalysis_TimeToFailure:
  "length h \<ge> 5 \<Longrightarrow> TimeToFailure (fst (trendAnalysis h c a)) =
     (let t = calculateAdvancedTrend h c in
      if memFires c t then HoursUntil (memHours c t) ''Memory leak''
      else if cpuFires c t then HoursUntil (cpuHours c t) ''CPU overload''
      else TimeToFailure (fst a))"
  by (simp add: trendAnalysis_long trendLabel_TimeToFailure degradation_TimeToFailure
        memForecast_TimeToFailure cpuForecast_TimeToFailure Let_def)

lemma cpuThreshold_score: "snd a \<le> snd (cpuThreshold c a)"
  by (cases a) (simp add: cpuThreshold_def)

lemma memThreshold_score: "snd a \<le> snd (memThreshold c a)"
  by (cases a) (simp add: memThreshold_def)

lemma cpuForecast_score: "snd a \<le> snd (cpuForecast c t a)"
  by (cases a) (simp add: cpuForecast_def Let_def)

lemma memForecast_score: "snd a \<le> snd (memForecast c t a)"
  by (cases a) (simp add: memForecast_def Let_def)

lemma degradation_score: "snd a \<le> snd (degradation h c a)"
  by (cases a) (simp add: degradation_def Let_def)

lemma trendLabel_score: "snd (trendLabel t a) = snd a"
  by (cases a) (simp add: trendLabel_def)

lemma trendAnalysis_score: "snd a \<le> snd (trendAnalysis h c a)"
proof (cases a)
  case (Pair r s)
  show ?thesis
  proof (cases "length h \<ge> 5")
    case True
    let ?t = "calculateAdvancedTrend h c"
    let ?r = "r\<lparr>MemoryLeakRate := MemSlope ?t, CPUGrowthRate := CPUSlope ?t\<rparr>"
    have "s = snd (?r, s)" by simp
    also have "\<dots> \<le> snd (cpuForecast c ?t (?r, s))" by (rule cpuForecast_score)
    also have "\<dots> \<le> snd (memForecast c ?t (cpuForecast c ?t (?r, s)))" by (rule memForecast_score)
    also have "\<dots> \<le> snd (degradation h c (memForecast c ?t (cpuForecast c ?t (?r, s))))"
      by (rule degradation_score)
    finally show ?thesis using True Pair
      by (simp add: trendAnalysis_def Let_def trendLabel_score)
  next
    case False
    then show ?thesis using Pair by (simp add: trendAnalysis_def)
  qed
qed

lemma restartRule_score: "snd a \<le> snd (restartRule c a)"
  by (cases a) (simp add: restartRule_def)

lemma phaseRule_score: "snd a \<le> snd (phaseRule c a)"
  by (cases a) (simp add: phaseRule_def)

lemma phaseRule_not_running:
  "PodMetrics.Status c \<noteq> ''Running'' \<Longrightarrow> snd (phaseRule c a) = snd a + 50 \<and> Action (fst (phaseRule c a)) = ''RESTART_POD''"
  by (cases a) (simp add: phaseRule_def)

lemma beforeFinalize_nonneg: "0 \<le> snd (restartRule c (trendAnalysis h c (memThreshold c (cpuThreshold c (initialResult c, 0)))))"
proof -
  have "0 \<le> snd (cpuThreshold c (initialResult c, 0))"
    using cpuThreshold_score[of "(initialResult c, 0)" c] by simp
  also have "\<dots> \<le> snd (memThreshold c (cpuThreshold c (initialResult c, 0)))" by (rule memThreshold_score)
  also have "\<dots> \<le> snd (trendAnalysis h c (memThreshold c (cpuThreshold c (initialResult c, 0))))" by (rule trendAnalysis_score)
  also have "\<dots> \<le> snd (restartRule c (trendAnalysis h c (memThreshold c (cpuThreshold c (initialResult c, 0)))))" by (rule restartRule_score)
  finally show ?thesis .
qed

lemma timeSpan_hours: "(d::real) / (n * 0.5 / 60.0) = d / (n * 30 / 3600)"
  by simp

lemma calculateSlope_secant:
  assumes "length hist \<ge> 2"
  shows "calculateSlope hist current ''cpu''
           = (CPUPercent current - CPUPercent (hd hist)) / (real (length hist + 1) * 30 / 3600)"
    and "calculateSlope hist current ''memory''
           = (MemPercent current - MemPercent (hd hist)) / (real (length hist + 1) * 30 / 3600)"
proof -
  from assms have ne: "hist \<noteq> []" by auto
  have c: "calculateSlope hist current ''cpu'' =
      (last (map CPUPercent hist @ [CPUPercent current]) - hd (map CPUPercent hist @ [CPUPercent current]))
        / (real (length hist + 1) * 0.5 / 60.0)"
    using assms unfolding calculateSlope_def Let_def by simp
  have m: "calculateSlope hist current ''memory'' =
      (last (map MemPercent hist @ [MemPercent current]) - hd (map MemPercent hist @ [MemPercent current]))
        / (real (length hist + 1) * 0.5 / 60.0)"
    using assms unfolding calculateSlope_def Let_def by simp
  show "calculateSlope hist current ''cpu''
           = (CPUPercent current - CPUPercent (hd hist)) / (real (length hist + 1) * 30 / 3600)"
    unfolding c timeSpan_hours using ne by (simp add: hd_append hd_map)
  show "calculateSlope hist current ''memory''
           = (MemPercent current - MemPercent (hd hist)) / (real (length hist + 1) * 30 / 3600)"
    unfolding m timeSpan_hours using ne by (simp add: hd_append hd_map)
qed

lemma calculateAdvancedTrend_slopes:
  "length hist \<ge> 3 \<Longrightarrow>
     CPUSlope (calculateAdvancedTrend hist current) = calculateSlope hist current ''cpu''
   \<and> MemSlope (calculateAdvancedTrend hist current) = calculateSlope hist current ''memory''"
  by (simp add: calculateAdvancedTrend_def Let_def emptyTrend_def)

lemma T0_fields:
  "TimeToFailure (fst (memThreshold c (cpuThreshold c (initialResult c, 0)))) = NA"
  "Risk (fst (memThreshold c (cpuThreshold c (initialResult c, 0)))) = ''LOW''
     \<longleftrightarrow> \<not> MemPercent c > 10 \<and> \<not> CPUPercent c > 10"
  "Action (fst (memThreshold c (cpuThreshold c (initialResult c, 0)))) =
     (if MemPercent c > 15 then ''RESTART_POD_URGENT''
      else if MemPercent c > 10 then ''RESTART_POD''
      else if CPUPercent c > 15 then ''SCALE_UP_URGENT''
      else if CPUPercent c > 10 then ''SCALE_UP''
      else ''MONITOR'')"
  by (simp_all add: memThreshold_TimeToFailure cpuThreshold_TimeToFailure memThreshold_Risk
        cpuThreshold_Risk memThreshold_Action cpuThreshold_Action initialResult_def)

lemma T0_nonneg: "0 \<le> snd (memThreshold c (cpuThreshold c (initialResult c, 0)))"
proof -
  have "0 \<le> snd (cpuThreshold c (initialResult c, 0))"
    using cpuThreshold_score[of "(initialResult c, 0)" c] by simp
  also have "\<dots> \<le> snd (memThreshold c (cpuThreshold c (initialResult c, 0)))"
    by (rule memThreshold_score)
  finally show ?thesis .
qed

lemma analyze_TimeToFailure:
  "TimeToFailure (analyzePodAdvanced c h) =
     TimeToFailure (fst (trendAnalysis h c (memThreshold c (cpuThreshold c (initialResult c, 0)))))"
proof -
  obtain r s where bf: "beforeFinalize c h = (r, s)" by (cases "beforeFinalize c h")
  have "TimeToFailure (analyzePodAdvanced c h) = TimeToFailure (fst (beforeFinalize c h))"
    by (simp add: analyzePodAdvanced_def bf finalize_TimeToFailure)
  then show ?thesis
    by (simp add: beforeFinalize_def phaseRule_TimeToFailure restartRule_TimeToFailure)
qed

lemma analyze_Action:
  "Action (analyzePodAdvanced c h) =
     (if PodMetrics.Status c \<noteq> ''Running'' then ''RESTART_POD''
      else if Restarts c \<ge> 3 then ''INVESTIGATE_RESTARTS''
      else Action (fst (trendAnalysis h c (memThreshold c (cpuThreshold c (initialResult c, 0))))))"
proof -
  obtain r s where bf: "beforeFinalize c h = (r, s)" by (cases "beforeFinalize c h")
  have "Action (analyzePodAdvanced c h) = Action (fst (beforeFinalize c h))"
    by (simp add: analyzePodAdvanced_def bf finalize_Action)
  then show ?thesis
    by (simp add: beforeFinalize_def phaseRule_Action restartRule_Action)
qed

lemma analyze_Score:
  "Score (analyzePodAdvanced c h) = min (snd (beforeFinalize c h)) 100"
  by (cases "beforeFinalize c h") (simp add: analyzePodAdvanced_def finalize_Score)

lemma analyze_Risk:
  "Risk (analyzePodAdvanced c h) =
     (if Score (analyzePodAdvanced c h) \<ge> 80 then ''CRITICAL''
      else if Score (analyzePodAdvanced c h) \<ge> 60 then ''HIGH''
      else if Score (analyzePodAdvanced c h) \<ge> 40 then ''MEDIUM''
      else if Score (analyzePodAdvanced c h) \<ge> 20 then ''LOW-MEDIUM''
      else ''LOW'')"
  by (cases "beforeFinalize c h") (simp add: analyzePodAdvanced_def finalize_Score finalize_Risk)

lemma trendAnalysis_urgent_score:
  assumes "length h \<ge> 5" and "memFires c (calculateAdvancedTrend h c)"
    and "memHours c (calculateAdvancedTrend h c) < 12"
  shows "snd a + 60 \<le> snd (trendAnalysis h c a)"
proof -
  let ?t = "calculateAdvancedTrend h c"
  let ?a = "((fst a)\<lparr>MemoryLeakRate := MemSlope ?t, CPUGrowthRate := CPUSlope ?t\<rparr>, snd a)"
  have "snd a + 60 = snd ?a + 60" by simp
  also have "\<dots> \<le> snd (cpuForecast c ?t ?a) + 60" using cpuForecast_score[of ?a c ?t] by simp
  also have "\<dots> = snd (memForecast c ?t (cpuForecast c ?t ?a))"
    using assms by (simp add: memForecast_snd)
  also have "\<dots> \<le> snd (degradation h c (memForecast c ?t (cpuForecast c ?t ?a)))"
    by (rule degradation_score)
  finally show ?thesis using assms(1) by (simp add: trendAnalysis_long trendLabel_score)
qed


subsection \<open>Pods that are not running\<close>


text \<open>
  C1, as stated, at a concrete input: a pending pod with no load and no restarts, seen for
  the first time, scores exactly 50, so after finalisation its risk is MEDIUM, below
  CRITICAL.
\<close>

theorem not_running_counterexample:
  "PodMetrics.Status pendingPod \<noteq> ''Running''
   \<and> Risk (analyzePodAdvanced pendingPod [pendingPod]) = ''MEDIUM''
   \<and> riskLevel (Risk (analyzePodAdvanced pendingPod [pendingPod])) < riskLevel ''CRITICAL''
   \<and> map Risk (PredictIssues (rounds [pendingPod]) [pendingPod]) = [''MEDIUM'']"
  by code_simp


text \<open>
  C1, amended: for every observation whose phase is not Running the capped score is at
  least 50, so the final risk is MEDIUM, HIGH or CRITICAL, and it is CRITICAL exactly when
  the score reaches 80; and \<^verbatim>\<open>PredictIssues\<close> emits the prediction.
\<close>

theorem not_running_score_band:
  assumes "PodMetrics.Status current \<noteq> ''Running''"
  shows "Score (analyzePodAdvanced current hist) \<ge> 50
       \<and> Risk (analyzePodAdvanced current hist) \<in> {''MEDIUM'', ''HIGH'', ''CRITICAL''}
       \<and> (Risk (analyzePodAdvanced current hist) = ''CRITICAL''
            \<longleftrightarrow> Score (analyzePodAdvanced current hist) \<ge> 80)
       \<and> PredictIssues p [current] =
            [analyzePodAdvanced current
               (history_of p (Sprintf_key (PodMetrics.Namespace current) (PodMetrics.Name current)))]"
proof -
  have score: "Score (analyzePodAdvanced current h) \<ge> 50" for h
  proof -
    have "snd (beforeFinalize current h) \<ge> 50"
      unfolding beforeFinalize_def
      using phaseRule_not_running[OF assms] beforeFinalize_nonneg[of current h]
      by simp
    then show ?thesis by (simp add: analyze_Score)
  qed
  have "Score (analyzePodAdvanced current
          (history_of p (Sprintf_key (PodMetrics.Namespace current) (PodMetrics.Name current)))) > 30"
    using score[of "history_of p (Sprintf_key (PodMetrics.Namespace current) (PodMetrics.Name current))"]
    by simp
  then have emitted: "PredictIssues p [current] =
            [analyzePodAdvanced current
               (history_of p (Sprintf_key (PodMetrics.Namespace current) (PodMetrics.Name current)))]"
    by (simp add: Let_def)
  show ?thesis
    using score[of hist] emitted analyze_Risk[of current hist] by simp
qed


text \<open>
  The amended C1 at the pending pod.
\<close>

theorem not_running_score_band_witness:
  "PodMetrics.Status pendingPod \<noteq> ''Running''
   \<and> Score (analyzePodAdvanced pendingPod [pendingPod]) \<ge> 50
   \<and> Risk (analyzePodAdvanced pendingPod [pendingPod]) = ''MEDIUM''"
proof -
  have h: "PodMetrics.Status pendingPod \<noteq> ''Running''" by code_simp
  have "Risk (analyzePodAdvanced pendingPod [pendingPod]) = ''MEDIUM''" by code_simp
  with h not_running_score_band[OF h, where hist="[pendingPod]"] show ?thesis by simp
qed


subsection \<open>Urgent memory forecasts\<close>


text \<open>
  C2, as stated, at a concrete input: memory at 5 after four samples at 0 gives a slope of
  100 per hour and 0.95 hours to failure; the score is 35 + 25 = 60 and the final risk is
  HIGH, not CRITICAL.
\<close>

theorem memory_urgent_counterexample:
  "TimeToFailure (analyzePodAdvanced leakPod leakHistory) = HoursUntil (19/20) ''Memory leak''
   \<and> (19/20 :: real) < 12
   \<and> Risk (analyzePodAdvanced leakPod leakHistory) = ''HIGH''
   \<and> Risk (analyzePodAdvanced leakPod leakHistory) \<noteq> ''CRITICAL''
   \<and> map Risk (PredictIssues (rounds leakHistory) [leakPod]) = [''HIGH'']"
  by code_simp


text \<open>
  C2, amended: whenever the result carries a memory-leak time to failure below 12 hours,
  the capped score is at least 60, so the final risk is HIGH or CRITICAL (CRITICAL exactly
  from score 80 on), and the action is RESTART_POD_URGENT unless the restart rule
  (INVESTIGATE_RESTARTS) or the phase rule (RESTART_POD) overwrote it afterwards; and
  \<^verbatim>\<open>PredictIssues\<close> emits the prediction.
\<close>

theorem memory_urgent_forecast:
  assumes "TimeToFailure (analyzePodAdvanced current hist) = HoursUntil hours ''Memory leak''"
    and "hours < 12"
  shows "Score (analyzePodAdvanced current hist) \<ge> 60
       \<and> Risk (analyzePodAdvanced current hist) \<in> {''HIGH'', ''CRITICAL''}
       \<and> (Risk (analyzePodAdvanced current hist) = ''CRITICAL''
            \<longleftrightarrow> Score (analyzePodAdvanced current hist) \<ge> 80)
       \<and> Action (analyzePodAdvanced current hist) =
            (if PodMetrics.Status current \<noteq> ''Running'' then ''RESTART_POD''
             else if Restarts current \<ge> 3 then ''INVESTIGATE_RESTARTS''
             else ''RESTART_POD_URGENT'')
       \<and> (hist = history_of p (Sprintf_key (PodMetrics.Namespace current) (PodMetrics.Name current))
            \<longrightarrow> PredictIssues p [current] = [analyzePodAdvanced current hist])"
proof -
  let ?A = "memThreshold current (cpuThreshold current (initialResult current, 0))"
  let ?t = "calculateAdvancedTrend hist current"
  have ttf: "TimeToFailure (fst (trendAnalysis hist current ?A)) = HoursUntil hours ''Memory leak''"
    using assms(1) by (simp add: analyze_TimeToFailure)
  have long: "length hist \<ge> 5"
  proof (rule ccontr)
    assume "\<not> length hist \<ge> 5"
    then have "trendAnalysis hist current ?A = ?A" by (simp add: trendAnalysis_short)
    with ttf show False by (simp add: T0_fields)
  qed
  have fires: "memFires current ?t \<and> memHours current ?t = hours"
    using ttf long by (simp add: trendAnalysis_TimeToFailure T0_fields Let_def split: if_splits)
  then have urgent: "memHours current ?t < 12" using assms(2) by simp
  have "60 \<le> snd ?A + 60" using T0_nonneg[of current] by simp
  also have "\<dots> \<le> snd (trendAnalysis hist current ?A)"
    using trendAnalysis_urgent_score[OF long _ urgent] fires by simp
  also have "\<dots> \<le> snd (restartRule current (trendAnalysis hist current ?A))"
    by (rule restartRule_score)
  also have "\<dots> \<le> snd (beforeFinalize current hist)"
    unfolding beforeFinalize_def by (rule phaseRule_score)
  finally have score: "Score (analyzePodAdvanced current hist) \<ge> 60"
    by (simp add: analyze_Score)
  have act: "Action (fst (trendAnalysis hist current ?A)) = ''RESTART_POD_URGENT''"
    using long fires urgent by (simp add: trendAnalysis_Action Let_def)
  have emitted: "hist = history_of p (Sprintf_key (PodMetrics.Namespace current) (PodMetrics.Name current))
            \<longrightarrow> PredictIssues p [current] = [analyzePodAdvanced current hist]"
  proof
    assume eq: "hist = history_of p (Sprintf_key (PodMetrics.Namespace current) (PodMetrics.Name current))"
    from score have "Score (analyzePodAdvanced current
        (history_of p (Sprintf_key (PodMetrics.Namespace current) (PodMetrics.Name current)))) > 30"
      unfolding eq by simp
    then show "PredictIssues p [current] = [analyzePodAdvanced current hist]"
      unfolding eq by (simp add: Let_def)
  qed
  show ?thesis
    using score act emitted analyze_Risk[of current hist] analyze_Action[of current hist]
    by simp
qed


text \<open>
  The amended C2 at the leaking pod.
\<close>

theorem memory_urgent_forecast_witness:
  "TimeToFailure (analyzePodAdvanced leakPod leakHistory) = HoursUntil (19/20) ''Memory leak''
   \<and> (19/20 :: real) < 12
   \<and> Risk (analyzePodAdvanced leakPod leakHistory) \<in> {''HIGH'', ''CRITICAL''}
   \<and> Action (analyzePodAdvanced leakPod leakHistory) = ''RESTART_POD_URGENT''"
proof -
  have t: "TimeToFailure (analyzePodAdvanced leakPod leakHistory) = HoursUntil (19/20) ''Memory leak''"
    by code_simp
  have l: "(19/20 :: real) < 12" by simp
  have s: "PodMetrics.Status leakPod = ''Running''" "Restarts leakPod = 0" by code_simp+
  from memory_urgent_forecast[OF t l] t l s show ?thesis by auto
qed


subsection \<open>The slope estimator\<close>


text \<open>
  C6, as stated, at a concrete input: with a history of five samples that starts at 0 and a
  current value of 5 the source computes a slope of 100 per hour, while
  \<open>(latest - oldest) / (5 * 30 / 3600)\<close> is 120.
\<close>

theorem slope_counterexample:
  "length leakHistory \<ge> 5
   \<and> MemSlope (calculateAdvancedTrend leakHistory leakPod) = 100
   \<and> spec_slope (MemPercent (hd leakHistory)) (MemPercent leakPod) (length leakHistory) = 120"
  by code_simp


text \<open>
  C6, amended: for every history of at least 5 samples, each of the CPU and memory slopes
  is \<open>(current - oldest) / elapsed_hours\<close> with
  \<open>elapsed_hours = (history_len + 1) * 30 / 3600\<close>: the window counts the current
  observation together with the history, identically for both resources.
\<close>

theorem slope_is_secant_over_samples:
  assumes "length hist \<ge> 5"
  shows "CPUSlope (calculateAdvancedTrend hist current)
           = (CPUPercent current - CPUPercent (hd hist)) / (real (length hist + 1) * 30 / 3600)
       \<and> MemSlope (calculateAdvancedTrend hist current)
           = (MemPercent current - MemPercent (hd hist)) / (real (length hist + 1) * 30 / 3600)"
proof -
  have 3: "length hist \<ge> 3" and 2: "length hist \<ge> 2" using assms by simp_all
  show ?thesis
    using calculateAdvancedTrend_slopes[OF 3, of current] calculateSlope_secant[OF 2, of current]
    by simp
qed


text \<open>
  The amended C6 at the leaking pod.
\<close>

theorem slope_is_secant_over_samples_witness:
  "length leakHistory \<ge> 5
   \<and> MemSlope (calculateAdvancedTrend leakHistory leakPod) = (5 - 0) / (6 * 30 / 3600)"
proof -
  have h: "length leakHistory \<ge> 5" by code_simp
  have v: "MemPercent leakPod = 5" "MemPercent (hd leakHistory) = 0" "length leakHistory = 5"
    by code_simp+
  from slope_is_secant_over_samples[OF h, of leakPod] h v show ?thesis by simp
qed


subsection \<open>Which rule decides the action tag\<close>


text \<open>
  C7, as stated, at a concrete input: with CPU and memory both above 15 the two rules have
  equal priority and the CPU rule is listed first, so the tag would be SCALE_UP_URGENT; the
  source returns the tag of the memory rule, RESTART_POD_URGENT.
\<close>

theorem action_priority_counterexample:
  "CPUPercent hotPod > 15 \<and> MemPercent hotPod > 15
   \<and> spec_action hotPod [hotPod] = ''SCALE_UP_URGENT''
   \<and> Action (analyzePodAdvanced hotPod [hotPod]) = ''RESTART_POD_URGENT''
   \<and> Action (analyzePodAdvanced hotPod [hotPod]) \<noteq> spec_action hotPod [hotPod]"
  by code_simp


text \<open>
  C7, amended: the action tag is the one of the triggered rule that the source evaluates
  last, every later rule overwriting the earlier ones.  Read from the strongest: phase not
  Running, restart count at least 3, memory forecast, CPU forecast, memory threshold, CPU
  threshold, and the degradation heuristic, which sets its tag only when no threshold and no
  forecast rule has triggered; otherwise MONITOR.
\<close>

theorem action_of_last_triggered_rule:
  "Action (analyzePodAdvanced current hist) =
     (let t = calculateAdvancedTrend hist current; long = (length hist \<ge> 5) in
      if PodMetrics.Status current \<noteq> ''Running'' then ''RESTART_POD''
      else if Restarts current \<ge> 3 then ''INVESTIGATE_RESTARTS''
      else if long \<and> memFires current t then
        (if memHours current t < 12 then ''RESTART_POD_URGENT''
         else if memHours current t < 24 then ''RESTART_POD_PLANNED'' else ''MONITOR_MEMORY_LEAK'')
      else if long \<and> cpuFires current t then
        (if cpuHours current t < 24 then ''SCALE_UP_URGENT'' else ''SCALE_UP_PLANNED'')
      else if MemPercent current > 15 then ''RESTART_POD_URGENT''
      else if MemPercent current > 10 then ''RESTART_POD''
      else if CPUPercent current > 15 then ''SCALE_UP_URGENT''
      else if CPUPercent current > 10 then ''SCALE_UP''
      else if long \<and> detectPerformanceDegradation hist current then ''INVESTIGATE_PERFORMANCE''
      else ''MONITOR'')"
proof (cases "length hist \<ge> 5")
  case True
  then show ?thesis
    by (simp add: analyze_Action trendAnalysis_Action T0_fields Let_def)
next
  case False
  then have "length hist < 5" by simp
  then show ?thesis
    by (simp add: analyze_Action trendAnalysis_short T0_fields Let_def)
qed

section \<open>Properties of the restart analyzer\<close>

lemma frequencyOf_fields:
  "Frequency (frequencyOf r p) =
     (if float_gt r 2 then ''VERY_HIGH'' else if float_gt r 1 then ''HIGH''
      else if float_gt r 0.5 then ''MEDIUM'' else ''LOW'')"
  "RestartPattern.Severity (frequencyOf r p) =
     (if float_gt r 2 then ''CRITICAL'' else if float_gt r 1 then ''HIGH''
      else if float_gt r 0.5 then ''MEDIUM'' else ''LOW'')"
  "RestartPattern.PodName (frequencyOf r p) = RestartPattern.PodName p"
  "RestartPattern.Namespace (frequencyOf r p) = RestartPattern.Namespace p"
  "RestartPattern.RestartCount (frequencyOf r p) = RestartPattern.RestartCount p"
  by (simp_all add: frequencyOf_def)

lemma patternOf_fields:
  "Frequency (patternOf n a r p) = Frequency p"
  "RestartPattern.Severity (patternOf n a r p) = RestartPattern.Severity p"
  "RestartPattern.PodName (patternOf n a r p) = RestartPattern.PodName p"
  "RestartPattern.Namespace (patternOf n a r p) = RestartPattern.Namespace p"
  "RestartPattern.RestartCount (patternOf n a r p) = RestartPattern.RestartCount p"
  by (simp_all add: patternOf_def)

lemma exitReason_fields:
  "Frequency (exitReason cs p) = Frequency p"
  "RestartPattern.PodName (exitReason cs p) = RestartPattern.PodName p"
  "RestartPattern.Namespace (exitReason cs p) = RestartPattern.Namespace p"
  "RestartPattern.RestartCount (exitReason cs p) = RestartPattern.RestartCount p"
  by (simp_all add: exitReason_def Let_def split: option.split)

lemma exitReasons_snoc: "exitReasons (css @ [cs]) p = exitReason cs (exitReasons css p)"
  by (simp add: exitReasons_def)

lemma exitReasons_fields:
  "Frequency (exitReasons css p) = Frequency p
   \<and> RestartPattern.PodName (exitReasons css p) = RestartPattern.PodName p
   \<and> RestartPattern.Namespace (exitReasons css p) = RestartPattern.Namespace p
   \<and> RestartPattern.RestartCount (exitReasons css p) = RestartPattern.RestartCount p"
proof (induction css rule: rev_induct)
  case Nil
  show ?case by (simp add: exitReasons_def)
next
  case (snoc cs css)
  then show ?case by (simp add: exitReasons_snoc exitReason_fields)
qed

lemma lastTermination_snoc:
  "lastTermination (css @ [cs]) =
     (case LastTerminationState_Terminated cs of None \<Rightarrow> lastTermination css | Some t \<Rightarrow> Some t)"
  by (simp add: lastTermination_def split: option.split)

lemma exitReason_oom:
  assumes "LastTerminationState_Terminated cs = Some t"
    and "ContainerStateTerminated.Reason t = ''OOMKilled''"
  shows "RootCause (exitReason cs p) = ''Out of Memory killed''
       \<and> RestartPattern.Severity (exitReason cs p) = ''CRITICAL''
       \<and> RestartPattern.Actions (exitReason cs p) = [''INCREASE_MEMORY_LIMITS'', ''CHECK_MEMORY_LEAK'', ''OPTIMIZE_MEMORY'']"
  using assms by (simp add: exitReason_def Let_def)

lemma exitReason_none:
  "LastTerminationState_Terminated cs = None \<Longrightarrow> exitReason cs p = p"
  by (simp add: exitReason_def)

lemma exitReasons_oom:
  assumes "lastTermination css = Some t"
    and "ContainerStateTerminated.Reason t = ''OOMKilled''"
  shows "RootCause (exitReasons css p) = ''Out of Memory killed''
       \<and> RestartPattern.Severity (exitReasons css p) = ''CRITICAL''
       \<and> RestartPattern.Actions (exitReasons css p) = [''INCREASE_MEMORY_LIMITS'', ''CHECK_MEMORY_LEAK'', ''OPTIMIZE_MEMORY'']"
  using assms(1)
proof (induction css rule: rev_induct)
  case Nil
  then show ?case by (simp add: lastTermination_def)
next
  case (snoc cs css)
  show ?case
  proof (cases "LastTerminationState_Terminated cs")
    case None
    with snoc show ?thesis
      by (simp add: lastTermination_snoc exitReasons_snoc exitReason_none)
  next
    case (Some t')
    with snoc.prems have "t' = t" by (simp add: lastTermination_snoc)
    with Some assms(2) show ?thesis
      unfolding exitReasons_snoc by (intro exitReason_oom) simp_all
  qed
qed

lemma analyzeRestartPattern_restarted:
  assumes "totalRestarts_of (Status_ContainerStatuses pod) \<noteq> 0"
  shows "fst (analyzeRestartPattern e tr pod) =
     exitReasons (Status_ContainerStatuses pod)
       (patternOf (totalRestarts_of (Status_ContainerStatuses pod))
          (fst (time_Since e tr (CreationTimestamp pod)))
          (restartsPerHour_of (totalRestarts_of (Status_ContainerStatuses pod))
             (fst (time_Since e tr (CreationTimestamp pod))))
          (frequencyOf
             (restartsPerHour_of (totalRestarts_of (Status_ContainerStatuses pod))
                (fst (time_Since e tr (CreationTimestamp pod))))
             \<lparr>RestartPattern.PodName = Pod.Name pod,
              RestartPattern.Namespace = Pod.Namespace pod,
              RestartPattern.RestartCount = totalRestarts_of (Status_ContainerStatuses pod),
              Pattern = ''STABLE'', Frequency = ''NONE'', RestartPattern.Severity = ''OK'',
              RootCause = ''No restarts detected'', RestartPattern.Actions = []\<rparr>))"
  using assms by (simp add: analyzeRestartPattern_def Let_def split: prod.split)

lemma analyzeRestartPattern_identity:
  "RestartPattern.PodName (fst (analyzeRestartPattern e tr pod)) = Pod.Name pod
   \<and> RestartPattern.Namespace (fst (analyzeRestartPattern e tr pod)) = Pod.Namespace pod
   \<and> RestartPattern.RestartCount (fst (analyzeRestartPattern e tr pod))
       = totalRestarts_of (Status_ContainerStatuses pod)"
proof (cases "totalRestarts_of (Status_ContainerStatuses pod) = 0")
  case True
  then show ?thesis by (simp add: analyzeRestartPattern_def Let_def)
next
  case False
  show ?thesis
    unfolding analyzeRestartPattern_restarted[OF False]
    by (simp add: exitReasons_fields patternOf_fields frequencyOf_fields)
qed

lemma analyzePods_emits:
  assumes "pod \<in> set pods" and "\<not> isSystemNamespace (Pod.Namespace pod)"
    and "0 < totalRestarts_of (Status_ContainerStatuses pod)"
  shows "\<exists>tr0. fst (analyzeRestartPattern e tr0 pod) \<in> set (fst (analyzePods e tr pods))"
  using assms(1)
proof (induction pods arbitrary: tr)
  case Nil
  then show ?case by simp
next
  case (Cons p pods)
  show ?case
  proof (cases "p = pod")
    case True
    obtain pat tr1 where a: "analyzeRestartPattern e tr pod = (pat, tr1)"
      by (cases "analyzeRestartPattern e tr pod")
    obtain pats tr2 where b: "analyzePods e tr1 pods = (pats, tr2)"
      by (cases "analyzePods e tr1 pods")
    have "RestartPattern.RestartCount pat > 0"
      using analyzeRestartPattern_identity[of e tr pod] a assms(3) by simp
    then have "fst (analyzeRestartPattern e tr pod) \<in> set (fst (analyzePods e tr (p # pods)))"
      using True assms(2) a b by simp
    then show ?thesis by blast
  next
    case False
    with Cons.prems have "pod \<in> set pods" by simp
    from Cons.IH[OF this] have ih: "\<And>t. \<exists>tr0. fst (analyzeRestartPattern e tr0 pod) \<in> set (fst (analyzePods e t pods))" .
    show ?thesis
    proof (cases "isSystemNamespace (Pod.Namespace p)")
      case True
      then show ?thesis using ih[of tr] by simp
    next
      case False
      obtain pat tr1 where a: "analyzeRestartPattern e tr p = (pat, tr1)"
        by (cases "analyzeRestartPattern e tr p")
      obtain pats tr2 where b: "analyzePods e tr1 pods = (pats, tr2)"
        by (cases "analyzePods e tr1 pods")
      from ih[of tr1] b obtain tr0 where "fst (analyzeRestartPattern e tr0 pod) \<in> set pats" by auto
      then have "fst (analyzeRestartPattern e tr0 pod) \<in> set (fst (analyzePods e tr (p # pods)))"
        using False a b by simp
      then show ?thesis by blast
    qed
  qed
qed


subsection \<open>The restart rate\<close>


text \<open>
  C8, as stated, at a concrete input: for a pod with one restart that was created at the
  instant of the analysis the divisor is 0, no lower bound replaces it, and the rate is the
  float infinity; the pod is classified VERY_HIGH.
\<close>

theorem restart_rate_counterexample:
  "0 < totalRestarts_of (Status_ContainerStatuses newbornPod)
   \<and> fst (time_Since quietEnv [] (CreationTimestamp newbornPod)) = 0
   \<and> restartsPerHour_of (totalRestarts_of (Status_ContainerStatuses newbornPod))
        (fst (time_Since quietEnv [] (CreationTimestamp newbornPod))) = PosInf
   \<and> Frequency (fst (analyzeRestartPattern quietEnv [] newbornPod)) = ''VERY_HIGH''"
  by code_simp


text \<open>
  C8, amended: for every pod with a positive restart count the rate is
  \<open>total_restarts / age_hours\<close> with no lower bound on the divisor: a finite quotient for
  every age other than zero, however small, and the float infinity at age zero.  The
  division never fails, and the frequency is the bucket of that rate (an infinite rate is
  VERY_HIGH).
\<close>

theorem restart_rate_unguarded:
  assumes "0 < totalRestarts_of (Status_ContainerStatuses pod)"
  shows "(let total = totalRestarts_of (Status_ContainerStatuses pod);
              podAge = fst (time_Since e tr (CreationTimestamp pod));
              rate = restartsPerHour_of total podAge
          in (podAge \<noteq> 0 \<longrightarrow> rate = Finite (real_of_int total / Hours podAge))
           \<and> (podAge = 0 \<longrightarrow> rate = PosInf)
           \<and> Frequency (fst (analyzeRestartPattern e tr pod)) =
               (if float_gt rate 2 then ''VERY_HIGH'' else if float_gt rate 1 then ''HIGH''
                else if float_gt rate 0.5 then ''MEDIUM'' else ''LOW''))"
proof -
  have ne: "totalRestarts_of (Status_ContainerStatuses pod) \<noteq> 0" using assms by simp
  have h: "Hours a = 0 \<longleftrightarrow> a = 0" for a by (simp add: Hours_def Hour_def)
  show ?thesis
    unfolding Let_def analyzeRestartPattern_restarted[OF ne]
    using assms
    by (simp add: exitReasons_fields patternOf_fields frequencyOf_fields
          restartsPerHour_of_def float_div_def h)
qed


text \<open>
  The amended C8 at the pod of age zero.
\<close>

theorem restart_rate_unguarded_witness:
  "0 < totalRestarts_of (Status_ContainerStatuses newbornPod)
   \<and> restartsPerHour_of (totalRestarts_of (Status_ContainerStatuses newbornPod))
        (fst (time_Since quietEnv [] (CreationTimestamp newbornPod))) = PosInf
   \<and> Frequency (fst (analyzeRestartPattern quietEnv [] newbornPod)) = ''VERY_HIGH''"
proof -
  have h: "0 < totalRestarts_of (Status_ContainerStatuses newbornPod)" by code_simp
  have a: "fst (time_Since quietEnv [] (CreationTimestamp newbornPod)) = 0" by code_simp
  from restart_rate_unguarded[OF h, of quietEnv "[]"] h a show ?thesis
    by (simp add: Let_def)
qed


subsection \<open>Pods killed for lack of memory\<close>


text \<open>
  C9, as stated, at a concrete input: a pod whose only container last exited with code 137
  and a reason other than OOMKilled keeps the severity of its restart frequency (LOW here)
  and gets the tags INCREASE_MEMORY and CHECK_OOM appended, not the three tags of C9.
\<close>

theorem oom_exit_code_counterexample:
  "\<not> isSystemNamespace (Pod.Namespace killedPod)
   \<and> map ExitCode (List.map_filter LastTerminationState_Terminated (Status_ContainerStatuses killedPod)) = [137]
   \<and> RestartPattern.Severity (fst (analyzeRestartPattern quietEnv [] killedPod)) = ''LOW''
   \<and> RestartPattern.Actions (fst (analyzeRestartPattern quietEnv [] killedPod)) = [''INCREASE_MEMORY'', ''CHECK_OOM'']"
  by code_simp


text \<open>
  C9, amended: for every listed pod outside the system namespaces with a positive restart
  count, if the last termination record among its container statuses has the reason
  OOMKilled, then a RestartPattern is emitted for it with root cause "Out of Memory killed",
  severity CRITICAL and exactly the tags INCREASE_MEMORY_LIMITS, CHECK_MEMORY_LEAK,
  OPTIMIZE_MEMORY.  Exit code 137 alone does not have this effect.
\<close>

theorem oom_killed_pattern:
  assumes "Pods_List e tr namespace = Inr items" and "pod \<in> set items"
    and "\<not> isSystemNamespace (Pod.Namespace pod)"
    and "0 < totalRestarts_of (Status_ContainerStatuses pod)"
    and "lastTermination (Status_ContainerStatuses pod) = Some t"
    and "ContainerStateTerminated.Reason t = ''OOMKilled''"
  shows "\<exists>patterns tr'. AnalyzeRestartPatterns e tr namespace = (Inr patterns, tr')
          \<and> (\<exists>pattern \<in> set patterns.
                RestartPattern.PodName pattern = Pod.Name pod
              \<and> RestartPattern.Namespace pattern = Pod.Namespace pod
              \<and> RootCause pattern = ''Out of Memory killed''
              \<and> RestartPattern.Severity pattern = ''CRITICAL''
              \<and> RestartPattern.Actions pattern = [''INCREASE_MEMORY_LIMITS'', ''CHECK_MEMORY_LEAK'', ''OPTIMIZE_MEMORY''])"
proof -
  let ?tr = "tr @ [Call (PodsList namespace)]"
  obtain patterns tr' where ap: "analyzePods e ?tr items = (patterns, tr')"
    by (cases "analyzePods e ?tr items")
  have run: "AnalyzeRestartPatterns e tr namespace = (Inr patterns, tr')"
    using assms(1) ap by (simp add: AnalyzeRestartPatterns_def)
  from analyzePods_emits[OF assms(2,3,4), of e ?tr] ap
  obtain tr0 where mem: "fst (analyzeRestartPattern e tr0 pod) \<in> set patterns" by auto
  have ne: "totalRestarts_of (Status_ContainerStatuses pod) \<noteq> 0" using assms(4) by simp
  have "RootCause (fst (analyzeRestartPattern e tr0 pod)) = ''Out of Memory killed''
      \<and> RestartPattern.Severity (fst (analyzeRestartPattern e tr0 pod)) = ''CRITICAL''
      \<and> RestartPattern.Actions (fst (analyzeRestartPattern e tr0 pod))
          = [''INCREASE_MEMORY_LIMITS'', ''CHECK_MEMORY_LEAK'', ''OPTIMIZE_MEMORY'']"
    unfolding analyzeRestartPattern_restarted[OF ne] by (rule exitReasons_oom[OF assms(5,6)])
  with mem analyzeRestartPattern_identity[of e tr0 pod] run show ?thesis by blast
qed


text \<open>
  The amended C9 at a cluster that lists one pod killed for lack of memory.
\<close>

theorem oom_killed_pattern_witness:
  "Pods_List oomEnv [] [] = Inr [oomPod]
   \<and> \<not> isSystemNamespace (Pod.Namespace oomPod)
   \<and> 0 < totalRestarts_of (Status_ContainerStatuses oomPod)
   \<and> (\<exists>patterns tr'. AnalyzeRestartPatterns oomEnv [] [] = (Inr patterns, tr')
          \<and> (\<exists>pattern \<in> set patterns.
                RestartPattern.PodName pattern = ''web''
              \<and> RestartPattern.Severity pattern = ''CRITICAL''
              \<and> RestartPattern.Actions pattern
                  = [''INCREASE_MEMORY_LIMITS'', ''CHECK_MEMORY_LEAK'', ''OPTIMIZE_MEMORY'']))"
proof -
  have l: "Pods_List oomEnv [] [] = Inr [oomPod]" by (simp add: oomEnv_def)
  have m: "oomPod \<in> set [oomPod]" by simp
  have s: "\<not> isSystemNamespace (Pod.Namespace oomPod)" by code_simp
  have r: "0 < totalRestarts_of (Status_ContainerStatuses oomPod)" by code_simp
  have t: "lastTermination (Status_ContainerStatuses oomPod)
             = Some \<lparr>ExitCode = 137, ContainerStateTerminated.Reason = ''OOMKilled''\<rparr>"
    by code_simp
  have o: "ContainerStateTerminated.Reason
             \<lparr>ExitCode = 137, ContainerStateTerminated.Reason = ''OOMKilled''\<rparr> = ''OOMKilled''"
    by simp
  have n: "Pod.Name oomPod = ''web''" by code_simp
  from oom_killed_pattern[OF l m s r t o] l s r n show ?thesis by auto
qed

section \<open>Properties of the action engine\<close>


subsection \<open>Only the loop of \<^verbatim>\<open>ExecuteActions\<close> dispatches\<close>

lemma dispatched_append: "dispatched (tr @ tr') key = dispatched tr key + dispatched tr' key"
  by (simp add: dispatched_def)

lemma dispatched_simps:
  "dispatched [] key = 0"
  "dispatched (Print l # tr) key = dispatched tr key"
  "dispatched (Call c # tr) key = dispatched tr key"
  "dispatched (Dispatch k tag # tr) key = (if k = key then 1 else 0) + dispatched tr key"
  by (simp_all add: dispatched_def isDispatch_def)

lemma dispatched_prints: "dispatched (map (\<lambda>x. Print (f x)) xs) key = 0"
  by (induction xs) (simp_all add: dispatched_simps)

lemma logAction_dispatched: "dispatched (logAction e tr action pred) key = dispatched tr key"
  by (simp add: logAction_def time_Now_def dispatched_append dispatched_simps)

lemma scaleLoop_dispatched:
  "dispatched (case scaleLoop e tr pred deps of Inl t \<Rightarrow> t | Inr t \<Rightarrow> t) key = dispatched tr key"
  by (induction deps)
     (simp_all add: Let_def logAction_dispatched dispatched_append dispatched_simps
        split: option.split)

lemma scaleUpDeployment_dispatched:
  "dispatched (case scaleUpDeployment e a tr pred of Inl t \<Rightarrow> t | Inr t \<Rightarrow> t) key = dispatched tr key"
proof (cases "ActionEngine.dryRun a")
  case True
  then show ?thesis by (simp add: scaleUpDeployment_def dispatched_append dispatched_simps)
next
  case False
  show ?thesis
  proof (cases "Deployments_List e tr (PodNamespace pred)")
    case (Inl err)
    with False show ?thesis
      by (simp add: scaleUpDeployment_def dispatched_append dispatched_simps)
  next
    case (Inr items)
    with False show ?thesis
      using scaleLoop_dispatched[of e "tr @ [Call (DeploymentsList (PodNamespace pred))]" pred items key]
      by (simp add: scaleUpDeployment_def dispatched_append dispatched_simps)
  qed
qed

lemma restartPod_dispatched: "dispatched (restartPod e a tr pred) key = dispatched tr key"
  by (simp add: restartPod_def Let_def logAction_dispatched dispatched_append dispatched_simps
        split: option.split)

lemma investigatePod_dispatched: "dispatched (investigatePod e a tr pred) key = dispatched tr key"
  by (simp add: investigatePod_def Let_def logAction_dispatched dispatched_append
        dispatched_simps dispatched_prints split: sum.split)

lemma monitorPod_dispatched: "dispatched (monitorPod e a tr pred) key = dispatched tr key"
  by (simp add: monitorPod_def logAction_dispatched dispatched_append dispatched_simps)

lemma dispatch_dispatched:
  "dispatched (case dispatch e a tr pred of Inl t \<Rightarrow> t | Inr t \<Rightarrow> t) key = dispatched tr key"
  by (simp add: dispatch_def scaleUpDeployment_dispatched restartPod_dispatched
        investigatePod_dispatched monitorPod_dispatched dispatched_append dispatched_simps)


subsection \<open>The cap on the actions per key\<close>

lemma count_of_update:
  "count_of (a\<lparr>actionCounts := (actionCounts a)(key \<mapsto> n)\<rparr>) k = (if k = key then n else count_of a k)"
  by (simp add: count_of_def)

lemma executeLoop_capped:
  "counted a tr \<Longrightarrow> capped (executeLoop e a tr predictions)"
proof (induction predictions arbitrary: a tr)
  case Nil
  then show ?case by (simp add: capped_def)
next
  case (Cons pred predictions)
  let ?key = "Sprintf_key (PodNamespace pred) (PredictionResult.PodName pred)"
  from Cons.prems have c: "int (dispatched tr k) = count_of a k" and le: "count_of a k \<le> 3" for k
    by (simp_all add: counted_def)
  show ?case
  proof (cases "count_of a ?key \<ge> 3")
    case True
    have "counted a (tr @ [Print (SkipMaxActions ?key)])"
      using Cons.prems by (simp add: counted_def dispatched_append dispatched_simps)
    from Cons.IH[OF this] True show ?thesis by (simp add: Let_def)
  next
    case False
    let ?tr1 = "tr @ [Dispatch ?key (Action pred)]"
    have d1: "dispatched ?tr1 k = dispatched tr k + (if k = ?key then 1 else 0)" for k
      by (auto simp add: dispatched_append dispatched_simps)
    show ?thesis
    proof (cases "dispatch e a ?tr1 pred")
      case (Inl panic)
      have "dispatched panic k = dispatched ?tr1 k" for k
        using dispatch_dispatched[of e a ?tr1 pred k] Inl by simp
      then have "dispatched panic k \<le> 3" for k
        using d1[of k] c[of k] le[of k] False by (cases "k = ?key") auto
      then show ?thesis using False Inl by (simp add: capped_def Let_def)
    next
      case (Inr tr')
      let ?a = "a\<lparr>actionCounts := (actionCounts a)(?key \<mapsto> count_of a ?key + 1)\<rparr>"
      have "dispatched tr' k = dispatched ?tr1 k" for k
        using dispatch_dispatched[of e a ?tr1 pred k] Inr by simp
      then have "int (dispatched tr' k) = count_of ?a k \<and> count_of ?a k \<le> 3" for k
        using d1[of k] c[of k] le[of k] False by (cases "k = ?key") (auto simp add: count_of_update)
      then have "counted ?a tr'" unfolding counted_def by blast
      from Cons.IH[OF this] False Inr show ?thesis by (simp add: Let_def)
    qed
  qed
qed

lemma ExecuteActions_capped:
  assumes "counted a tr"
  shows "capped (ExecuteActions e a tr predictions)"
proof (cases "predictions = []")
  case True
  then show ?thesis using assms by (simp add: ExecuteActions_def capped_def)
next
  case False
  have "counted a (tr @ [Print ExecutingBanner])"
    using assms by (simp add: counted_def dispatched_append dispatched_simps)
  from executeLoop_capped[OF this, of e predictions] False show ?thesis
    by (auto simp add: ExecuteActions_def capped_def counted_def dispatched_append
          dispatched_simps split: sum.split)
qed

lemma lifetime_capped:
  "counted a tr \<Longrightarrow> capped (lifetime e a tr batches)"
proof (induction batches arbitrary: a tr)
  case Nil
  then show ?case by (simp add: capped_def)
next
  case (Cons predictions batches)
  show ?case
  proof (cases "ExecuteActions e a tr predictions")
    case (Inl panic)
    with ExecuteActions_capped[OF Cons.prems, of e predictions] show ?thesis
      by (simp add: capped_def)
  next
    case (Inr r)
    obtain a' tr' where r: "r = (a', tr')" by (cases r)
    with ExecuteActions_capped[OF Cons.prems, of e predictions] Inr
    have "counted a' tr'" by (simp add: capped_def)
    from Cons.IH[OF this] Inr r show ?thesis by simp
  qed
qed

lemma counted_New: "counted (New_ActionEngine dry) []"
  by (simp add: counted_def New_ActionEngine_def count_of_def dispatched_simps)

lemma executeLoop_skip:
  assumes "count_of a (Sprintf_key (PodNamespace pred) (PredictionResult.PodName pred)) \<ge> 3"
  shows "executeLoop e a tr [pred] =
           Inr (a, tr @ [Print (SkipMaxActions
                  (Sprintf_key (PodNamespace pred) (PredictionResult.PodName pred)))])"
  using assms by (simp add: Let_def)

lemma executeLoop_count:
  assumes "count_of a (Sprintf_key (PodNamespace pred) (PredictionResult.PodName pred)) < 3"
  shows "case executeLoop e a tr [pred] of
           Inl panic \<Rightarrow>
             dispatched panic (Sprintf_key (PodNamespace pred) (PredictionResult.PodName pred))
               = dispatched tr (Sprintf_key (PodNamespace pred) (PredictionResult.PodName pred)) + 1
         | Inr (a', tr') \<Rightarrow>
             dispatched tr' (Sprintf_key (PodNamespace pred) (PredictionResult.PodName pred))
               = dispatched tr (Sprintf_key (PodNamespace pred) (PredictionResult.PodName pred)) + 1
           \<and> actionCounts a' = (actionCounts a)
                (Sprintf_key (PodNamespace pred) (PredictionResult.PodName pred) \<mapsto>
                 count_of a (Sprintf_key (PodNamespace pred) (PredictionResult.PodName pred)) + 1)"
proof -
  let ?key = "Sprintf_key (PodNamespace pred) (PredictionResult.PodName pred)"
  let ?tr1 = "tr @ [Dispatch ?key (Action pred)]"
  have d: "dispatched (case dispatch e a ?tr1 pred of Inl t \<Rightarrow> t | Inr t \<Rightarrow> t) ?key
             = dispatched tr ?key + 1"
    by (simp add: dispatch_dispatched dispatched_append dispatched_simps)
  show ?thesis
  proof (cases "dispatch e a ?tr1 pred")
    case (Inl panic)
    with d assms show ?thesis by (simp add: Let_def)
  next
    case (Inr tr')
    with d assms show ?thesis by (simp add: Let_def)
  qed
qed


text \<open>
  C3: whatever the cluster answers and whatever the predictions are, over all the calls of
  \<^verbatim>\<open>ExecuteActions\<close> that a process makes on a new engine no key is dispatched more than 3
  times, also when the run ends in a panic, and on return every counter equals the number of
  dispatches of its key.  One step of the loop skips a prediction whose counter is at least
  3, leaving the engine unchanged and dispatching nothing; otherwise it dispatches once and,
  unless the dispatch panics, sets the counter of that key, and no other, to one more,
  whichever branch of the switch ran and however it ended.
\<close>

theorem action_cap:
  "(\<forall>key. dispatched (trace_of (lifetime e (New_ActionEngine dry) [] batches)) key \<le> 3)
   \<and> (\<forall>a' tr'. lifetime e (New_ActionEngine dry) [] batches = Inr (a', tr')
         \<longrightarrow> (\<forall>key. count_of a' key = int (dispatched tr' key)))
   \<and> (count_of a (Sprintf_key (PodNamespace pred) (PredictionResult.PodName pred)) \<ge> 3
         \<longrightarrow> executeLoop e a tr [pred] =
               Inr (a, tr @ [Print (SkipMaxActions
                      (Sprintf_key (PodNamespace pred) (PredictionResult.PodName pred)))]))
   \<and> (count_of a (Sprintf_key (PodNamespace pred) (PredictionResult.PodName pred)) < 3
         \<longrightarrow> (case executeLoop e a tr [pred] of
                Inl panic \<Rightarrow>
                  dispatched panic (Sprintf_key (PodNamespace pred) (PredictionResult.PodName pred))
                    = dispatched tr (Sprintf_key (PodNamespace pred) (PredictionResult.PodName pred)) + 1
              | Inr (a', tr') \<Rightarrow>
                  dispatched tr' (Sprintf_key (PodNamespace pred) (PredictionResult.PodName pred))
                    = dispatched tr (Sprintf_key (PodNamespace pred) (PredictionResult.PodName pred)) + 1
                \<and> actionCounts a' = (actionCounts a)
                     (Sprintf_key (PodNamespace pred) (PredictionResult.PodName pred) \<mapsto>
                      count_of a (Sprintf_key (PodNamespace pred) (PredictionResult.PodName pred)) + 1)))"
proof -
  have c: "capped (lifetime e (New_ActionEngine dry) [] batches)"
    by (rule lifetime_capped[OF counted_New])
  have 1: "\<forall>key. dispatched (trace_of (lifetime e (New_ActionEngine dry) [] batches)) key \<le> 3"
  proof (cases "lifetime e (New_ActionEngine dry) [] batches")
    case (Inl panic)
    with c show ?thesis by (simp add: capped_def trace_of_def)
  next
    case (Inr r)
    obtain a' tr' where "r = (a', tr')" by (cases r)
    with c Inr have "counted a' tr'" by (simp add: capped_def)
    then have "int (dispatched tr' key) \<le> 3" for key by (simp add: counted_def)
    then show ?thesis using Inr \<open>r = (a', tr')\<close> by (simp add: trace_of_def)
  qed
  have 2: "\<forall>a' tr'. lifetime e (New_ActionEngine dry) [] batches = Inr (a', tr')
         \<longrightarrow> (\<forall>key. count_of a' key = int (dispatched tr' key))"
    using c by (auto simp add: capped_def counted_def)
  from 1 2 executeLoop_skip[where a=a and pred=pred and e=e and tr=tr]
    executeLoop_count[where a=a and pred=pred and e=e and tr=tr]
  show ?thesis by blast
qed


text \<open>
  C3 at a concrete run: four rounds of a restart prediction against a cluster that refuses
  the delete give three dispatches and one skip.
\<close>

theorem action_cap_witness:
  "dispatched (trace_of (lifetime failingEnv (New_ActionEngine False) []
      [[restartWeb], [restartWeb], [restartWeb], [restartWeb]])) ''default/web'' = 3
   \<and> count_of exhausted ''default/web'' \<ge> 3
   \<and> executeLoop failingEnv exhausted [] [restartWeb]
        = Inr (exhausted, [Print (SkipMaxActions ''default/web'')])
   \<and> count_of (New_ActionEngine False) ''default/web'' < 3
   \<and> (case executeLoop failingEnv (New_ActionEngine False) [] [restartWeb] of
         Inl panic \<Rightarrow> False
       | Inr (a', tr') \<Rightarrow> count_of a' ''default/web'' = 1 \<and> dispatched tr' ''default/web'' = 1)"
proof -
  have k: "Sprintf_key (PodNamespace restartWeb) (PredictionResult.PodName restartWeb) = ''default/web''"
    by code_simp
  have d: "dispatched (trace_of (lifetime failingEnv (New_ActionEngine False) []
      [[restartWeb], [restartWeb], [restartWeb], [restartWeb]])) ''default/web'' = 3"
    by code_simp
  have c3: "count_of exhausted ''default/web'' \<ge> 3" by code_simp
  have c0: "count_of (New_ActionEngine False) ''default/web'' < 3" by code_simp
  have c00: "count_of (New_ActionEngine False) ''default/web'' = 0" by code_simp
  have r: "\<exists>a' tr'. executeLoop failingEnv (New_ActionEngine False) [] [restartWeb] = Inr (a', tr')"
    by (simp add: Let_def k c00 dispatch_def restartWeb_def prediction_def)
  have d0: "dispatched [] ''default/web'' = 0" by code_simp
  from action_cap[where e=failingEnv and dry=False
      and batches="[[restartWeb], [restartWeb], [restartWeb], [restartWeb]]"
      and a=exhausted and pred=restartWeb and tr="[]"] c3 k
  have s: "executeLoop failingEnv exhausted [] [restartWeb]
        = Inr (exhausted, [Print (SkipMaxActions ''default/web'')])" by simp
  from action_cap[where e=failingEnv and dry=False and batches="[]"
      and a="New_ActionEngine False" and pred=restartWeb and tr="[]"] c0 c00 k r d0
  have i: "(case executeLoop failingEnv (New_ActionEngine False) [] [restartWeb] of
         Inl panic \<Rightarrow> False
       | Inr (a', tr') \<Rightarrow> count_of a' ''default/web'' = 1 \<and> dispatched tr' ''default/web'' = 1)"
    by (auto simp add: count_of_def)
  from d c3 s c0 i show ?thesis by blast
qed

section \<open>Dry runs and failed mutations\<close>


subsection \<open>The action engine in a dry run\<close>

lemma quiet_simps:
  "quiet []"
  "quiet (Print l # evs) = quiet evs"
  "quiet (Dispatch k t # evs) = quiet evs"
  "quiet (Call TimeNow # evs) = quiet evs"
  "quiet (Call (EventsList ns name) # evs) = quiet evs"
  "quiet (Call (PodsList ns) # evs) = quiet evs"
  "quiet (Call (DeploymentsList ns) # evs) = quiet evs"
  "quiet (xs @ ys) = (quiet xs \<and> quiet ys)"
  by (simp_all add: quiet_def)

lemma quiet_prints: "quiet (map (\<lambda>x. Print (f x)) xs)"
  by (induction xs) (simp_all add: quiet_simps)

lemma logAction_events:
  "logAction e tr action pred =
     tr @ [Call TimeNow, Print (AIAction (Time_Now e tr) action (PodNamespace pred)
                                 (PredictionResult.PodName pred) (Risk pred))]"
  by (simp add: logAction_def time_Now_def)

lemma investigatePod_quiet: "\<exists>evs. investigatePod e a tr pred = tr @ evs \<and> quiet evs"
proof (cases "Events_List e (tr @ [Print (Investigating (PodNamespace pred) (PredictionResult.PodName pred))])
                (PodNamespace pred) (PredictionResult.PodName pred)")
  case (Inl err)
  then show ?thesis
    by (simp add: investigatePod_def Let_def logAction_events quiet_simps)
next
  case (Inr items)
  then show ?thesis
    by (simp add: investigatePod_def Let_def logAction_events quiet_simps quiet_prints)
qed

lemma dispatch_dry_run:
  assumes "ActionEngine.dryRun a"
  shows "\<exists>evs. dispatch e a tr pred = Inr (tr @ evs) \<and> quiet evs"
proof -
  have s: "\<exists>evs. scaleUpDeployment e a tr pred = Inr (tr @ evs) \<and> quiet evs"
    using assms by (simp add: scaleUpDeployment_def quiet_simps)
  have r: "\<exists>evs. restartPod e a tr pred = tr @ evs \<and> quiet evs"
    using assms by (simp add: restartPod_def quiet_simps)
  have m: "\<exists>evs. monitorPod e a tr pred = tr @ evs \<and> quiet evs"
    by (simp add: monitorPod_def logAction_events quiet_simps)
  from s r m investigatePod_quiet[of e a tr pred] show ?thesis
    by (auto simp add: dispatch_def quiet_simps)
qed

lemma dispatch_dry_run_line:
  assumes "ActionEngine.dryRun a"
  shows "Action pred \<in> {''SCALE_UP_URGENT'', ''SCALE_UP''} \<longrightarrow>
           dispatch e a tr pred
             = Inr (tr @ [Print (DryRunScaleUp (PodNamespace pred) (PredictionResult.PodName pred))])"
    and "Action pred \<in> {''RESTART_POD_URGENT'', ''RESTART_POD''} \<longrightarrow>
           dispatch e a tr pred
             = Inr (tr @ [Print (DryRunRestart (PodNamespace pred) (PredictionResult.PodName pred))])"
  using assms by (auto simp add: dispatch_def scaleUpDeployment_def restartPod_def)

lemma executeLoop_dry_run:
  "ActionEngine.dryRun a \<Longrightarrow>
     \<exists>a' evs. executeLoop e a tr predictions = Inr (a', tr @ evs) \<and> quiet evs
              \<and> ActionEngine.dryRun a'"
proof (induction predictions arbitrary: a tr)
  case Nil
  then show ?case by (simp add: quiet_simps)
next
  case (Cons pred predictions)
  let ?key = "Sprintf_key (PodNamespace pred) (PredictionResult.PodName pred)"
  show ?case
  proof (cases "count_of a ?key \<ge> 3")
    case True
    from Cons.IH[OF Cons.prems, of "tr @ [Print (SkipMaxActions ?key)]"]
    obtain a' evs where "executeLoop e a (tr @ [Print (SkipMaxActions ?key)]) predictions
        = Inr (a', tr @ [Print (SkipMaxActions ?key)] @ evs)" "quiet evs" "ActionEngine.dryRun a'"
      by auto
    then have "executeLoop e a tr (pred # predictions) = Inr (a', tr @ (Print (SkipMaxActions ?key) # evs))
        \<and> quiet (Print (SkipMaxActions ?key) # evs) \<and> ActionEngine.dryRun a'"
      using True by (simp add: Let_def quiet_simps)
    then show ?thesis by blast
  next
    case False
    let ?a = "a\<lparr>actionCounts := (actionCounts a)(?key \<mapsto> count_of a ?key + 1)\<rparr>"
    from dispatch_dry_run[OF Cons.prems, of e "tr @ [Dispatch ?key (Action pred)]" pred]
    obtain evs1 where d: "dispatch e a (tr @ [Dispatch ?key (Action pred)]) pred
        = Inr (tr @ [Dispatch ?key (Action pred)] @ evs1)" "quiet evs1" by auto
    have "ActionEngine.dryRun ?a" using Cons.prems by simp
    from Cons.IH[OF this, of "tr @ [Dispatch ?key (Action pred)] @ evs1"]
    obtain a' evs2 where l: "executeLoop e ?a (tr @ [Dispatch ?key (Action pred)] @ evs1) predictions
        = Inr (a', (tr @ [Dispatch ?key (Action pred)] @ evs1) @ evs2)" "quiet evs2"
        "ActionEngine.dryRun a'" by auto
    have "executeLoop e a tr (pred # predictions)
            = Inr (a', tr @ (Dispatch ?key (Action pred) # evs1 @ evs2))
        \<and> quiet (Dispatch ?key (Action pred) # evs1 @ evs2) \<and> ActionEngine.dryRun a'"
      using False d l by (simp add: Let_def quiet_simps)
    then show ?thesis by blast
  qed
qed

lemma ExecuteActions_dry_run:
  assumes "ActionEngine.dryRun a"
  shows "\<exists>a' evs. ExecuteActions e a tr predictions = Inr (a', tr @ evs) \<and> quiet evs"
proof (cases "predictions = []")
  case True
  then show ?thesis by (simp add: ExecuteActions_def quiet_simps)
next
  case False
  from executeLoop_dry_run[OF assms, of e "tr @ [Print ExecutingBanner]" predictions]
  obtain a' evs where "executeLoop e a (tr @ [Print ExecutingBanner]) predictions
      = Inr (a', (tr @ [Print ExecutingBanner]) @ evs)" "quiet evs" by auto
  then have "ExecuteActions e a tr predictions
      = Inr (a', tr @ (Print ExecutingBanner # evs @ [Print ClosingRule]))
      \<and> quiet (Print ExecutingBanner # evs @ [Print ClosingRule])"
    using False by (simp add: ExecuteActions_def quiet_simps)
  then show ?thesis by blast
qed


subsection \<open>The auto healer in a dry run\<close>

lemma newAction_eq:
  "newAction e tr ty descr cr =
     (\<lparr>ActionType = ty,
       HealingAction.PodName = ContainerCheckResult.PodName cr,
       HealingAction.Namespace = ContainerCheckResult.Namespace cr,
       HealingAction.ContainerName = ContainerCheckResult.ContainerName cr,
       Description = descr, HealingAction.Status = ''EXECUTING'',
       HealingAction.Timestamp = Time_Now e tr, Result = []\<rparr>, tr @ [Call TimeNow])"
  by (simp add: newAction_def time_Now_def)

lemma healCheck_dry_run:
  assumes "AutoHealer.dryRun h"
  shows "\<exists>actions. healCheck lib e h tr cr check
            = (actions, tr @ replicate (length actions) (Call TimeNow))
          \<and> map target actions = fixesOfCheck cr check
          \<and> list_all dryRecord actions"
  using assms
  by (simp add: healCheck_def fixOf_def fixesOfCheck_def cleanupTmpDirectory_def cleanupDiskSpace_def
        fixNetworkConnectivity_def fixDNSResolution_def newAction_eq target_def dryRecord_def
        intendedChange_def)

lemma map_filter_Cons:
  "List.map_filter f (x # xs) = (case f x of None \<Rightarrow> [] | Some y \<Rightarrow> [y]) @ List.map_filter f xs"
  by (simp add: List.map_filter_simps split: option.split)

lemma healChecks_dry_run:
  assumes "AutoHealer.dryRun h"
  shows "\<exists>actions. healChecks lib e h tr cr checks
            = (actions, tr @ replicate (length actions) (Call TimeNow))
          \<and> map target actions = concat (map (fixesOfCheck cr) checks)
          \<and> list_all dryRecord actions"
proof (induction checks arbitrary: tr)
  case Nil
  show ?case by simp
next
  case (Cons check checks)
  from healCheck_dry_run[OF assms, of lib e tr cr check]
  obtain as1 where 1: "healCheck lib e h tr cr check = (as1, tr @ replicate (length as1) (Call TimeNow))"
    "map target as1 = fixesOfCheck cr check" "list_all dryRecord as1" by auto
  from Cons.IH[of "tr @ replicate (length as1) (Call TimeNow)"]
  obtain as2 where 2: "healChecks lib e h (tr @ replicate (length as1) (Call TimeNow)) cr checks
      = (as2, (tr @ replicate (length as1) (Call TimeNow)) @ replicate (length as2) (Call TimeNow))"
    "map target as2 = concat (map (fixesOfCheck cr) checks)" "list_all dryRecord as2" by auto
  have "healChecks lib e h tr cr (check # checks)
          = (as1 @ as2, tr @ replicate (length (as1 @ as2)) (Call TimeNow))
      \<and> map target (as1 @ as2) = concat (map (fixesOfCheck cr) (check # checks))
      \<and> list_all dryRecord (as1 @ as2)"
    using 1 2 by (simp add: replicate_add)
  then show ?case by blast
qed

lemma fixes_of_Cons:
  "fixes_of (cr # crs) =
     (if NeedsAction cr then concat (map (fixesOfCheck cr) (Checks cr)) else []) @ fixes_of crs"
proof -
  have "map (\<lambda>ty. (ty, ContainerCheckResult.Namespace cr, ContainerCheckResult.PodName cr,
                    ContainerCheckResult.ContainerName cr)) (List.map_filter fixOf checks)
          = concat (map (fixesOfCheck cr) checks)" for checks
    by (induction checks) (simp_all add: List.map_filter_simps fixesOfCheck_def split: option.split)
  then show ?thesis by (simp add: fixes_of_def)
qed

lemma healResults_dry_run:
  assumes "AutoHealer.dryRun h"
  shows "\<exists>actions. healResults lib e h tr containerChecks
            = (actions, tr @ replicate (length actions) (Call TimeNow))
          \<and> map target actions = fixes_of containerChecks
          \<and> list_all dryRecord actions"
proof (induction containerChecks arbitrary: tr)
  case Nil
  show ?case by (simp add: fixes_of_def)
next
  case (Cons cr crs)
  show ?case
  proof (cases "NeedsAction cr")
    case False
    with Cons.IH[of tr] show ?thesis by (simp add: fixes_of_Cons)
  next
    case True
    from healChecks_dry_run[OF assms, of lib e tr cr "Checks cr"]
    obtain as1 where 1: "healChecks lib e h tr cr (Checks cr)
        = (as1, tr @ replicate (length as1) (Call TimeNow))"
      "map target as1 = concat (map (fixesOfCheck cr) (Checks cr))" "list_all dryRecord as1" by auto
    from Cons.IH[of "tr @ replicate (length as1) (Call TimeNow)"]
    obtain as2 where 2: "healResults lib e h (tr @ replicate (length as1) (Call TimeNow)) crs
        = (as2, (tr @ replicate (length as1) (Call TimeNow)) @ replicate (length as2) (Call TimeNow))"
      "map target as2 = fixes_of crs" "list_all dryRecord as2" by auto
    have "healResults lib e h tr (cr # crs)
            = (as1 @ as2, tr @ replicate (length (as1 @ as2)) (Call TimeNow))
        \<and> map target (as1 @ as2) = fixes_of (cr # crs)
        \<and> list_all dryRecord (as1 @ as2)"
      using True 1 2 by (simp add: replicate_add fixes_of_Cons)
    then show ?thesis by blast
  qed
qed

lemma HealContainerIssues_dry_run:
  assumes "AutoHealer.dryRun h"
  shows "\<exists>actions. HealContainerIssues lib e h tr containerChecks
            = (actions, h\<lparr>AutoHealer.history := lastHundred (AutoHealer.history h @ actions)\<rparr>,
               tr @ replicate (length actions) (Call TimeNow))
          \<and> map target actions = fixes_of containerChecks
          \<and> list_all dryRecord actions"
proof -
  from healResults_dry_run[OF assms, of lib e tr containerChecks]
  obtain actions where "healResults lib e h tr containerChecks
      = (actions, tr @ replicate (length actions) (Call TimeNow))"
    "map target actions = fixes_of containerChecks" "list_all dryRecord actions" by auto
  then have "HealContainerIssues lib e h tr containerChecks
            = (actions, h\<lparr>AutoHealer.history := lastHundred (AutoHealer.history h @ actions)\<rparr>,
               tr @ replicate (length actions) (Call TimeNow))
          \<and> map target actions = fixes_of containerChecks
          \<and> list_all dryRecord actions"
    by (simp add: HealContainerIssues_def Let_def lastHundred_def)
  then show ?thesis by blast
qed

lemma quiet_clock: "quiet (replicate n (Call TimeNow))"
  by (induction n) (simp_all add: quiet_simps)


subsection \<open>Deletes and updates that fail\<close>

lemma executeLoop_single:
  assumes "count_of a (Sprintf_key (PodNamespace pred) (PredictionResult.PodName pred)) < 3"
    and "dispatch e a
           (tr @ [Dispatch (Sprintf_key (PodNamespace pred) (PredictionResult.PodName pred))
                    (Action pred)]) pred = Inr tr'"
  shows "executeLoop e a tr [pred] =
     Inr (a\<lparr>actionCounts := (actionCounts a)
              (Sprintf_key (PodNamespace pred) (PredictionResult.PodName pred) \<mapsto>
               count_of a (Sprintf_key (PodNamespace pred) (PredictionResult.PodName pred)) + 1)\<rparr>,
          tr')"
  using assms by (simp add: Let_def)

lemma scaleLoop_find:
  "scaleLoop e tr pred items =
     (case find (isProperPrefix pred) items of
        None \<Rightarrow> Inr tr
      | Some dep \<Rightarrow>
          (case Spec_Replicas dep of
             None \<Rightarrow> Inl tr
           | Some currentReplicas \<Rightarrow>
               (case Deployments_Update e tr (PodNamespace pred)
                       (dep\<lparr>Spec_Replicas := Some (int32 (currentReplicas + 1))\<rparr>) of
                  Some err \<Rightarrow>
                    Inr (tr @ [Call (DeploymentsUpdate (PodNamespace pred) (Deployment.Name dep)
                                      (Some (int32 (currentReplicas + 1)))),
                               Print (FailedScale err)])
                | None \<Rightarrow>
                    Inr (logAction e
                          (tr @ [Call (DeploymentsUpdate (PodNamespace pred) (Deployment.Name dep)
                                        (Some (int32 (currentReplicas + 1)))),
                                 Print (AutoScaled (Deployment.Name dep) currentReplicas
                                          (int32 (currentReplicas + 1)))])
                          ''AUTO_SCALE_UP'' pred))))"
  by (induction items) (simp_all add: isProperPrefix_def Let_def split: option.split)

lemma restart_failed:
  assumes "\<not> ActionEngine.dryRun a"
    and "Action pred \<in> {''RESTART_POD_URGENT'', ''RESTART_POD''}"
    and "Pods_Delete e tr (PodNamespace pred) (PredictionResult.PodName pred) = Some err"
  shows "dispatch e a tr pred =
     Inr (tr @ [Call (PodsDelete (PodNamespace pred) (PredictionResult.PodName pred)),
                Print (LogFailedRestart (PodNamespace pred) (PredictionResult.PodName pred) err)])"
  using assms by (auto simp add: dispatch_def restartPod_def Let_def)

lemma scale_failed:
  assumes "\<not> ActionEngine.dryRun a"
    and "Action pred \<in> {''SCALE_UP_URGENT'', ''SCALE_UP''}"
    and "Deployments_List e tr (PodNamespace pred) = Inr items"
    and "find (isProperPrefix pred) items = Some dep"
    and "Spec_Replicas dep = Some currentReplicas"
    and "Deployments_Update e (tr @ [Call (DeploymentsList (PodNamespace pred))]) (PodNamespace pred)
           (dep\<lparr>Spec_Replicas := Some (int32 (currentReplicas + 1))\<rparr>) = Some err"
  shows "dispatch e a tr pred =
     Inr (tr @ [Call (DeploymentsList (PodNamespace pred)),
                Call (DeploymentsUpdate (PodNamespace pred) (Deployment.Name dep)
                        (Some (int32 (currentReplicas + 1)))),
                Print (FailedScale err)])"
  using assms by (auto simp add: dispatch_def scaleUpDeployment_def scaleLoop_find)

lemma network_delete_failed:
  assumes "\<not> AutoHealer.dryRun h"
    and "networkLoop lib e (tr @ [Call TimeNow]) cr networkCommands [] False = (results, True, trn)"
    and "Pods_Delete e trn (ContainerCheckResult.Namespace cr) (ContainerCheckResult.PodName cr)
           = Some err"
  shows "ActionType (fst (fixNetworkConnectivity lib e h tr cr check)) = ''FIX_NETWORK''
       \<and> Result (fst (fixNetworkConnectivity lib e h tr cr check))
           = Join (results @ [''Network still failing - attempting pod restart'',
                              ''Pod restart failed: '' @ err]) ''; ''
       \<and> snd (fixNetworkConnectivity lib e h tr cr check)
           = trn @ [Call (PodsDelete (ContainerCheckResult.Namespace cr)
                                     (ContainerCheckResult.PodName cr))]"
  using assms by (simp add: fixNetworkConnectivity_def newAction_eq Let_def)


text \<open>
  Outside a dry run the status that \<^verbatim>\<open>fixNetworkConnectivity\<close> returns is the one of its last
  assignment.
\<close>

lemma network_status:
  assumes "\<not> AutoHealer.dryRun h"
  shows "HealingAction.Status (fst (fixNetworkConnectivity lib e h tr cr check)) = ''COMPLETED''"
  using assms
  by (simp add: fixNetworkConnectivity_def newAction_eq Let_def split: prod.split option.split)


subsection \<open>The audit log and the counters\<close>

lemma run_ExecuteActions_audit:
  "run_ExecuteActions e s tr predictions = Inr (s', tr') \<Longrightarrow> auditLog s' = auditLog s"
  by (auto simp add: run_ExecuteActions_def auditLog_def split: sum.splits)


text \<open>
  C4, as stated, at a concrete input: in a dry run a restart prediction leaves the audit
  log empty.  The engine prints its dry-run line, increments the counter and records
  nothing.
\<close>

theorem dry_run_audit_counterexample:
  "ActionEngine.dryRun (actionEngine (newProcess True))
   \<and> Action restartWeb = ''RESTART_POD''
   \<and> (case run_ExecuteActions quietEnv (newProcess True) [] [restartWeb] of
         Inl panic \<Rightarrow> False
       | Inr (s, tr) \<Rightarrow>
           auditLog s = []
         \<and> tr = [Print ExecutingBanner, Dispatch ''default/web'' ''RESTART_POD'',
                 Print (DryRunRestart ''default'' ''web''), Print ClosingRule]
         \<and> count_of (actionEngine s) ''default/web'' = 1)"
  by code_simp


text \<open>
  C4, amended: in a dry run neither the action engine nor the auto healer deletes a pod,
  updates a deployment or runs a command in a container, and the engine cannot panic.
  Every fix that the auto healer selects is returned and appended to its history as a record
  with status DRY_RUN whose result describes the intended change, and the healer only reads
  the clock.  The action engine writes no audit record: for a scale-up or restart tag it
  prints one dry-run line, and it increments the counter of the key as in a real run.
\<close>

theorem dry_run_is_quiet:
  assumes "ActionEngine.dryRun a" and "AutoHealer.dryRun h"
  shows "(\<exists>a' evs. ExecuteActions e a tr predictions = Inr (a', tr @ evs) \<and> quiet evs)
       \<and> (Action pred \<in> {''SCALE_UP_URGENT'', ''SCALE_UP''} \<longrightarrow>
            dispatch e a tr pred
              = Inr (tr @ [Print (DryRunScaleUp (PodNamespace pred) (PredictionResult.PodName pred))]))
       \<and> (Action pred \<in> {''RESTART_POD_URGENT'', ''RESTART_POD''} \<longrightarrow>
            dispatch e a tr pred
              = Inr (tr @ [Print (DryRunRestart (PodNamespace pred) (PredictionResult.PodName pred))]))
       \<and> (count_of a (Sprintf_key (PodNamespace pred) (PredictionResult.PodName pred)) < 3 \<longrightarrow>
            (\<exists>tr'. executeLoop e a tr [pred] =
               Inr (a\<lparr>actionCounts := (actionCounts a)
                        (Sprintf_key (PodNamespace pred) (PredictionResult.PodName pred) \<mapsto>
                         count_of a (Sprintf_key (PodNamespace pred) (PredictionResult.PodName pred)) + 1)\<rparr>,
                    tr')))
       \<and> (\<forall>s' tr'. run_ExecuteActions e s tr predictions = Inr (s', tr') \<longrightarrow> auditLog s' = auditLog s)
       \<and> (\<exists>actions. HealContainerIssues lib e h tr containerChecks
              = (actions, h\<lparr>AutoHealer.history := lastHundred (AutoHealer.history h @ actions)\<rparr>,
                 tr @ replicate (length actions) (Call TimeNow))
            \<and> map target actions = fixes_of containerChecks
            \<and> list_all dryRecord actions)"
proof -
  let ?key = "Sprintf_key (PodNamespace pred) (PredictionResult.PodName pred)"
  have 1: "\<exists>a' evs. ExecuteActions e a tr predictions = Inr (a', tr @ evs) \<and> quiet evs"
    by (rule ExecuteActions_dry_run[OF assms(1)])
  have 4: "count_of a ?key < 3 \<longrightarrow>
            (\<exists>tr'. executeLoop e a tr [pred] =
               Inr (a\<lparr>actionCounts := (actionCounts a)(?key \<mapsto> count_of a ?key + 1)\<rparr>, tr'))"
  proof
    assume c: "count_of a ?key < 3"
    from dispatch_dry_run[OF assms(1), of e "tr @ [Dispatch ?key (Action pred)]" pred]
    obtain evs where "dispatch e a (tr @ [Dispatch ?key (Action pred)]) pred
        = Inr (tr @ [Dispatch ?key (Action pred)] @ evs)" by auto
    from executeLoop_single[OF c this] show "\<exists>tr'. executeLoop e a tr [pred] =
               Inr (a\<lparr>actionCounts := (actionCounts a)(?key \<mapsto> count_of a ?key + 1)\<rparr>, tr')"
      by blast
  qed
  have 5: "\<forall>s' tr'. run_ExecuteActions e s tr predictions = Inr (s', tr') \<longrightarrow> auditLog s' = auditLog s"
    using run_ExecuteActions_audit by blast
  from 1 dispatch_dry_run_line[OF assms(1), of pred e tr] 4 5
    HealContainerIssues_dry_run[OF assms(2), of lib e tr containerChecks]
  show ?thesis by blast
qed


text \<open>
  The amended C4 at a restart prediction and at a container with a full /tmp directory and
  a failed connectivity probe.
\<close>

theorem dry_run_is_quiet_witness:
  "ActionEngine.dryRun (New_ActionEngine True) \<and> AutoHealer.dryRun (NewAutoHealer True)
   \<and> (\<exists>a' evs. ExecuteActions failingEnv (New_ActionEngine True) [] [restartWeb] = Inr (a', evs)
         \<and> quiet evs)
   \<and> dispatch failingEnv (New_ActionEngine True) [] restartWeb
        = Inr [Print (DryRunRestart ''default'' ''web'')]
   \<and> (\<exists>actions. HealContainerIssues plainLib unreachableEnv (NewAutoHealer True) [] [webChecks]
          = (actions, (NewAutoHealer True)\<lparr>AutoHealer.history := actions\<rparr>,
             [Call TimeNow, Call TimeNow])
        \<and> map target actions = [(''CLEANUP_TMP'', ''default'', ''web'', ''app''),
                                 (''FIX_NETWORK'', ''default'', ''web'', ''app'')]
        \<and> list_all dryRecord actions)"
proof -
  have a: "ActionEngine.dryRun (New_ActionEngine True)" by (simp add: New_ActionEngine_def)
  have h: "AutoHealer.dryRun (NewAutoHealer True)" by (simp add: NewAutoHealer_def)
  have r: "Action restartWeb = ''RESTART_POD''" "PodNamespace restartWeb = ''default''"
    "PredictionResult.PodName restartWeb = ''web''" by code_simp+
  have f: "fixes_of [webChecks] = [(''CLEANUP_TMP'', ''default'', ''web'', ''app''),
                                   (''FIX_NETWORK'', ''default'', ''web'', ''app'')]"
    by code_simp
  have e: "AutoHealer.history (NewAutoHealer True) = []" by (simp add: NewAutoHealer_def)
  note t = dry_run_is_quiet[OF a h, where e=failingEnv and tr="[]" and predictions="[restartWeb]"
      and pred=restartWeb]
  have 1: "\<exists>a' evs. ExecuteActions failingEnv (New_ActionEngine True) [] [restartWeb] = Inr (a', evs)
         \<and> quiet evs"
    using t by simp
  have 2: "dispatch failingEnv (New_ActionEngine True) [] restartWeb
        = Inr [Print (DryRunRestart ''default'' ''web'')]"
    using t r by simp
  from dry_run_is_quiet[OF a h, where lib=plainLib and e=unreachableEnv and tr="[]"
      and containerChecks="[webChecks]"]
  obtain actions where 3: "HealContainerIssues plainLib unreachableEnv (NewAutoHealer True) [] [webChecks]
      = (actions, (NewAutoHealer True)\<lparr>AutoHealer.history :=
            lastHundred (AutoHealer.history (NewAutoHealer True) @ actions)\<rparr>,
         [] @ replicate (length actions) (Call TimeNow))"
    and 4: "map target actions = fixes_of [webChecks]" and 5: "list_all dryRecord actions" by blast
  have "length (map target actions) = 2" unfolding 4 f by simp
  then have n: "length actions = 2" by simp
  have "lastHundred actions = actions" using n by (simp add: lastHundred_def)
  moreover have "replicate (length actions) (Call TimeNow) = [Call TimeNow, Call TimeNow]"
    using n by (simp add: numeral_2_eq_2)
  ultimately have 6: "HealContainerIssues plainLib unreachableEnv (NewAutoHealer True) [] [webChecks]
          = (actions, (NewAutoHealer True)\<lparr>AutoHealer.history := actions\<rparr>,
             [Call TimeNow, Call TimeNow])"
    using 3 e by simp
  have 7: "\<exists>actions. HealContainerIssues plainLib unreachableEnv (NewAutoHealer True) [] [webChecks]
          = (actions, (NewAutoHealer True)\<lparr>AutoHealer.history := actions\<rparr>,
             [Call TimeNow, Call TimeNow])
        \<and> map target actions = [(''CLEANUP_TMP'', ''default'', ''web'', ''app''),
                                 (''FIX_NETWORK'', ''default'', ''web'', ''app'')]
        \<and> list_all dryRecord actions"
    using 6 4 5 f by (intro exI[of _ actions]) simp
  show ?thesis by (intro conjI a h 1 2 7)
qed


text \<open>
  C5, as stated, at a concrete input: outside a dry run, a restart whose delete the cluster
  refuses leaves the audit log empty; the failure is written to the log output only, and
  the counter is incremented.
\<close>

theorem failed_delete_audit_counterexample:
  "\<not> ActionEngine.dryRun (actionEngine (newProcess False))
   \<and> Pods_Delete failingEnv [Print ExecutingBanner, Dispatch ''default/web'' ''RESTART_POD'']
        ''default'' ''web'' = Some ''forbidden''
   \<and> (case run_ExecuteActions failingEnv (newProcess False) [] [restartWeb] of
         Inl panic \<Rightarrow> False
       | Inr (s, tr) \<Rightarrow>
           auditLog s = []
         \<and> tr = [Print ExecutingBanner, Dispatch ''default/web'' ''RESTART_POD'',
                 Call (PodsDelete ''default'' ''web''),
                 Print (LogFailedRestart ''default'' ''web'' ''forbidden''), Print ClosingRule]
         \<and> count_of (actionEngine s) ''default/web'' = 1)"
  by code_simp


text \<open>
  C5, amended: when the delete of a restart or the update of a scale-up that the action
  engine dispatches fails, the engine writes the error to its log output or console,
  increments the counter of the key, and no audit record is written (the engine never
  touches the audit log).  When the delete that the auto healer issues after a failed
  network fix fails, the result of the audit record carries the error detail after the
  results of the commands, and the action type stays FIX_NETWORK.
\<close>

theorem failed_mutation_is_logged:
  "(\<not> ActionEngine.dryRun a
      \<and> count_of a (Sprintf_key (PodNamespace pred) (PredictionResult.PodName pred)) < 3
      \<and> Action pred \<in> {''RESTART_POD_URGENT'', ''RESTART_POD''}
      \<and> Pods_Delete e
           (tr @ [Dispatch (Sprintf_key (PodNamespace pred) (PredictionResult.PodName pred))
                    (Action pred)])
           (PodNamespace pred) (PredictionResult.PodName pred) = Some err
    \<longrightarrow> executeLoop e a tr [pred] =
          Inr (a\<lparr>actionCounts := (actionCounts a)
                   (Sprintf_key (PodNamespace pred) (PredictionResult.PodName pred) \<mapsto>
                    count_of a (Sprintf_key (PodNamespace pred) (PredictionResult.PodName pred)) + 1)\<rparr>,
               tr @ [Dispatch (Sprintf_key (PodNamespace pred) (PredictionResult.PodName pred))
                       (Action pred),
                     Call (PodsDelete (PodNamespace pred) (PredictionResult.PodName pred)),
                     Print (LogFailedRestart (PodNamespace pred) (PredictionResult.PodName pred)
                              err)]))
   \<and> (\<not> ActionEngine.dryRun a
      \<and> count_of a (Sprintf_key (PodNamespace pred) (PredictionResult.PodName pred)) < 3
      \<and> Action pred \<in> {''SCALE_UP_URGENT'', ''SCALE_UP''}
      \<and> Deployments_List e
           (tr @ [Dispatch (Sprintf_key (PodNamespace pred) (PredictionResult.PodName pred))
                    (Action pred)])
           (PodNamespace pred) = Inr items
      \<and> find (isProperPrefix pred) items = Some dep
      \<and> Spec_Replicas dep = Some currentReplicas
      \<and> Deployments_Update e
           (tr @ [Dispatch (Sprintf_key (PodNamespace pred) (PredictionResult.PodName pred))
                    (Action pred),
                  Call (DeploymentsList (PodNamespace pred))])
           (PodNamespace pred)
           (dep\<lparr>Spec_Replicas := Some (int32 (currentReplicas + 1))\<rparr>) = Some err
    \<longrightarrow> executeLoop e a tr [pred] =
          Inr (a\<lparr>actionCounts := (actionCounts a)
                   (Sprintf_key (PodNamespace pred) (PredictionResult.PodName pred) \<mapsto>
                    count_of a (Sprintf_key (PodNamespace pred) (PredictionResult.PodName pred)) + 1)\<rparr>,
               tr @ [Dispatch (Sprintf_key (PodNamespace pred) (PredictionResult.PodName pred))
                       (Action pred),
                     Call (DeploymentsList (PodNamespace pred)),
                     Call (DeploymentsUpdate (PodNamespace pred) (Deployment.Name dep)
                             (Some (int32 (currentReplicas + 1)))),
                     Print (FailedScale err)]))
   \<and> (\<forall>s' tr'. run_ExecuteActions e s tr predictions = Inr (s', tr') \<longrightarrow> auditLog s' = auditLog s)
   \<and> (\<not> AutoHealer.dryRun h
      \<and> networkLoop lib e (tr @ [Call TimeNow]) cr networkCommands [] False = (results, True, trn)
      \<and> Pods_Delete e trn (ContainerCheckResult.Namespace cr) (ContainerCheckResult.PodName cr)
           = Some err
    \<longrightarrow> ActionType (fst (fixNetworkConnectivity lib e h tr cr check)) = ''FIX_NETWORK''
        \<and> Result (fst (fixNetworkConnectivity lib e h tr cr check))
            = Join (results @ [''Network still failing - attempting pod restart'',
                               ''Pod restart failed: '' @ err]) ''; ''
        \<and> snd (fixNetworkConnectivity lib e h tr cr check)
            = trn @ [Call (PodsDelete (ContainerCheckResult.Namespace cr)
                                      (ContainerCheckResult.PodName cr))])"
proof -
  let ?key = "Sprintf_key (PodNamespace pred) (PredictionResult.PodName pred)"
  let ?tr = "tr @ [Dispatch ?key (Action pred)]"
  have 1: "\<not> ActionEngine.dryRun a \<and> count_of a ?key < 3
      \<and> Action pred \<in> {''RESTART_POD_URGENT'', ''RESTART_POD''}
      \<and> Pods_Delete e ?tr (PodNamespace pred) (PredictionResult.PodName pred) = Some err
    \<longrightarrow> executeLoop e a tr [pred] =
          Inr (a\<lparr>actionCounts := (actionCounts a)(?key \<mapsto> count_of a ?key + 1)\<rparr>,
               tr @ [Dispatch ?key (Action pred),
                     Call (PodsDelete (PodNamespace pred) (PredictionResult.PodName pred)),
                     Print (LogFailedRestart (PodNamespace pred) (PredictionResult.PodName pred)
                              err)])"
  proof
    assume h: "\<not> ActionEngine.dryRun a \<and> count_of a ?key < 3
      \<and> Action pred \<in> {''RESTART_POD_URGENT'', ''RESTART_POD''}
      \<and> Pods_Delete e ?tr (PodNamespace pred) (PredictionResult.PodName pred) = Some err"
    then have d: "dispatch e a ?tr pred =
       Inr (?tr @ [Call (PodsDelete (PodNamespace pred) (PredictionResult.PodName pred)),
                Print (LogFailedRestart (PodNamespace pred) (PredictionResult.PodName pred) err)])"
      by (intro restart_failed) simp_all
    from h have c: "count_of a ?key < 3" by simp
    from executeLoop_single[OF c d] show "executeLoop e a tr [pred] =
          Inr (a\<lparr>actionCounts := (actionCounts a)(?key \<mapsto> count_of a ?key + 1)\<rparr>,
               tr @ [Dispatch ?key (Action pred),
                     Call (PodsDelete (PodNamespace pred) (PredictionResult.PodName pred)),
                     Print (LogFailedRestart (PodNamespace pred) (PredictionResult.PodName pred)
                              err)])" by simp
  qed
  have 2: "\<not> ActionEngine.dryRun a \<and> count_of a ?key < 3
      \<and> Action pred \<in> {''SCALE_UP_URGENT'', ''SCALE_UP''}
      \<and> Deployments_List e ?tr (PodNamespace pred) = Inr items
      \<and> find (isProperPrefix pred) items = Some dep
      \<and> Spec_Replicas dep = Some currentReplicas
      \<and> Deployments_Update e (tr @ [Dispatch ?key (Action pred),
                  Call (DeploymentsList (PodNamespace pred))])
           (PodNamespace pred)
           (dep\<lparr>Spec_Replicas := Some (int32 (currentReplicas + 1))\<rparr>) = Some err
    \<longrightarrow> executeLoop e a tr [pred] =
          Inr (a\<lparr>actionCounts := (actionCounts a)(?key \<mapsto> count_of a ?key + 1)\<rparr>,
               tr @ [Dispatch ?key (Action pred),
                     Call (DeploymentsList (PodNamespace pred)),
                     Call (DeploymentsUpdate (PodNamespace pred) (Deployment.Name dep)
                             (Some (int32 (currentReplicas + 1)))),
                     Print (FailedScale err)])"
  proof
    assume h: "\<not> ActionEngine.dryRun a \<and> count_of a ?key < 3
      \<and> Action pred \<in> {''SCALE_UP_URGENT'', ''SCALE_UP''}
      \<and> Deployments_List e ?tr (PodNamespace pred) = Inr items
      \<and> find (isProperPrefix pred) items = Some dep
      \<and> Spec_Replicas dep = Some currentReplicas
      \<and> Deployments_Update e (tr @ [Dispatch ?key (Action pred),
                  Call (DeploymentsList (PodNamespace pred))])
           (PodNamespace pred)
           (dep\<lparr>Spec_Replicas := Some (int32 (currentReplicas + 1))\<rparr>) = Some err"
    then have d: "dispatch e a ?tr pred =
       Inr (?tr @ [Call (DeploymentsList (PodNamespace pred)),
                Call (DeploymentsUpdate (PodNamespace pred) (Deployment.Name dep)
                        (Some (int32 (currentReplicas + 1)))),
                Print (FailedScale err)])"
      by (intro scale_failed[where items=items]) simp_all
    from h have c: "count_of a ?key < 3" by simp
    from executeLoop_single[OF c d] show "executeLoop e a tr [pred] =
          Inr (a\<lparr>actionCounts := (actionCounts a)(?key \<mapsto> count_of a ?key + 1)\<rparr>,
               tr @ [Dispatch ?key (Action pred),
                     Call (DeploymentsList (PodNamespace pred)),
                     Call (DeploymentsUpdate (PodNamespace pred) (Deployment.Name dep)
                             (Some (int32 (currentReplicas + 1)))),
                     Print (FailedScale err)])" by simp
  qed
  have 3: "\<forall>s' tr'. run_ExecuteActions e s tr predictions = Inr (s', tr') \<longrightarrow> auditLog s' = auditLog s"
    using run_ExecuteActions_audit by blast
  from 1 2 3 network_delete_failed[of h lib e tr cr results trn err check]
  show ?thesis by blast
qed


text \<open>
  The amended C5 at a refused restart, a refused scale-up and a refused delete after a
  failed network fix.
\<close>

theorem failed_mutation_is_logged_witness:
  "executeLoop failingEnv (New_ActionEngine False) [] [restartWeb] =
     Inr ((New_ActionEngine False)\<lparr>actionCounts := [''default/web'' \<mapsto> 1]\<rparr>,
          [Dispatch ''default/web'' ''RESTART_POD'', Call (PodsDelete ''default'' ''web''),
           Print (LogFailedRestart ''default'' ''web'' ''forbidden'')])
   \<and> executeLoop scaleEnv (New_ActionEngine False) [] [scaleWeb] =
     Inr ((New_ActionEngine False)\<lparr>actionCounts := [''default/web-1'' \<mapsto> 1]\<rparr>,
          [Dispatch ''default/web-1'' ''SCALE_UP'', Call (DeploymentsList ''default''),
           Call (DeploymentsUpdate ''default'' ''web'' (Some 2)),
           Print (FailedScale ''forbidden'')])
   \<and> Result (fst (fixNetworkConnectivity plainLib unreachableEnv (NewAutoHealer False) []
                     webChecks netDown))
       = ''Command failed: timeout; Command failed: timeout; ''
         @ ''Network still failing - attempting pod restart; Pod restart failed: forbidden''"
proof -
  have k: "Sprintf_key (PodNamespace restartWeb) (PredictionResult.PodName restartWeb) = ''default/web''"
    "PodNamespace restartWeb = ''default''" "PredictionResult.PodName restartWeb = ''web''"
    "Action restartWeb = ''RESTART_POD''" "Sprintf_key ''default'' ''web'' = ''default/web''"
    by code_simp+
  have k': "Sprintf_key (PodNamespace scaleWeb) (PredictionResult.PodName scaleWeb) = ''default/web-1''"
    "PodNamespace scaleWeb = ''default''" "PredictionResult.PodName scaleWeb = ''web-1''"
    "Action scaleWeb = ''SCALE_UP''" "Sprintf_key ''default'' ''web-1'' = ''default/web-1''"
    by code_simp+
  have n: "\<not> ActionEngine.dryRun (New_ActionEngine False)"
    "count_of (New_ActionEngine False) key = 0" "actionCounts (New_ActionEngine False) = Map.empty" for key
    by (simp_all add: New_ActionEngine_def count_of_def)
  have d: "Pods_Delete failingEnv tr ns name = Some ''forbidden''" for tr ns name
    by (simp add: failingEnv_def)
  have 1: "executeLoop failingEnv (New_ActionEngine False) [] [restartWeb] =
     Inr ((New_ActionEngine False)\<lparr>actionCounts := [''default/web'' \<mapsto> 1]\<rparr>,
          [Dispatch ''default/web'' ''RESTART_POD'', Call (PodsDelete ''default'' ''web''),
           Print (LogFailedRestart ''default'' ''web'' ''forbidden'')])"
    using failed_mutation_is_logged[where a="New_ActionEngine False" and pred=restartWeb
        and e=failingEnv and tr="[]" and err="''forbidden''", THEN conjunct1]
    by (simp add: k n d del: executeLoop.simps)
  have l: "Deployments_List scaleEnv tr ns = Inr [webDeployment]" for tr ns
    by (simp add: scaleEnv_def)
  have f: "find (isProperPrefix scaleWeb) [webDeployment] = Some webDeployment"
    by code_simp
  have w: "Spec_Replicas webDeployment = Some 1" "Deployment.Name webDeployment = ''web''"
    "int32 (1 + 1) = 2" "int32 2 = 2" "isProperPrefix scaleWeb webDeployment" by code_simp+
  have u: "Deployments_Update scaleEnv tr ns dep = Some ''forbidden''" for tr ns dep
    by (simp add: scaleEnv_def failingEnv_def)
  have 2: "executeLoop scaleEnv (New_ActionEngine False) [] [scaleWeb] =
     Inr ((New_ActionEngine False)\<lparr>actionCounts := [''default/web-1'' \<mapsto> 1]\<rparr>,
          [Dispatch ''default/web-1'' ''SCALE_UP'', Call (DeploymentsList ''default''),
           Call (DeploymentsUpdate ''default'' ''web'' (Some 2)),
           Print (FailedScale ''forbidden'')])"
    using failed_mutation_is_logged[where a="New_ActionEngine False" and pred=scaleWeb
        and e=scaleEnv and tr="[]" and err="''forbidden''" and items="[webDeployment]"
        and dep=webDeployment and currentReplicas=1, THEN conjunct2, THEN conjunct1]
    by (simp add: k' n l f w u del: executeLoop.simps)
  have h: "\<not> AutoHealer.dryRun (NewAutoHealer False)" by (simp add: NewAutoHealer_def)
  have nl: "networkLoop plainLib unreachableEnv ([] @ [Call TimeNow]) webChecks networkCommands [] False
      = ([''Command failed: timeout'', ''Command failed: timeout''], True,
         [Call TimeNow] @ map (\<lambda>cmd. Call (ExecStream ''default'' ''web'' ''app'' cmd)) networkCommands)"
    by code_simp
  have pd: "Pods_Delete unreachableEnv tr ns name = Some ''forbidden''" for tr ns name
    by (simp add: unreachableEnv_def failingEnv_def)
  have j: "Join ([''Command failed: timeout'', ''Command failed: timeout'']
             @ [''Network still failing - attempting pod restart'', ''Pod restart failed: '' @ ''forbidden'']) ''; ''
      = ''Command failed: timeout; Command failed: timeout; ''
         @ ''Network still failing - attempting pod restart; Pod restart failed: forbidden''"
    by code_simp
  have 3: "Result (fst (fixNetworkConnectivity plainLib unreachableEnv (NewAutoHealer False) []
                     webChecks netDown))
       = ''Command failed: timeout; Command failed: timeout; ''
         @ ''Network still failing - attempting pod restart; Pod restart failed: forbidden''"
    using failed_mutation_is_logged[where h="NewAutoHealer False" and lib=plainLib
        and e=unreachableEnv and tr="[]" and cr=webChecks and check=netDown
        and results="[''Command failed: timeout'', ''Command failed: timeout'']"
        and trn="[Call TimeNow] @ map (\<lambda>cmd. Call (ExecStream ''default'' ''web'' ''app'' cmd)) networkCommands"
        and err="''forbidden''", THEN conjunct2, THEN conjunct2, THEN conjunct2]
      h nl pd j
    by simp
  show ?thesis by (intro conjI 1 2 3)
qed

section \<open>System namespaces\<close>


text \<open>
  \<open>Contains\<close> finds the substring anywhere in the string.
\<close>

lemma Contains_iff: "Contains s substr \<longleftrightarrow> (\<exists>pre post. s = pre @ substr @ post)"
proof (induction s)
  case Nil
  show ?case by auto
next
  case (Cons c s)
  show ?case
  proof
    assume "Contains (c # s) substr"
    then consider "take (length substr) (c # s) = substr" | "Contains s substr" by auto
    then show "\<exists>pre post. c # s = pre @ substr @ post"
    proof cases
      case 1
      then have "c # s = [] @ substr @ drop (length substr) (c # s)"
        by (metis append_Nil append_take_drop_id)
      then show ?thesis by blast
    next
      case 2
      with Cons.IH obtain pre post where "s = pre @ substr @ post" by auto
      then have "c # s = (c # pre) @ substr @ post" by simp
      then show ?thesis by blast
    qed
  next
    assume "\<exists>pre post. c # s = pre @ substr @ post"
    then obtain pre post where eq: "c # s = pre @ substr @ post" by auto
    show "Contains (c # s) substr"
    proof (cases pre)
      case Nil
      with eq have "take (length substr) (c # s) = substr" by simp
      then show ?thesis by simp
    next
      case (Cons p pre')
      with eq have "s = pre' @ substr @ post" by simp
      with Cons.IH have "Contains s substr" by blast
      then show ?thesis by simp
    qed
  qed
qed


subsection \<open>The records of each stage carry the namespace of their pod\<close>

lemma podMetric_of_Namespace:
  "PodMetrics.Namespace (podMetric_of metricsMap pod age) = Pod.Namespace pod"
  by (simp add: podMetric_of_def Let_def split: option.split prod.split)

lemma collectPods_namespaces:
  "\<forall>m \<in> set (fst (collectPods e tr metricsMap pods)). \<not> isSystemNamespace (PodMetrics.Namespace m)"
proof (induction pods arbitrary: tr)
  case Nil
  show ?case by simp
next
  case (Cons pod pods)
  show ?case
  proof (cases "isSystemNamespace (Pod.Namespace pod)")
    case True
    with Cons.IH[of tr] show ?thesis by simp
  next
    case False
    obtain age tr1 where a: "time_Since e tr (CreationTimestamp pod) = (age, tr1)"
      by (cases "time_Since e tr (CreationTimestamp pod)")
    obtain metrics tr2 where b: "collectPods e tr1 metricsMap pods = (metrics, tr2)"
      by (cases "collectPods e tr1 metricsMap pods")
    from Cons.IH[of tr1] b have "\<forall>m \<in> set metrics. \<not> isSystemNamespace (PodMetrics.Namespace m)"
      by simp
    with False a b show ?thesis by (simp add: podMetric_of_Namespace)
  qed
qed

lemma GetAllPodMetrics_namespaces:
  assumes "GetAllPodMetrics e tr = (Inr metrics, tr')"
  shows "\<forall>m \<in> set metrics. \<not> isSystemNamespace (PodMetrics.Namespace m)"
proof (cases "Pods_List e tr []")
  case (Inl err)
  with assms show ?thesis by (simp add: GetAllPodMetrics_def)
next
  case (Inr pods)
  let ?tr1 = "tr @ [Call (PodsList [])]"
  show ?thesis
  proof (cases "PodMetricses_List e ?tr1 []")
    case (Inl err)
    let ?t = "?tr1 @ [Call (PodMetricsesList [])] @ [Print (MetricsWarning err)]"
    from assms Inr Inl have "metrics = fst (collectPods e ?t Map.empty pods)"
      by (simp add: GetAllPodMetrics_def Let_def split: prod.splits)
    then show ?thesis using collectPods_namespaces by simp
  next
    case (Inr items)
    let ?t = "?tr1 @ [Call (PodMetricsesList [])]"
    from assms \<open>Pods_List e tr [] = Inr pods\<close> Inr
    have "metrics = fst (collectPods e ?t (metricsMap_of items) pods)"
      by (simp add: GetAllPodMetrics_def Let_def split: prod.splits)
    then show ?thesis using collectPods_namespaces by simp
  qed
qed

lemma analyzeRestartPattern_Namespace:
  "RestartPattern.Namespace (fst (analyzeRestartPattern e tr pod)) = Pod.Namespace pod"
  using analyzeRestartPattern_identity[of e tr pod] by simp

lemma analyzePods_namespaces:
  "\<forall>p \<in> set (fst (analyzePods e tr pods)). \<not> isSystemNamespace (RestartPattern.Namespace p)"
proof (induction pods arbitrary: tr)
  case Nil
  show ?case by simp
next
  case (Cons pod pods)
  show ?case
  proof (cases "isSystemNamespace (Pod.Namespace pod)")
    case True
    with Cons.IH[of tr] show ?thesis by simp
  next
    case False
    obtain pat tr1 where a: "analyzeRestartPattern e tr pod = (pat, tr1)"
      by (cases "analyzeRestartPattern e tr pod")
    obtain pats tr2 where b: "analyzePods e tr1 pods = (pats, tr2)"
      by (cases "analyzePods e tr1 pods")
    from Cons.IH[of tr1] b have "\<forall>p \<in> set pats. \<not> isSystemNamespace (RestartPattern.Namespace p)"
      by simp
    moreover have "RestartPattern.Namespace pat = Pod.Namespace pod"
      using analyzeRestartPattern_Namespace[of e tr pod] a by simp
    ultimately show ?thesis using False a b by simp
  qed
qed

lemma AnalyzeRestartPatterns_namespaces:
  assumes "AnalyzeRestartPatterns e tr namespace = (Inr patterns, tr')"
  shows "\<forall>p \<in> set patterns. \<not> isSystemNamespace (RestartPattern.Namespace p)"
proof (cases "Pods_List e tr namespace")
  case (Inl err)
  with assms show ?thesis by (simp add: AnalyzeRestartPatterns_def)
next
  case (Inr items)
  with assms have "patterns = fst (analyzePods e (tr @ [Call (PodsList namespace)]) items)"
    by (simp add: AnalyzeRestartPatterns_def split: prod.splits)
  then show ?thesis using analyzePods_namespaces by simp
qed

lemma analyzeContainer_Namespace:
  "DiagnosticResult.Namespace (fst (analyzeContainer lib e d tr namespace podName containerName))
     = namespace"
  by (simp add: analyzeContainer_def Let_def split: prod.split sum.split)

lemma diagnoseContainers_namespaces:
  "\<forall>r \<in> set (fst (diagnoseContainers lib e d tr pod containers)).
     DiagnosticResult.Namespace r = Pod.Namespace pod"
proof (induction containers arbitrary: d tr)
  case Nil
  show ?case by simp
next
  case (Cons container containers)
  obtain r d1 tr1 where a: "analyzeContainer lib e d tr (Pod.Namespace pod) (Pod.Name pod) container
      = (r, d1, tr1)" by (cases "analyzeContainer lib e d tr (Pod.Namespace pod) (Pod.Name pod) container") auto
  obtain rs d2 tr2 where b: "diagnoseContainers lib e d1 tr1 pod containers = (rs, d2, tr2)"
    by (cases "diagnoseContainers lib e d1 tr1 pod containers") auto
  have "DiagnosticResult.Namespace r = Pod.Namespace pod"
    using analyzeContainer_Namespace[of lib e d tr "Pod.Namespace pod" "Pod.Name pod" container] a
    by simp
  moreover from Cons.IH[of d1 tr1] b
  have "\<forall>r \<in> set rs. DiagnosticResult.Namespace r = Pod.Namespace pod" by simp
  ultimately show ?case using a b by simp
qed

lemma diagnosePods_namespaces:
  "\<forall>r \<in> set (fst (diagnosePods lib e d tr pods)). \<not> isSystemNamespace (DiagnosticResult.Namespace r)"
proof (induction pods arbitrary: d tr)
  case Nil
  show ?case by simp
next
  case (Cons pod pods)
  show ?case
  proof (cases "Status_Phase pod \<noteq> ''Running'' \<or> isSystemNamespace (Pod.Namespace pod)")
    case True
    with Cons.IH[of d tr] show ?thesis by auto
  next
    case False
    obtain rs d1 tr1 where a: "diagnoseContainers lib e d tr pod (Spec_Containers pod) = (rs, d1, tr1)"
      by (cases "diagnoseContainers lib e d tr pod (Spec_Containers pod)") auto
    obtain os d2 tr2 where b: "diagnosePods lib e d1 tr1 pods = (os, d2, tr2)"
      by (cases "diagnosePods lib e d1 tr1 pods") auto
    from diagnoseContainers_namespaces[of lib e d tr pod "Spec_Containers pod"] a False
    have "\<forall>r \<in> set rs. \<not> isSystemNamespace (DiagnosticResult.Namespace r)" by simp
    moreover from Cons.IH[of d1 tr1] b
    have "\<forall>r \<in> set os. \<not> isSystemNamespace (DiagnosticResult.Namespace r)" by simp
    ultimately show ?thesis using False a b by auto
  qed
qed

lemma DiagnoseStuckContainers_namespaces:
  assumes "DiagnoseStuckContainers lib e d tr namespace = (Inr results, d', tr')"
  shows "\<forall>r \<in> set results. \<not> isSystemNamespace (DiagnosticResult.Namespace r)"
proof (cases "Pods_List e tr namespace")
  case (Inl err)
  with assms show ?thesis by (simp add: DiagnoseStuckContainers_def)
next
  case (Inr items)
  with assms have "results = fst (diagnosePods lib e d (tr @ [Call (PodsList namespace)]) items)"
    by (simp add: DiagnoseStuckContainers_def split: prod.splits)
  then show ?thesis using diagnosePods_namespaces by simp
qed

lemma overallStatus_step:
  "ContainerCheckResult.Namespace (overallStatus check result)
     = ContainerCheckResult.Namespace result"
  by (simp add: overallStatus_def)

lemma overallStatus_Namespace:
  "ContainerCheckResult.Namespace (fold overallStatus checks result)
     = ContainerCheckResult.Namespace result"
  by (induction checks arbitrary: result) (simp_all add: overallStatus_def)

lemma checkContainer_Namespace:
  "ContainerCheckResult.Namespace (fst (checkContainer lib e tr namespace podName containerName))
     = namespace"
  by (simp add: checkContainer_def Let_def overallStatus_step split: prod.split)

lemma checkContainers_namespaces:
  "\<forall>r \<in> set (fst (checkContainers lib e tr pod containers)).
     ContainerCheckResult.Namespace r = Pod.Namespace pod"
proof (induction containers arbitrary: tr)
  case Nil
  show ?case by simp
next
  case (Cons container containers)
  obtain r tr1 where a: "checkContainer lib e tr (Pod.Namespace pod) (Pod.Name pod) container = (r, tr1)"
    by (cases "checkContainer lib e tr (Pod.Namespace pod) (Pod.Name pod) container")
  obtain rs tr2 where b: "checkContainers lib e tr1 pod containers = (rs, tr2)"
    by (cases "checkContainers lib e tr1 pod containers")
  have "ContainerCheckResult.Namespace r = Pod.Namespace pod"
    using checkContainer_Namespace[of lib e tr "Pod.Namespace pod" "Pod.Name pod" container] a
    by simp
  moreover from Cons.IH[of tr1] b
  have "\<forall>r \<in> set rs. ContainerCheckResult.Namespace r = Pod.Namespace pod" by simp
  ultimately show ?case using a b by simp
qed

lemma checkPods_namespaces:
  "\<forall>r \<in> set (fst (checkPods lib e tr pods)). \<not> isSystemNamespace (ContainerCheckResult.Namespace r)"
proof (induction pods arbitrary: tr)
  case Nil
  show ?case by simp
next
  case (Cons pod pods)
  show ?case
  proof (cases "Status_Phase pod \<noteq> ''Running'' \<or> isSystemNamespace (Pod.Namespace pod)")
    case True
    with Cons.IH[of tr] show ?thesis by auto
  next
    case False
    obtain rs tr1 where a: "checkContainers lib e tr pod (Spec_Containers pod) = (rs, tr1)"
      by (cases "checkContainers lib e tr pod (Spec_Containers pod)")
    obtain os tr2 where b: "checkPods lib e tr1 pods = (os, tr2)"
      by (cases "checkPods lib e tr1 pods")
    from checkContainers_namespaces[of lib e tr pod "Spec_Containers pod"] a False
    have "\<forall>r \<in> set rs. \<not> isSystemNamespace (ContainerCheckResult.Namespace r)" by simp
    moreover from Cons.IH[of tr1] b
    have "\<forall>r \<in> set os. \<not> isSystemNamespace (ContainerCheckResult.Namespace r)" by simp
    ultimately show ?thesis using False a b by auto
  qed
qed

lemma RunContainerChecks_namespaces:
  assumes "RunContainerChecks lib e tr namespace = (Inr results, tr')"
  shows "\<forall>r \<in> set results. \<not> isSystemNamespace (ContainerCheckResult.Namespace r)"
proof (cases "Pods_List e tr namespace")
  case (Inl err)
  with assms show ?thesis by (simp add: RunContainerChecks_def)
next
  case (Inr items)
  with assms have "results = fst (checkPods lib e (tr @ [Call (PodsList namespace)]) items)"
    by (simp add: RunContainerChecks_def split: prod.splits)
  then show ?thesis using checkPods_namespaces by simp
qed


text \<open>
  C10: every PodMetrics that the collector returns, every RestartPattern of the restart
  analyzer, every DiagnosticResult of the stuck-container diagnosis and every
  ContainerCheckResult of the container checks has a namespace that is not a system
  namespace, whatever the cluster lists and answers; and a namespace is a system namespace
  exactly when \<open>kube-\<close> or \<open>healer-\<close> occurs anywhere in it, not only at its start.  So
  no stage emits a record for a pod of such a namespace.
\<close>

theorem system_namespaces_excluded:
  "(\<forall>metrics tr'. GetAllPodMetrics e tr = (Inr metrics, tr')
       \<longrightarrow> (\<forall>m \<in> set metrics. \<not> isSystemNamespace (PodMetrics.Namespace m)))
   \<and> (\<forall>patterns tr'. AnalyzeRestartPatterns e tr namespace = (Inr patterns, tr')
       \<longrightarrow> (\<forall>p \<in> set patterns. \<not> isSystemNamespace (RestartPattern.Namespace p)))
   \<and> (\<forall>results d' tr'. DiagnoseStuckContainers lib e d tr namespace = (Inr results, d', tr')
       \<longrightarrow> (\<forall>r \<in> set results. \<not> isSystemNamespace (DiagnosticResult.Namespace r)))
   \<and> (\<forall>results tr'. RunContainerChecks lib e tr namespace = (Inr results, tr')
       \<longrightarrow> (\<forall>r \<in> set results. \<not> isSystemNamespace (ContainerCheckResult.Namespace r)))
   \<and> (isSystemNamespace ns \<longleftrightarrow>
        (\<exists>pre post. ns = pre @ ''kube-'' @ post) \<or> (\<exists>pre post. ns = pre @ ''healer-'' @ post))"
proof -
  have "isSystemNamespace ns \<longleftrightarrow>
        (\<exists>pre post. ns = pre @ ''kube-'' @ post) \<or> (\<exists>pre post. ns = pre @ ''healer-'' @ post)"
    unfolding isSystemNamespace_def Contains_iff ..
  with GetAllPodMetrics_namespaces[of e tr] AnalyzeRestartPatterns_namespaces[of e tr namespace]
    DiagnoseStuckContainers_namespaces[of lib e d tr namespace]
    RunContainerChecks_namespaces[of lib e tr namespace]
  show ?thesis by blast
qed


text \<open>
  C10 at a cluster that lists a pod of the namespace \<open>team-kube-tools\<close> beside a pod of
  \<open>default\<close>: each stage emits records for the second pod only.
\<close>

theorem system_namespaces_excluded_witness:
  "isSystemNamespace (Pod.Namespace hiddenPod)
   \<and> map PodMetrics.Namespace (case fst (GetAllPodMetrics mixedEnv []) of Inr ms \<Rightarrow> ms | Inl err \<Rightarrow> [])
       = [''default'']
   \<and> map RestartPattern.Namespace
        (case fst (AnalyzeRestartPatterns mixedEnv [] []) of Inr ps \<Rightarrow> ps | Inl err \<Rightarrow> [])
       = [''default'']
   \<and> map ContainerCheckResult.Namespace
        (case fst (RunContainerChecks plainLib mixedEnv [] []) of Inr rs \<Rightarrow> rs | Inl err \<Rightarrow> [])
       = [''default'']
   \<and> \<not> isSystemNamespace ''default''"
proof -
  have h: "isSystemNamespace (Pod.Namespace hiddenPod)" by code_simp
  have m: "map PodMetrics.Namespace (case fst (GetAllPodMetrics mixedEnv []) of Inr ms \<Rightarrow> ms | Inl err \<Rightarrow> [])
       = [''default'']" by code_simp
  have p: "map RestartPattern.Namespace
        (case fst (AnalyzeRestartPatterns mixedEnv [] []) of Inr ps \<Rightarrow> ps | Inl err \<Rightarrow> [])
       = [''default'']" by code_simp
  have c: "map ContainerCheckResult.Namespace
        (case fst (RunContainerChecks plainLib mixedEnv [] []) of Inr rs \<Rightarrow> rs | Inl err \<Rightarrow> [])
       = [''default'']" by code_simp
  obtain r tr' where g: "GetAllPodMetrics mixedEnv [] = (r, tr')"
    by (cases "GetAllPodMetrics mixedEnv []")
  from m g obtain ms where r: "r = Inr ms" by (cases r) auto
  from m g r have "map PodMetrics.Namespace ms = [''default'']" by simp
  then obtain m0 where "m0 \<in> set ms" "PodMetrics.Namespace m0 = ''default''" by auto
  with system_namespaces_excluded[where e=mixedEnv and tr="[]"] g r
  have "\<not> isSystemNamespace ''default''" by fastforce
  with h m p c show ?thesis by (intro conjI)
qed

end
